theory Spec2Isabelle
  imports
    Main
    "HOL-Library.Char_ord"
    "HOL-Library.List_Lexorder"
    "HOL-Library.Product_Lexorder"
    "HOL-Library.Monad_Syntax"
    "HOL-Library.Sublist"
begin

section \<open>Python values used by biotime\_service.py\<close>

text \<open>
  Every \<open>raise\<close> of the program and of the library calls it makes is a value of
  \<open>error\<close>; a function that can raise returns \<open>error + 'a\<close> with \<open>Inl\<close> the
  exception.  The HTTP layer (token, paging, status codes) is not modelled: the lists of
  employees and of transactions that the fetch functions return are parameters.
\<close>

datatype error = ValueError | KeyError | TypeError | OverflowError | IndexError

text \<open>
  The upstream records are JSON objects.  A field of such an object is absent, null or a
  string (the upstream's contract: codes, names and timestamps are strings).
\<close>

datatype jval = Missing | Null | Str string

text \<open>\<open>d.get(k)\<close>: an absent key and a null value both give \<open>None\<close>.\<close>

fun py_get :: "jval \<Rightarrow> string option" where
  "py_get Missing = None"
| "py_get Null = None"
| "py_get (Str s) = Some s"

text \<open>\<open>d[k]\<close>: an absent key raises \<open>KeyError\<close>.\<close>

fun py_getitem :: "jval \<Rightarrow> error + string option" where
  "py_getitem Missing = Inl KeyError"
| "py_getitem Null = Inr None"
| "py_getitem (Str s) = Inr (Some s)"

text \<open>\<open>d.get(k, "")\<close>: the default stands in for an absent key only.\<close>

fun py_get_default :: "jval \<Rightarrow> string \<Rightarrow> string option" where
  "py_get_default Missing dflt = Some dflt"
| "py_get_default Null dflt = None"
| "py_get_default (Str s) dflt = Some s"

text \<open>Truth value of an optional string: \<open>None\<close> and \<open>""\<close> are false.\<close>

fun truthy :: "string option \<Rightarrow> bool" where
  "truthy None = False"
| "truthy (Some s) = (s \<noteq> [])"

section \<open>Decimal text\<close>

definition is_digit :: "char \<Rightarrow> bool" where
  "is_digit c = (CHR ''0'' \<le> c \<and> c \<le> CHR ''9'')"

definition digit_val :: "char \<Rightarrow> int" where
  "digit_val c = of_char c - 48"

text \<open>The character of a digit from 0 to 9.\<close>

definition digit_char :: "int \<Rightarrow> char" where
  "digit_char n = ''0123456789'' ! nat n"

text \<open>The decimal digits of a number that is not negative.\<close>

function show_digits :: "int \<Rightarrow> string" where
  "show_digits n = (if n < 10 then [digit_char n]
                    else show_digits (n div 10) @ [digit_char (n mod 10)])"
  by pat_completeness auto
termination
  by (relation "measure nat") auto

declare show_digits.simps [simp del]

text \<open>\<open>"%d" % n\<close>.\<close>

definition show_int :: "int \<Rightarrow> string" where
  "show_int n = (if n < 0 then CHR ''-'' # show_digits (- n) else show_digits n)"

text \<open>\<open>"%0wd" % n\<close> for \<open>n \<ge> 0\<close>: zero padding on the left up to width \<open>w\<close>.\<close>

definition zpad :: "nat \<Rightarrow> int \<Rightarrow> string" where
  "zpad w n = (let s = show_int n in replicate (w - length s) CHR ''0'' @ s)"

section \<open>The proleptic Gregorian calendar of Python's datetime module\<close>

text \<open>
  The definitions follow the pure Python implementation of the module
  (\<open>_is_leap\<close>, \<open>_days_before_year\<close>, \<open>_days_in_month\<close>, \<open>_days_before_month\<close>,
  \<open>_ymd2ord\<close>, \<open>_ord2ymd\<close>).
\<close>

definition MINYEAR :: int where "MINYEAR = 1"
definition MAXYEAR :: int where "MAXYEAR = 9999"

text \<open>\<open>date.max.toordinal()\<close>, the ordinal of 9999-12-31.\<close>

definition MAXORDINAL :: int where "MAXORDINAL = 3652059"

definition is_leap :: "int \<Rightarrow> bool" where
  "is_leap year = (year mod 4 = 0 \<and> (year mod 100 \<noteq> 0 \<or> year mod 400 = 0))"

definition days_before_year :: "int \<Rightarrow> int" where
  "days_before_year year =
     (let y = year - 1 in y * 365 + y div 4 - y div 100 + y div 400)"

definition DAYS_IN_MONTH :: "int list" where
  "DAYS_IN_MONTH = [-1, 31, 28, 31, 30, 31, 30, 31, 31, 30, 31, 30, 31]"

definition DAYS_BEFORE_MONTH :: "int list" where
  "DAYS_BEFORE_MONTH = [-1, 0, 31, 59, 90, 120, 151, 181, 212, 243, 273, 304, 334]"

text \<open>Both tables are read at indices 1 to 12 only.\<close>

definition days_in_month :: "int \<Rightarrow> int \<Rightarrow> int" where
  "days_in_month year month =
     (if month = 2 \<and> is_leap year then 29 else DAYS_IN_MONTH ! nat month)"

definition days_before_month :: "int \<Rightarrow> int \<Rightarrow> int" where
  "days_before_month year month =
     DAYS_BEFORE_MONTH ! nat month + (if month > 2 \<and> is_leap year then 1 else 0)"

definition ymd2ord :: "int \<Rightarrow> int \<Rightarrow> int \<Rightarrow> int" where
  "ymd2ord year month day =
     days_before_year year + days_before_month year month + day"

definition DI400Y :: int where "DI400Y = 146097"
definition DI100Y :: int where "DI100Y = 36524"
definition DI4Y :: int where "DI4Y = 1461"

definition ord2ymd :: "int \<Rightarrow> int \<times> int \<times> int" where
  "ord2ymd n0 =
     (let n = n0 - 1;
          n400 = n div DI400Y; n = n mod DI400Y;
          year = n400 * 400 + 1;
          n100 = n div DI100Y; n = n mod DI100Y;
          n4 = n div DI4Y; n = n mod DI4Y;
          n1 = n div 365; n = n mod 365;
          year = year + n100 * 100 + n4 * 4 + n1
      in if n1 = 4 \<or> n100 = 4 then (year - 1, 12, 31)
         else
           let leapyear = (n1 = 3 \<and> (n4 \<noteq> 24 \<or> n100 = 3));
               month = (n + 50) div 32;
               preceding = DAYS_BEFORE_MONTH ! nat month
                           + (if month > 2 \<and> leapyear then 1 else 0)
           in if preceding > n
              then
                let month = month - 1;
                    preceding = preceding
                      - (DAYS_IN_MONTH ! nat month + (if month = 2 \<and> leapyear then 1 else 0))
                in (year, month, n - preceding + 1)
              else (year, month, n - preceding + 1))"

section \<open>datetime and timedelta\<close>

text \<open>
  A \<open>datetime\<close> is its date, as the proleptic Gregorian ordinal (\<open>toordinal()\<close>, 1 for
  0001-01-01), and its time of day in seconds.  Python orders dates as it orders their
  ordinals.  The program never reads the microsecond of a datetime (it formats with
  \<open>%S\<close>, compares dates, and compares instants that come from \<open>strptime\<close> and
  \<open>combine\<close>, whose microsecond is 0), so the field is left out.
\<close>

record datetime =
  dt_ord :: int
  dt_sec :: int

text \<open>The key by which Python compares two datetimes: date first, then time of day.\<close>

definition dt_key :: "datetime \<Rightarrow> int \<times> int" where
  "dt_key d = (dt_ord d, dt_sec d)"

text \<open>\<open>datetime(year, month, day, hour, minute, second)\<close> with its range checks.\<close>

definition mk_datetime :: "int \<Rightarrow> int \<Rightarrow> int \<Rightarrow> int \<Rightarrow> int \<Rightarrow> int \<Rightarrow> error + datetime" where
  "mk_datetime year month day hour minute second =
     (if \<not> (MINYEAR \<le> year \<and> year \<le> MAXYEAR) then Inl ValueError
      else if \<not> (1 \<le> month \<and> month \<le> 12) then Inl ValueError
      else if \<not> (1 \<le> day \<and> day \<le> days_in_month year month) then Inl ValueError
      else if \<not> (0 \<le> hour \<and> hour \<le> 23) then Inl ValueError
      else if \<not> (0 \<le> minute \<and> minute \<le> 59) then Inl ValueError
      else if \<not> (0 \<le> second \<and> second \<le> 59) then Inl ValueError
      else Inr \<lparr>dt_ord = ymd2ord year month day,
                dt_sec = hour * 3600 + minute * 60 + second\<rparr>)"

text \<open>\<open>d.weekday()\<close>: Monday is 0 and Sunday is 6.\<close>

definition weekday :: "datetime \<Rightarrow> int" where
  "weekday d = (dt_ord d + 6) mod 7"

text \<open>\<open>d + timedelta(days=k)\<close>; leaving the range of dates raises \<open>OverflowError\<close>.\<close>

definition add_days :: "datetime \<Rightarrow> int \<Rightarrow> error + datetime" where
  "add_days d k =
     (let n = dt_ord d + k
      in if 1 \<le> n \<and> n \<le> MAXORDINAL then Inr (d\<lparr>dt_ord := n\<rparr>) else Inl OverflowError)"

text \<open>\<open>d + timedelta(seconds=k)\<close>.\<close>

definition add_seconds :: "datetime \<Rightarrow> int \<Rightarrow> error + datetime" where
  "add_seconds d k =
     (let t = dt_sec d + k;
          n = dt_ord d + t div 86400
      in if 1 \<le> n \<and> n \<le> MAXORDINAL then Inr \<lparr>dt_ord = n, dt_sec = t mod 86400\<rparr>
         else Inl OverflowError)"

text \<open>\<open>datetime.combine(d.date(), t)\<close> for a time of day \<open>t\<close> in seconds.\<close>

definition combine :: "datetime \<Rightarrow> int \<Rightarrow> datetime" where
  "combine d t = \<lparr>dt_ord = dt_ord d, dt_sec = t\<rparr>"

text \<open>A \<open>timedelta\<close>, normalised as Python keeps it: days and seconds in \<open>0..86399\<close>.\<close>

record timedelta =
  td_days :: int
  td_seconds :: int

definition dt_diff :: "datetime \<Rightarrow> datetime \<Rightarrow> timedelta" where
  "dt_diff a b =
     (let s = (dt_ord a - dt_ord b) * 86400 + (dt_sec a - dt_sec b)
      in \<lparr>td_days = s div 86400, td_seconds = s mod 86400\<rparr>)"

text \<open>\<open>str(delta)\<close>: \<open>H:MM:SS\<close>, after \<open>N day(s), \<close> when the days are not 0.\<close>

definition str_timedelta :: "timedelta \<Rightarrow> string" where
  "str_timedelta td =
     (let mm = td_seconds td div 60; ss = td_seconds td mod 60;
          hh = mm div 60; mm = mm mod 60;
          s = show_int hh @ '':'' @ zpad 2 mm @ '':'' @ zpad 2 ss
      in if td_days td \<noteq> 0
         then show_int (td_days td) @ '' day''
              @ (if \<bar>td_days td\<bar> \<noteq> 1 then ''s'' else '''') @ '', '' @ s
         else s)"

subsection \<open>strftime\<close>

text \<open>
  \<open>d.strftime("%Y-%m-%d")\<close> and \<open>d.strftime("%Y-%m-%d %H:%M:%S")\<close>.  The C library
  formats \<open>%Y\<close>; glibc, on which CPython runs the program, writes the year as a plain
  decimal number, so a year below 1000 has fewer than four digits (\<open>999-01-01\<close>).
  Month, day, hour, minute and second are padded to two digits.
\<close>

definition strftime_date :: "datetime \<Rightarrow> string" where
  "strftime_date d =
     (case ord2ymd (dt_ord d) of
        (y, m, dd) \<Rightarrow> show_int y @ ''-'' @ zpad 2 m @ ''-'' @ zpad 2 dd)"

definition strftime_time :: "datetime \<Rightarrow> string" where
  "strftime_time d =
     zpad 2 (dt_sec d div 3600) @ '':'' @ zpad 2 (dt_sec d div 60 mod 60)
       @ '':'' @ zpad 2 (dt_sec d mod 60)"

definition strftime_full :: "datetime \<Rightarrow> string" where
  "strftime_full d = strftime_date d @ '' '' @ strftime_time d"

subsection \<open>strptime\<close>

text \<open>
  \<open>datetime.strptime(s, "%Y-%m-%d %H:%M:%S")\<close> compiles the format to the regular
  expression
  \<^verbatim>\<open>(\d\d\d\d)-(1[0-2]|0[1-9]|[1-9])-(3[0-1]|[1-2]\d|0[1-9]|[1-9]| [1-9])\s+\<close>
  \<^verbatim>\<open>(2[0-3]|[0-1]\d|\d):([0-5]\d|\d):(6[0-1]|[0-5]\d|\d)\<close>,
  matches it at the start of \<open>s\<close>, raises \<open>ValueError\<close> when there is no match or when
  the match does not end the string, and passes the fields to the \<open>datetime\<close>
  constructor.  A matcher returns the list of its matches in the order in which the
  backtracking search tries them, so the head of the list is the match of the regular
  expression.  A character is a code point below 256; among these \<open>\d\<close> matches the
  digits \<open>0\<close> to \<open>9\<close> only, and \<open>\s\<close> the twelve characters of \<open>is_space\<close>.
\<close>

type_synonym 'a matcher = "string \<Rightarrow> ('a \<times> string) list"

definition in_range :: "char \<Rightarrow> char \<Rightarrow> char \<Rightarrow> bool" where
  "in_range lo hi c = (lo \<le> c \<and> c \<le> hi)"

text \<open>One character of a range, as a number: \<open>[lo-hi]\<close>.\<close>

fun one_digit :: "char \<Rightarrow> char \<Rightarrow> int matcher" where
  "one_digit lo hi (a # r) = (if in_range lo hi a then [(digit_val a, r)] else [])"
| "one_digit lo hi [] = []"

text \<open>Two characters of two ranges, as a number: \<open>[lo1-hi1][lo2-hi2]\<close>.\<close>

fun two_digits :: "char \<Rightarrow> char \<Rightarrow> char \<Rightarrow> char \<Rightarrow> int matcher" where
  "two_digits lo1 hi1 lo2 hi2 (a # b # r) =
     (if in_range lo1 hi1 a \<and> in_range lo2 hi2 b
      then [(10 * digit_val a + digit_val b, r)] else [])"
| "two_digits lo1 hi1 lo2 hi2 [a] = []"
| "two_digits lo1 hi1 lo2 hi2 [] = []"

fun lit :: "char \<Rightarrow> unit matcher" where
  "lit c (a # r) = (if a = c then [((), r)] else [])"
| "lit c [] = []"

definition re_Y :: "int matcher" where
  "re_Y s =
     (case s of
        a # b # c # d # r \<Rightarrow>
          if is_digit a \<and> is_digit b \<and> is_digit c \<and> is_digit d
          then [(1000 * digit_val a + 100 * digit_val b + 10 * digit_val c + digit_val d, r)]
          else []
      | _ \<Rightarrow> [])"

definition re_m :: "int matcher" where
  "re_m s = two_digits CHR ''1'' CHR ''1'' CHR ''0'' CHR ''2'' s
          @ two_digits CHR ''0'' CHR ''0'' CHR ''1'' CHR ''9'' s
          @ one_digit CHR ''1'' CHR ''9'' s"

definition re_d :: "int matcher" where
  "re_d s = two_digits CHR ''3'' CHR ''3'' CHR ''0'' CHR ''1'' s
          @ two_digits CHR ''1'' CHR ''2'' CHR ''0'' CHR ''9'' s
          @ two_digits CHR ''0'' CHR ''0'' CHR ''1'' CHR ''9'' s
          @ one_digit CHR ''1'' CHR ''9'' s
          @ (case s of a # r \<Rightarrow> if a = CHR '' '' then one_digit CHR ''1'' CHR ''9'' r else []
             | [] \<Rightarrow> [])"

definition re_H :: "int matcher" where
  "re_H s = two_digits CHR ''2'' CHR ''2'' CHR ''0'' CHR ''3'' s
          @ two_digits CHR ''0'' CHR ''1'' CHR ''0'' CHR ''9'' s
          @ one_digit CHR ''0'' CHR ''9'' s"

definition re_M :: "int matcher" where
  "re_M s = two_digits CHR ''0'' CHR ''5'' CHR ''0'' CHR ''9'' s
          @ one_digit CHR ''0'' CHR ''9'' s"

definition re_S :: "int matcher" where
  "re_S s = two_digits CHR ''6'' CHR ''6'' CHR ''0'' CHR ''1'' s
          @ two_digits CHR ''0'' CHR ''5'' CHR ''0'' CHR ''9'' s
          @ one_digit CHR ''0'' CHR ''9'' s"

text \<open>
  The characters that \<open>\s\<close> matches in a \<open>str\<close> pattern, below 256: tab to carriage
  return, FS to US, space, NEL (133) and the no-break space (160).
\<close>

definition is_space :: "char \<Rightarrow> bool" where
  "is_space c =
     (let n = (of_char c :: nat)
      in (9 \<le> n \<and> n \<le> 13) \<or> (28 \<le> n \<and> n \<le> 32) \<or> n = 133 \<or> n = 160)"

text \<open>\<open>\s+\<close> is greedy: the longest run first, then the shorter ones.\<close>

definition re_ws :: "unit matcher" where
  "re_ws s = map (\<lambda>k. ((), drop k s)) (rev [1 ..< Suc (length (takeWhile is_space s))])"

definition match_hms :: "(int \<times> int \<times> int) matcher" where
  "match_hms s = do {
     (H, s) \<leftarrow> re_H s;
     (u, s) \<leftarrow> lit CHR '':'' s;
     (M, s) \<leftarrow> re_M s;
     (u, s) \<leftarrow> lit CHR '':'' s;
     (S, s) \<leftarrow> re_S s;
     [((H, M, S), s)]
   }"

definition match_ymd :: "(int \<times> int \<times> int) matcher" where
  "match_ymd s = do {
     (Y, s) \<leftarrow> re_Y s;
     (u, s) \<leftarrow> lit CHR ''-'' s;
     (m, s) \<leftarrow> re_m s;
     (u, s) \<leftarrow> lit CHR ''-'' s;
     (d, s) \<leftarrow> re_d s;
     [((Y, m, d), s)]
   }"

definition match_datetime :: "((int \<times> int \<times> int) \<times> (int \<times> int \<times> int)) matcher" where
  "match_datetime s = do {
     (ymd, s) \<leftarrow> match_ymd s;
     (u, s) \<leftarrow> re_ws s;
     (hms, s) \<leftarrow> match_hms s;
     [((ymd, hms), s)]
   }"

text \<open>\<open>datetime.strptime(s, "%Y-%m-%d %H:%M:%S")\<close>.\<close>

definition strptime :: "string \<Rightarrow> error + datetime" where
  "strptime s =
     (case match_datetime s of
        [] \<Rightarrow> Inl ValueError
      | (((Y, m, d), (H, M, S)), rest) # _ \<Rightarrow>
          if rest \<noteq> [] then Inl ValueError else mk_datetime Y m d H M S)"

text \<open>
  \<open>datetime.strptime(s, "%H:%M:%S").time()\<close>, as seconds since midnight; the date of
  the intermediate datetime is 1900-01-01.
\<close>

definition strptime_time :: "string \<Rightarrow> error + int" where
  "strptime_time s =
     (case match_hms s of
        [] \<Rightarrow> Inl ValueError
      | ((H, M, S), rest) # _ \<Rightarrow>
          if rest \<noteq> [] then Inl ValueError
          else (case mk_datetime 1900 1 1 H M S of
                  Inl e \<Rightarrow> Inl e
                | Inr d \<Rightarrow> Inr (dt_sec d)))"

text \<open>An argument that may be \<open>None\<close>: \<open>strptime(None, ...)\<close> raises \<open>TypeError\<close>.\<close>

fun strptime_opt :: "string option \<Rightarrow> error + datetime" where
  "strptime_opt None = Inl TypeError"
| "strptime_opt (Some s) = strptime s"

section \<open>Upstream records\<close>

text \<open>A punch record of the transactions endpoint, with the fields the program reads.\<close>

record transaction =
  tx_emp_code :: jval
  tx_punch_time :: jval
  tx_first_name :: jval
  tx_department :: jval
  tx_terminal_alias :: jval

text \<open>
  An employee record.  \<open>emp_department\<close> is \<open>None\<close> when the field is not a JSON
  object, and the object's \<open>dept_name\<close> field otherwise.
\<close>

record employee =
  emp_code :: jval
  emp_first_name :: jval
  emp_last_name :: jval
  emp_department :: "jval option"

section \<open>Indexing the transactions (calculate\_attendance\_stats, step 2)\<close>

type_synonym day_map = "string \<rightharpoonup> transaction list"
type_synonym punches_map = "string \<rightharpoonup> day_map"

text \<open>\<open>p_time.split(" ")[0]\<close>: the text before the first space.\<close>

definition date_part :: "string \<Rightarrow> string" where
  "date_part p = takeWhile (\<lambda>c. c \<noteq> CHR '' '') p"

text \<open>\<open>m.get(code, {})\<close> and \<open>m.get(d_str, [])\<close>.\<close>

definition get_emp_punches :: "punches_map \<Rightarrow> string \<Rightarrow> day_map" where
  "get_emp_punches pm code = (case pm code of None \<Rightarrow> Map.empty | Some m \<Rightarrow> m)"

definition get_daily_txs :: "day_map \<Rightarrow> string \<Rightarrow> transaction list" where
  "get_daily_txs m d_str = (case m d_str of None \<Rightarrow> [] | Some l \<Rightarrow> l)"

text \<open>
  The body of \<open>for tx in transactions\<close>.  \<open>punches_map\<close> is a \<open>defaultdict\<close> of
  \<open>defaultdict(list)\<close>: reading an absent key creates the empty entry.
\<close>

definition index_tx :: "punches_map \<Rightarrow> transaction \<Rightarrow> punches_map" where
  "index_tx pm tx =
     (let emp_code = py_get (tx_emp_code tx);
          p_time = py_get (tx_punch_time tx)
      in if truthy emp_code \<and> truthy p_time
         then (case (emp_code, p_time) of
                 (Some code, Some p) \<Rightarrow>
                   let date_str = date_part p;
                       m = get_emp_punches pm code
                   in pm(code \<mapsto> m(date_str \<mapsto> get_daily_txs m date_str @ [tx]))
               | _ \<Rightarrow> pm)
         else pm)"

definition index_transactions :: "transaction list \<Rightarrow> punches_map" where
  "index_transactions transactions = foldl index_tx Map.empty transactions"

text \<open>The record is kept by the indexer: both fields are non-empty strings.\<close>

definition indexable :: "transaction \<Rightarrow> bool" where
  "indexable tx = (truthy (py_get (tx_emp_code tx)) \<and> truthy (py_get (tx_punch_time tx)))"

fun str_of :: "jval \<Rightarrow> string" where
  "str_of (Str s) = s"
| "str_of Null = []"
| "str_of Missing = []"

text \<open>The bucket of a kept record: its employee code and the date part of its timestamp.\<close>

definition in_bucket :: "string \<Rightarrow> string \<Rightarrow> transaction \<Rightarrow> bool" where
  "in_bucket code d_str tx =
     (indexable tx \<and> str_of (tx_emp_code tx) = code
      \<and> date_part (str_of (tx_punch_time tx)) = d_str)"

section \<open>The period aggregator (calculate\_attendance\_stats, steps 3 to 5)\<close>

text \<open>An entry of \<open>late_details\<close>: the dictionary with keys \<open>date\<close>, \<open>punch_time\<close>, \<open>late_by\<close>.\<close>

record late_detail =
  ld_date :: string
  ld_punch_time :: string
  ld_late_by :: string

text \<open>
  The \<open>stats\<close> dictionary of a report row.  Inside the loop over the days its fields are
  the local counters \<open>total_required_days\<close>, \<open>days_present\<close>, \<open>days_late\<close>,
  \<open>days_absent\<close> and the two detail lists.
\<close>

record stats =
  work_days_required :: int
  present :: int
  late :: int
  absent :: int
  late_details :: "late_detail list"
  absent_details :: "string list"

record report_row =
  row_emp_code :: string
  row_first_name :: "string option"
  row_last_name :: "string option"
  row_department :: "string option"
  row_stats :: stats

definition zero_stats :: stats where
  "zero_stats = \<lparr>work_days_required = 0, present = 0, late = 0, absent = 0,
                  late_details = [], absent_details = []\<rparr>"

subsection \<open>The list of days\<close>

text \<open>
  \<open>curr = start_dt; while curr.date() <= end_dt.date(): all_dates.append(curr);
  curr += timedelta(days=1)\<close>.  The addition raises when \<open>curr\<close> is the last date.
\<close>

function all_dates_loop :: "datetime \<Rightarrow> datetime \<Rightarrow> datetime list \<Rightarrow> error + datetime list" where
  "all_dates_loop cur end_dt all_dates =
     (if dt_ord cur \<le> dt_ord end_dt
      then (case add_days cur 1 of
              Inl e \<Rightarrow> Inl e
            | Inr cur' \<Rightarrow> all_dates_loop cur' end_dt (all_dates @ [cur]))
      else Inr all_dates)"
  by pat_completeness auto
termination
  by (relation "measure (\<lambda>(cur, end_dt, all_dates). nat (dt_ord end_dt + 1 - dt_ord cur))")
     (auto simp: add_days_def Let_def split: if_splits)

declare all_dates_loop.simps [simp del]

subsection \<open>One day of one employee\<close>

text \<open>
  \<open>sorted(daily_txs, key=lambda x: x["punch_time"])\<close>.  The keys are computed first, in
  the order of the list (an absent key raises \<open>KeyError\<close>); a \<open>None\<close> among two or more
  keys cannot be compared (\<open>TypeError\<close>); strings are compared as strings, and the sort
  is stable.
\<close>

fun punch_time_keys :: "transaction list \<Rightarrow> error + string option list" where
  "punch_time_keys [] = Inr []"
| "punch_time_keys (x # xs) =
     (case py_getitem (tx_punch_time x) of
        Inl e \<Rightarrow> Inl e
      | Inr k \<Rightarrow> (case punch_time_keys xs of
                   Inl e \<Rightarrow> Inl e
                 | Inr ks \<Rightarrow> Inr (k # ks)))"

definition sorted_by_punch_time :: "transaction list \<Rightarrow> error + transaction list" where
  "sorted_by_punch_time txs =
     (case punch_time_keys txs of
        Inl e \<Rightarrow> Inl e
      | Inr ks \<Rightarrow>
          if 2 \<le> length txs \<and> None \<in> set ks then Inl TypeError
          else Inr (sort_key (\<lambda>x. str_of (tx_punch_time x)) txs))"

text \<open>The body of \<open>for day in all_dates\<close>, on the counters and detail lists.\<close>

definition day_step :: "int \<Rightarrow> day_map \<Rightarrow> stats \<Rightarrow> datetime \<Rightarrow> error + stats" where
  "day_step late_time_struct emp_punches st day =
     (let d_str = strftime_date day;
          is_weekend = (weekday day = 6);
          daily_txs = get_daily_txs emp_punches d_str;
          has_punches = (length daily_txs > 0)
      in if is_weekend
         then (if has_punches then Inr (st\<lparr>present := present st + 1\<rparr>) else Inr st)
         else
           let st = st\<lparr>work_days_required := work_days_required st + 1\<rparr>
           in if \<not> has_punches
              then Inr (st\<lparr>absent := absent st + 1,
                           absent_details := absent_details st @ [d_str]\<rparr>)
              else
                let st = st\<lparr>present := present st + 1\<rparr>
                in case sorted_by_punch_time daily_txs of
                     Inl e \<Rightarrow> Inl e
                   | Inr [] \<Rightarrow> Inl IndexError
                   | Inr (first_punch # rest) \<Rightarrow>
                       (case py_get (tx_punch_time first_punch) of
                          None \<Rightarrow> Inl TypeError
                        | Some first_punch_str \<Rightarrow>
                            (case strptime first_punch_str of
                               Inl e \<Rightarrow> Inl e
                             | Inr first_punch_dt \<Rightarrow>
                                 let threshold_dt = combine day late_time_struct
                                 in if dt_key first_punch_dt > dt_key threshold_dt
                                    then Inr (st\<lparr>late := late st + 1,
                                                 late_details := late_details st @
                                                   [\<lparr>ld_date = d_str,
                                                     ld_punch_time = first_punch_str,
                                                     ld_late_by = str_timedelta
                                                       (dt_diff first_punch_dt threshold_dt)\<rparr>]\<rparr>)
                                    else Inr st)))"

fun days_loop :: "int \<Rightarrow> day_map \<Rightarrow> stats \<Rightarrow> datetime list \<Rightarrow> error + stats" where
  "days_loop late_time_struct emp_punches st [] = Inr st"
| "days_loop late_time_struct emp_punches st (day # days) =
     (case day_step late_time_struct emp_punches st day of
        Inl e \<Rightarrow> Inl e
      | Inr st' \<Rightarrow> days_loop late_time_struct emp_punches st' days)"

subsection \<open>All employees\<close>

definition dept_name :: "employee \<Rightarrow> string option" where
  "dept_name emp = (case emp_department emp of None \<Rightarrow> None | Some v \<Rightarrow> py_get v)"

text \<open>The body of \<open>for emp in employees\<close>; a falsy code is skipped.\<close>

fun employees_loop ::
  "int \<Rightarrow> punches_map \<Rightarrow> datetime list \<Rightarrow> report_row list \<Rightarrow> employee list
   \<Rightarrow> error + report_row list" where
  "employees_loop late_time_struct pm all_dates report_data [] = Inr report_data"
| "employees_loop late_time_struct pm all_dates report_data (emp # emps) =
     (case py_get (emp_code emp) of
        None \<Rightarrow> employees_loop late_time_struct pm all_dates report_data emps
      | Some code \<Rightarrow>
          if code = [] then employees_loop late_time_struct pm all_dates report_data emps
          else
            (case days_loop late_time_struct (get_emp_punches pm code) zero_stats all_dates of
               Inl e \<Rightarrow> Inl e
             | Inr st \<Rightarrow>
                 employees_loop late_time_struct pm all_dates
                   (report_data @
                      [\<lparr>row_emp_code = code,
                        row_first_name = py_get_default (emp_first_name emp) [],
                        row_last_name = py_get_default (emp_last_name emp) [],
                        row_department = dept_name emp,
                        row_stats = st\<rparr>])
                   emps))"

text \<open>
  \<open>calculate_attendance_stats(start_dt, end_dt)\<close>.  The configuration string
  \<open>LATE_AFTER_TIME\<close> and the results of \<open>fetch_all_employees()\<close> and
  \<open>fetch_all_transactions(start_str, end_str)\<close> are parameters.
\<close>

definition calculate_attendance_stats ::
  "string \<Rightarrow> employee list \<Rightarrow> transaction list \<Rightarrow> datetime \<Rightarrow> datetime
   \<Rightarrow> error + report_row list" where
  "calculate_attendance_stats LATE_AFTER_TIME employees transactions start_dt end_dt =
     (let punches_map = index_transactions transactions
      in case strptime_time LATE_AFTER_TIME of
           Inl e \<Rightarrow> Inl e
         | Inr late_time_struct \<Rightarrow>
             (case all_dates_loop start_dt end_dt [] of
                Inl e \<Rightarrow> Inl e
              | Inr all_dates \<Rightarrow>
                  (case employees_loop late_time_struct punches_map all_dates [] employees of
                     Inl e \<Rightarrow> Inl e
                   | Inr report_data \<Rightarrow> Inr (sort_key row_emp_code report_data))))"

text \<open>The test \<open>len(daily_txs) > 0\<close> of a day, for an employee's map of days.\<close>

definition has_punches :: "day_map \<Rightarrow> datetime \<Rightarrow> bool" where
  "has_punches emp_punches day = (get_daily_txs emp_punches (strftime_date day) \<noteq> [])"

section \<open>The report endpoints\<close>

text \<open>
  The response of a report endpoint.  The clock (\<open>datetime.now()\<close>) is the
  parameter \<open>now\<close>; the query parameters \<open>month\<close> and \<open>year\<close> are optional integers.
\<close>

record report =
  rep_period :: string
  rep_period_start :: string
  rep_period_end :: string
  rep_count :: int
  rep_data :: "report_row list"

definition dt_year :: "datetime \<Rightarrow> int" where
  "dt_year d = (case ord2ymd (dt_ord d) of (y, m, dd) \<Rightarrow> y)"

definition dt_month :: "datetime \<Rightarrow> int" where
  "dt_month d = (case ord2ymd (dt_ord d) of (y, m, dd) \<Rightarrow> m)"

text \<open>Truth value of an optional integer: \<open>None\<close> and 0 are false.\<close>

fun truthy_int :: "int option \<Rightarrow> bool" where
  "truthy_int None = False"
| "truthy_int (Some n) = (n \<noteq> 0)"

text \<open>
  The tail common to the three endpoints: the aggregation, the filter
  \<open>[d for d in all_data if d["stats"]["late"] > 0 or d["stats"]["absent"] > 0]\<close> and the
  response.
\<close>

definition filtered_report ::
  "string \<Rightarrow> employee list \<Rightarrow> transaction list \<Rightarrow> string \<Rightarrow> datetime \<Rightarrow> datetime
   \<Rightarrow> error + report" where
  "filtered_report LATE_AFTER_TIME employees transactions period_type start_dt end_dt =
     (case calculate_attendance_stats LATE_AFTER_TIME employees transactions start_dt end_dt of
        Inl e \<Rightarrow> Inl e
      | Inr all_data \<Rightarrow>
          let filtered_data =
                filter (\<lambda>d. late (row_stats d) > 0 \<or> absent (row_stats d) > 0) all_data
          in Inr \<lparr>rep_period = period_type,
                   rep_period_start = strftime_full start_dt,
                   rep_period_end = strftime_full end_dt,
                   rep_count = int (length filtered_data),
                   rep_data = filtered_data\<rparr>)"

text \<open>The period of \<open>attendance_report_monthly(month, year)\<close>.\<close>

definition monthly_period :: "datetime \<Rightarrow> int option \<Rightarrow> int option
   \<Rightarrow> error + (datetime \<times> datetime \<times> string)" where
  "monthly_period now month year =
     (case (month, year) of
        (Some m, Some y) \<Rightarrow>
          if truthy_int month \<and> truthy_int year
          then
            (case mk_datetime y m 1 0 0 0 of
               Inl e \<Rightarrow> Inl e
             | Inr start_dt \<Rightarrow>
                 (case (if m = 12 then mk_datetime (y + 1) 1 1 0 0 0
                        else mk_datetime y (m + 1) 1 0 0 0) of
                    Inl e \<Rightarrow> Inl e
                  | Inr next_month \<Rightarrow>
                      (case add_seconds next_month (- 1) of
                         Inl e \<Rightarrow> Inl e
                       | Inr end_dt \<Rightarrow> Inr (start_dt, end_dt, ''custom_month''))))
          else
            (case mk_datetime (dt_year now) (dt_month now) 1 0 0 0 of
               Inl e \<Rightarrow> Inl e
             | Inr start_dt \<Rightarrow> Inr (start_dt, now, ''current_month_to_date''))
      | _ \<Rightarrow>
          (case mk_datetime (dt_year now) (dt_month now) 1 0 0 0 of
             Inl e \<Rightarrow> Inl e
           | Inr start_dt \<Rightarrow> Inr (start_dt, now, ''current_month_to_date'')))"

definition attendance_report_monthly ::
  "string \<Rightarrow> employee list \<Rightarrow> transaction list \<Rightarrow> datetime \<Rightarrow> int option \<Rightarrow> int option
   \<Rightarrow> error + report" where
  "attendance_report_monthly LATE_AFTER_TIME employees transactions now month year =
     (case monthly_period now month year of
        Inl e \<Rightarrow> Inl e
      | Inr (start_dt, end_dt, period_type) \<Rightarrow>
          filtered_report LATE_AFTER_TIME employees transactions period_type start_dt end_dt)"

text \<open>\<open>attendance_report_weekly()\<close>: from this week's Monday, 00:00:00, to now.\<close>

definition attendance_report_weekly ::
  "string \<Rightarrow> employee list \<Rightarrow> transaction list \<Rightarrow> datetime \<Rightarrow> error + report" where
  "attendance_report_weekly LATE_AFTER_TIME employees transactions now =
     (let days_since_monday = weekday now
      in case add_days now (- days_since_monday) of
           Inl e \<Rightarrow> Inl e
         | Inr this_monday \<Rightarrow>
             let this_monday = this_monday\<lparr>dt_sec := 0\<rparr>;
                 end_dt = now
             in filtered_report LATE_AFTER_TIME employees transactions
                  ''current_week_to_date'' this_monday end_dt)"

text \<open>\<open>attendance_report_monthly_previous()\<close>: the previous calendar month.\<close>

definition attendance_report_monthly_previous ::
  "string \<Rightarrow> employee list \<Rightarrow> transaction list \<Rightarrow> datetime \<Rightarrow> error + report" where
  "attendance_report_monthly_previous LATE_AFTER_TIME employees transactions now =
     (case mk_datetime (dt_year now) (dt_month now) 1 0 0 0 of
        Inl e \<Rightarrow> Inl e
      | Inr this_month_first \<Rightarrow>
          (case add_seconds this_month_first (- 1) of
             Inl e \<Rightarrow> Inl e
           | Inr prev_month_last \<Rightarrow>
               (case mk_datetime (dt_year prev_month_last) (dt_month prev_month_last) 1 0 0 0 of
                  Inl e \<Rightarrow> Inl e
                | Inr prev_month_first \<Rightarrow>
                    filtered_report LATE_AFTER_TIME employees transactions
                      ''previous_month'' prev_month_first prev_month_last)))"

section \<open>The simple range summary (build\_attendance\_summary)\<close>

text \<open>An entry of the summary; the values read with \<open>.get\<close> may be \<open>None\<close>.\<close>

record summary_row =
  sr_emp_code :: "string option"
  sr_first_name :: "string option"
  sr_department :: "string option"
  sr_first_punch_time :: "string option"
  sr_first_terminal_alias :: "string option"
  sr_last_punch_time :: "string option"
  sr_last_terminal_alias :: "string option"
  sr_total_punches :: int

record summary =
  sm_start_date :: string
  sm_end_date :: string
  sm_count :: int
  sm_data :: "summary_row list"

text \<open>
  \<open>grouped = defaultdict(list)\<close>, as the list of its items in the order in which the
  keys were first inserted.  A key is a code or \<open>None\<close> (a null \<open>emp_code\<close>).
\<close>

type_synonym grouped = "(string option \<times> transaction list) list"

text \<open>\<open>grouped[k].append(r)\<close>.\<close>

fun grouped_append :: "grouped \<Rightarrow> string option \<Rightarrow> transaction \<Rightarrow> grouped" where
  "grouped_append [] k r = [(k, [r])]"
| "grouped_append ((k', l) # g) k r =
     (if k' = k then (k', l @ [r]) # g else (k', l) # grouped_append g k r)"

text \<open>\<open>for rec in records: grouped[rec["emp_code"]].append(rec)\<close>.\<close>

fun group_records :: "grouped \<Rightarrow> transaction list \<Rightarrow> error + grouped" where
  "group_records g [] = Inr g"
| "group_records g (r # records) =
     (case py_getitem (tx_emp_code r) of
        Inl e \<Rightarrow> Inl e
      | Inr k \<Rightarrow> group_records (grouped_append g k r) records)"

text \<open>
  The sort keys \<open>datetime.strptime(r["punch_time"], "%Y-%m-%d %H:%M:%S")\<close> of a list of
  punches, computed in the order of the list.
\<close>

fun punch_datetimes :: "transaction list \<Rightarrow> error + datetime list" where
  "punch_datetimes [] = Inr []"
| "punch_datetimes (r # rs) =
     (case py_getitem (tx_punch_time r) of
        Inl e \<Rightarrow> Inl e
      | Inr p \<Rightarrow>
          (case strptime_opt p of
             Inl e \<Rightarrow> Inl e
           | Inr d \<Rightarrow>
               (case punch_datetimes rs of
                  Inl e \<Rightarrow> Inl e
                | Inr ds \<Rightarrow> Inr (d # ds))))"

text \<open>\<open>sorted(punches, key=...)\<close>: a stable sort of the punches by their keys.\<close>

definition sorted_by_datetime :: "transaction list \<Rightarrow> error + transaction list" where
  "sorted_by_datetime punches =
     (case punch_datetimes punches of
        Inl e \<Rightarrow> Inl e
      | Inr ds \<Rightarrow> Inr (map snd (sort_key fst (zip (map dt_key ds) punches))))"

text \<open>The body of \<open>for emp_code, punches in grouped.items()\<close>.\<close>

definition summarize :: "string option \<Rightarrow> transaction list \<Rightarrow> error + summary_row" where
  "summarize code punches =
     (case sorted_by_datetime punches of
        Inl e \<Rightarrow> Inl e
      | Inr [] \<Rightarrow> Inl IndexError
      | Inr (first_punch # rest) \<Rightarrow>
          let punches_sorted = first_punch # rest;
              last_punch = last punches_sorted
          in Inr \<lparr>sr_emp_code = code,
                   sr_first_name = py_get (tx_first_name first_punch),
                   sr_department = py_get (tx_department first_punch),
                   sr_first_punch_time = py_get (tx_punch_time first_punch),
                   sr_first_terminal_alias = py_get (tx_terminal_alias first_punch),
                   sr_last_punch_time = py_get (tx_punch_time last_punch),
                   sr_last_terminal_alias = py_get (tx_terminal_alias last_punch),
                   sr_total_punches = int (length punches_sorted)\<rparr>)"

fun summary_loop :: "summary_row list \<Rightarrow> grouped \<Rightarrow> error + summary_row list" where
  "summary_loop summary [] = Inr summary"
| "summary_loop summary ((code, punches) # g) =
     (case summarize code punches of
        Inl e \<Rightarrow> Inl e
      | Inr row \<Rightarrow> summary_loop (summary @ [row]) g)"

text \<open>
  \<open>sorted(summary, key=lambda r: r["emp_code"])\<close>.  The keys are distinct; \<open>None\<close> among
  two or more keys cannot be compared with a string (\<open>TypeError\<close>).
\<close>

definition sorted_by_emp_code :: "summary_row list \<Rightarrow> error + summary_row list" where
  "sorted_by_emp_code summary =
     (if 2 \<le> length summary \<and> None \<in> set (map sr_emp_code summary) then Inl TypeError
      else Inr (sort_key (\<lambda>r. case sr_emp_code r of None \<Rightarrow> [] | Some c \<Rightarrow> c) summary))"

text \<open>
  \<open>build_attendance_summary(start_dt, end_dt)\<close>; \<open>records\<close> is the \<open>data\<close> of the
  response of \<open>fetch_transactions\<close>.
\<close>

definition build_attendance_summary ::
  "transaction list \<Rightarrow> datetime \<Rightarrow> datetime \<Rightarrow> error + summary" where
  "build_attendance_summary records start_dt end_dt =
     (case group_records [] records of
        Inl e \<Rightarrow> Inl e
      | Inr grouped \<Rightarrow>
          (case summary_loop [] grouped of
             Inl e \<Rightarrow> Inl e
           | Inr summary \<Rightarrow>
               (case sorted_by_emp_code summary of
                  Inl e \<Rightarrow> Inl e
                | Inr summary_sorted \<Rightarrow>
                    Inr \<lparr>sm_start_date = strftime_date start_dt,
                         sm_end_date = strftime_date end_dt,
                         sm_count = int (length summary_sorted),
                         sm_data = summary_sorted\<rparr>)))"

subsection \<open>The endpoints of today\<close>

text \<open>The summary of today, with its \<open>date\<close> entry.\<close>

record today_summary = summary +
  sm_date :: string

definition attendance_today :: "transaction list \<Rightarrow> datetime \<Rightarrow> error + today_summary" where
  "attendance_today records now =
     (let today = strftime_date now
      in case strptime (today @ '' 00:00:00'') of
           Inl e \<Rightarrow> Inl e
         | Inr start_dt \<Rightarrow>
             (case strptime (today @ '' 23:59:59'') of
                Inl e \<Rightarrow> Inl e
              | Inr end_dt \<Rightarrow>
                  (case build_attendance_summary records start_dt end_dt of
                     Inl e \<Rightarrow> Inl e
                   | Inr summary \<Rightarrow>
                       Inr \<lparr>sm_start_date = sm_start_date summary,
                            sm_end_date = sm_end_date summary,
                            sm_count = sm_count summary,
                            sm_data = sm_data summary,
                            sm_date = today\<rparr>)))"

text \<open>The response of the present, late and early-leave endpoints.\<close>

record today_list =
  tl_date :: string
  tl_count :: int
  tl_data :: "summary_row list"

definition attendance_today_present :: "transaction list \<Rightarrow> datetime \<Rightarrow> error + today_list" where
  "attendance_today_present records now =
     (case attendance_today records now of
        Inl e \<Rightarrow> Inl e
      | Inr today_summary \<Rightarrow>
          Inr \<lparr>tl_date = sm_date today_summary,
               tl_count = sm_count today_summary,
               tl_data = sm_data today_summary\<rparr>)"

text \<open>\<open>for row in today_summary["data"]\<close> of the late endpoint.\<close>

fun late_loop :: "datetime \<Rightarrow> summary_row list \<Rightarrow> summary_row list \<Rightarrow> error + summary_row list" where
  "late_loop late_threshold late_list [] = Inr late_list"
| "late_loop late_threshold late_list (row # rows) =
     (case strptime_opt (sr_first_punch_time row) of
        Inl e \<Rightarrow> Inl e
      | Inr fp \<Rightarrow>
          if dt_key fp > dt_key late_threshold
          then late_loop late_threshold (late_list @ [row]) rows
          else late_loop late_threshold late_list rows)"

definition attendance_today_late ::
  "string \<Rightarrow> transaction list \<Rightarrow> datetime \<Rightarrow> error + today_list" where
  "attendance_today_late LATE_AFTER_TIME records now =
     (case attendance_today records now of
        Inl e \<Rightarrow> Inl e
      | Inr today_summary \<Rightarrow>
          let today_date = sm_date today_summary
          in case strptime (today_date @ '' '' @ LATE_AFTER_TIME) of
               Inl e \<Rightarrow> Inl e
             | Inr late_threshold \<Rightarrow>
                 (case late_loop late_threshold [] (sm_data today_summary) of
                    Inl e \<Rightarrow> Inl e
                  | Inr late_list \<Rightarrow>
                      Inr \<lparr>tl_date = today_date,
                           tl_count = int (length late_list),
                           tl_data = late_list\<rparr>))"

text \<open>\<open>for row in today_summary["data"]\<close> of the early-leave endpoint.\<close>

fun early_loop :: "datetime \<Rightarrow> summary_row list \<Rightarrow> summary_row list \<Rightarrow> error + summary_row list" where
  "early_loop early_threshold early_list [] = Inr early_list"
| "early_loop early_threshold early_list (row # rows) =
     (case strptime_opt (sr_last_punch_time row) of
        Inl e \<Rightarrow> Inl e
      | Inr lp \<Rightarrow>
          if dt_key lp < dt_key early_threshold
          then early_loop early_threshold (early_list @ [row]) rows
          else early_loop early_threshold early_list rows)"

definition attendance_today_early_leave ::
  "string \<Rightarrow> transaction list \<Rightarrow> datetime \<Rightarrow> error + today_list" where
  "attendance_today_early_leave EARLY_LEAVE_TIME records now =
     (case attendance_today records now of
        Inl e \<Rightarrow> Inl e
      | Inr today_summary \<Rightarrow>
          let today_date = sm_date today_summary
          in case strptime (today_date @ '' '' @ EARLY_LEAVE_TIME) of
               Inl e \<Rightarrow> Inl e
             | Inr early_threshold \<Rightarrow>
                 (case early_loop early_threshold [] (sm_data today_summary) of
                    Inl e \<Rightarrow> Inl e
                  | Inr early_list \<Rightarrow>
                      Inr \<lparr>tl_date = today_date,
                           tl_count = int (length early_list),
                           tl_data = early_list\<rparr>))"

text \<open>
  What is claimed of a row of the summary: it counts at least one punch, its first and
  last punch times parse and are in order as instants, and its employee code is the code
  of a record of the input.
\<close>

definition punched_row :: "transaction list \<Rightarrow> summary_row \<Rightarrow> bool" where
  "punched_row records row =
     (1 \<le> sr_total_punches row
      \<and> (case (strptime_opt (sr_first_punch_time row), strptime_opt (sr_last_punch_time row)) of
            (Inr a, Inr b) \<Rightarrow> dt_key a \<le> dt_key b
          | _ \<Rightarrow> False)
      \<and> list_ex (\<lambda>r. py_getitem (tx_emp_code r) = Inr (sr_emp_code row)) records)"

text \<open>
  The form \<open>YYYY-MM-DD HH:MM:SS\<close> in which the upstream service writes a timestamp:
  nineteen characters, digits where the pattern has a 0 and the pattern's own character
  elsewhere.
\<close>

definition iso_timestamp :: "string \<Rightarrow> bool" where
  "iso_timestamp p =
     list_all2 (\<lambda>c k. if k = CHR ''0'' then is_digit c else c = k) p ''0000-00-00 00:00:00''"

section \<open>Sample records\<close>

text \<open>An employee and a punch with given code and timestamp, for the worked examples.\<close>

definition sample_employee :: "string \<Rightarrow> employee" where
  "sample_employee code =
     \<lparr>emp_code = Str code, emp_first_name = Str ''Ann'', emp_last_name = Missing,
      emp_department = None\<rparr>"

definition sample_punch :: "string \<Rightarrow> string \<Rightarrow> transaction" where
  "sample_punch code p_time =
     \<lparr>tx_emp_code = Str code, tx_punch_time = Str p_time, tx_first_name = Str ''Ann'',
      tx_department = Null, tx_terminal_alias = Missing\<rparr>"

text \<open>Midnight of the day with the given ordinal; 738920 is Sunday 2024-02-04.\<close>

definition midnight :: "int \<Rightarrow> datetime" where
  "midnight n = \<lparr>dt_ord = n, dt_sec = 0\<rparr>"

section \<open>Properties of the indexer\<close>

lemma index_tx_bucket:
  "get_daily_txs (get_emp_punches (index_tx pm tx) code) d_str =
   get_daily_txs (get_emp_punches pm code) d_str @ (if in_bucket code d_str tx then [tx] else [])"
  by (cases "tx_emp_code tx"; cases "tx_punch_time tx")
     (auto simp: index_tx_def in_bucket_def indexable_def get_emp_punches_def
                 get_daily_txs_def Let_def
           split: option.splits)

lemma foldl_index_tx_bucket:
  "get_daily_txs (get_emp_punches (foldl index_tx pm txs) code) d_str =
   get_daily_txs (get_emp_punches pm code) d_str @ filter (in_bucket code d_str) txs"
  by (induction txs arbitrary: pm) (simp_all add: index_tx_bucket)

lemma index_transactions_bucket:
  "get_daily_txs (get_emp_punches (index_transactions txs) code) d_str =
   filter (in_bucket code d_str) txs"
  unfolding index_transactions_def foldl_index_tx_bucket
  by (simp add: get_emp_punches_def get_daily_txs_def)

text \<open>
  C9.  The indexer is a total function (it has no error result).  The punches it files
  under an employee code and a date string are exactly the records of the input, in the
  order of the input and as often as they occur there, that have a non-empty code and a
  non-empty timestamp, that code, and that text before the first space of the timestamp.
  So every such record is in the bucket of its own code and date and in no other, and a
  record whose code or timestamp is absent, null or empty is in no bucket.
\<close>

theorem index_transactions_preserves:
  "get_daily_txs (get_emp_punches (index_transactions txs) code) d_str =
     filter (in_bucket code d_str) txs
   \<and> (indexable tx \<longrightarrow>
        in_bucket (str_of (tx_emp_code tx)) (date_part (str_of (tx_punch_time tx))) tx)
   \<and> (in_bucket code d_str tx \<and> in_bucket code' d_str' tx \<longrightarrow> code' = code \<and> d_str' = d_str)
   \<and> (\<not> indexable tx \<longrightarrow> \<not> in_bucket code d_str tx)"
  by (auto simp: index_transactions_bucket in_bucket_def)

theorem index_transactions_preserves_witness:
  "get_daily_txs (get_emp_punches (index_transactions
      [\<lparr>tx_emp_code = Str ''E2'', tx_punch_time = Str ''2024-02-05 17:01:00'',
         tx_first_name = Null, tx_department = Null, tx_terminal_alias = Null\<rparr>,
       \<lparr>tx_emp_code = Str ''E1'', tx_punch_time = Str ''2024-02-05 08:06:00'',
         tx_first_name = Null, tx_department = Null, tx_terminal_alias = Null\<rparr>,
       \<lparr>tx_emp_code = Null, tx_punch_time = Str ''2024-02-05 08:07:00'',
         tx_first_name = Null, tx_department = Null, tx_terminal_alias = Null\<rparr>,
       \<lparr>tx_emp_code = Str ''E1'', tx_punch_time = Str [],
         tx_first_name = Null, tx_department = Null, tx_terminal_alias = Null\<rparr>,
       \<lparr>tx_emp_code = Str ''E1'', tx_punch_time = Str ''2024-02-05 07:55:00'',
         tx_first_name = Null, tx_department = Null, tx_terminal_alias = Null\<rparr>])
      ''E1'') ''2024-02-05'' =
      [\<lparr>tx_emp_code = Str ''E1'', tx_punch_time = Str ''2024-02-05 08:06:00'',
         tx_first_name = Null, tx_department = Null, tx_terminal_alias = Null\<rparr>,
       \<lparr>tx_emp_code = Str ''E1'', tx_punch_time = Str ''2024-02-05 07:55:00'',
         tx_first_name = Null, tx_department = Null, tx_terminal_alias = Null\<rparr>]"
  using index_transactions_preserves
    [of "[\<lparr>tx_emp_code = Str ''E2'', tx_punch_time = Str ''2024-02-05 17:01:00'',
         tx_first_name = Null, tx_department = Null, tx_terminal_alias = Null\<rparr>,
       \<lparr>tx_emp_code = Str ''E1'', tx_punch_time = Str ''2024-02-05 08:06:00'',
         tx_first_name = Null, tx_department = Null, tx_terminal_alias = Null\<rparr>,
       \<lparr>tx_emp_code = Null, tx_punch_time = Str ''2024-02-05 08:07:00'',
         tx_first_name = Null, tx_department = Null, tx_terminal_alias = Null\<rparr>,
       \<lparr>tx_emp_code = Str ''E1'', tx_punch_time = Str [],
         tx_first_name = Null, tx_department = Null, tx_terminal_alias = Null\<rparr>,
       \<lparr>tx_emp_code = Str ''E1'', tx_punch_time = Str ''2024-02-05 07:55:00'',
         tx_first_name = Null, tx_department = Null, tx_terminal_alias = Null\<rparr>]"
        "''E1''" "''2024-02-05''"]
  by (simp add: in_bucket_def indexable_def date_part_def)

section \<open>Properties of the aggregator\<close>

lemma day_step_weekend:
  "weekday day = 6 \<Longrightarrow>
   day_step lt ep st day =
     Inr (if has_punches ep day then st\<lparr>present := present st + 1\<rparr> else st)"
  by (simp add: day_step_def has_punches_def Let_def)

lemma day_step_absent:
  "weekday day \<noteq> 6 \<Longrightarrow> \<not> has_punches ep day \<Longrightarrow>
   day_step lt ep st day =
     Inr (st\<lparr>work_days_required := work_days_required st + 1,
             absent := absent st + 1,
             absent_details := absent_details st @ [strftime_date day]\<rparr>)"
  by (simp add: day_step_def has_punches_def Let_def)

lemma day_step_present:
  assumes "weekday day \<noteq> 6" "has_punches ep day" "day_step lt ep st day = Inr st'"
  obtains (on_time)
      "st' = st\<lparr>work_days_required := work_days_required st + 1, present := present st + 1\<rparr>"
    | (is_late) l where
      "st' = st\<lparr>work_days_required := work_days_required st + 1, present := present st + 1,
                  late := late st + 1, late_details := late_details st @ [l]\<rparr>"
      "ld_date l = strftime_date day"
  using assms
  by (auto simp: day_step_def has_punches_def Let_def
           split: sum.splits list.splits option.splits if_splits)

lemma day_step_counts:
  assumes "day_step lt ep st d = Inr st'"
  shows "work_days_required st' = work_days_required st + (if weekday d \<noteq> 6 then 1 else 0)
       \<and> present st' = present st + (if has_punches ep d then 1 else 0)
       \<and> absent st' = absent st + (if weekday d \<noteq> 6 \<and> \<not> has_punches ep d then 1 else 0)
       \<and> absent_details st' =
           absent_details st
           @ (if weekday d \<noteq> 6 \<and> \<not> has_punches ep d then [strftime_date d] else [])
       \<and> late st' - int (length (late_details st')) = late st - int (length (late_details st))
       \<and> (\<exists>ds'. subseq ds' [d] \<and>
             map ld_date (late_details st') =
               map ld_date (late_details st) @ map strftime_date ds')"
proof (cases "weekday d = 6")
  case True
  have "subseq [] [d]" by simp
  with True assms show ?thesis
    by (auto simp: day_step_weekend intro!: exI[of _ "[]"])
next
  case wd: False
  show ?thesis
  proof (cases "has_punches ep d")
    case False
    with wd assms show ?thesis
      by (auto simp: day_step_absent intro!: exI[of _ "[]"])
  next
    case True
    from wd True assms show ?thesis
    proof (cases rule: day_step_present)
      case on_time
      with wd True show ?thesis by (auto intro!: exI[of _ "[]"])
    next
      case (is_late l)
      with wd True show ?thesis by (auto intro!: exI[of _ "[d]"])
    qed
  qed
qed

lemma days_loop_counts:
  assumes "days_loop lt ep st ds = Inr st'"
  shows "work_days_required st' =
           work_days_required st + int (length (filter (\<lambda>d. weekday d \<noteq> 6) ds))
       \<and> present st' = present st + int (length (filter (has_punches ep) ds))
       \<and> absent st' =
           absent st + int (length (filter (\<lambda>d. weekday d \<noteq> 6 \<and> \<not> has_punches ep d) ds))
       \<and> absent_details st' =
           absent_details st
           @ map strftime_date (filter (\<lambda>d. weekday d \<noteq> 6 \<and> \<not> has_punches ep d) ds)
       \<and> late st' - int (length (late_details st')) = late st - int (length (late_details st))
       \<and> (\<exists>ds'. subseq ds' ds \<and>
             map ld_date (late_details st') =
               map ld_date (late_details st) @ map strftime_date ds')"
  using assms
proof (induction ds arbitrary: st)
  case Nil
  then show ?case by (auto intro!: exI[of _ "[]"])
next
  case (Cons d ds)
  from Cons.prems obtain st1 where
    s1: "day_step lt ep st d = Inr st1" and r1: "days_loop lt ep st1 ds = Inr st'"
    by (auto split: sum.splits)
  note a = day_step_counts[OF s1]
  note b = Cons.IH[OF r1]
  from a obtain da where da: "subseq da [d]"
    "map ld_date (late_details st1) = map ld_date (late_details st) @ map strftime_date da"
    by blast
  from b obtain db where db: "subseq db ds"
    "map ld_date (late_details st') = map ld_date (late_details st1) @ map strftime_date db"
    by blast
  have "subseq (da @ db) ([d] @ ds)"
    using da(1) db(1) by (rule list_emb_append_mono)
  then have sub: "subseq (da @ db) (d # ds)" by simp
  have det: "map ld_date (late_details st') =
               map ld_date (late_details st) @ map strftime_date (da @ db)"
    using da(2) db(2) by simp
  have ex: "\<exists>ds'. subseq ds' (d # ds) \<and>
             map ld_date (late_details st') =
               map ld_date (late_details st) @ map strftime_date ds'"
    using sub det by blast
  from a b have cnt: "work_days_required st' =
           work_days_required st + int (length (filter (\<lambda>d. weekday d \<noteq> 6) (d # ds)))"
    "present st' = present st + int (length (filter (has_punches ep) (d # ds)))"
    "absent st' =
           absent st + int (length (filter (\<lambda>d. weekday d \<noteq> 6 \<and> \<not> has_punches ep d) (d # ds)))"
    "absent_details st' =
           absent_details st
           @ map strftime_date (filter (\<lambda>d. weekday d \<noteq> 6 \<and> \<not> has_punches ep d) (d # ds))"
    "late st' - int (length (late_details st')) = late st - int (length (late_details st))"
    by simp_all
  from cnt ex show ?case by blast
qed


lemma all_dates_loop_eq:
  "all_dates_loop c e acc = Inr ds \<Longrightarrow>
   ds = acc @ map (\<lambda>n. c\<lparr>dt_ord := n\<rparr>) [dt_ord c..dt_ord e]"
proof (induction c e acc rule: all_dates_loop.induct)
  case (1 c e acc)
  show ?case
  proof (cases "dt_ord c \<le> dt_ord e")
    case False
    with "1.prems" show ?thesis by (simp add: all_dates_loop.simps)
  next
    case True
    with "1.prems" obtain c' where c': "add_days c 1 = Inr c'"
      and r: "all_dates_loop c' e (acc @ [c]) = Inr ds"
      by (auto simp: all_dates_loop.simps[of c] split: sum.splits)
    from c' have c'_eq: "c' = c\<lparr>dt_ord := dt_ord c + 1\<rparr>"
      by (auto simp: add_days_def Let_def split: if_splits)
    from "1.IH"[OF True c' r] have "ds = (acc @ [c]) @ map (\<lambda>n. c'\<lparr>dt_ord := n\<rparr>) [dt_ord c'..dt_ord e]" .
    then show ?thesis using True
      by (simp add: c'_eq upto_rec1[of "dt_ord c" "dt_ord e"])
  qed
qed

lemma all_dates_loop_total:
  "0 \<le> dt_ord c \<Longrightarrow> dt_ord e < MAXORDINAL \<Longrightarrow> \<exists>ds. all_dates_loop c e acc = Inr ds"
proof (induction c e acc rule: all_dates_loop.induct)
  case (1 c e acc)
  show ?case
  proof (cases "dt_ord c \<le> dt_ord e")
    case False
    then show ?thesis by (simp add: all_dates_loop.simps)
  next
    case True
    with "1.prems" have c': "add_days c 1 = Inr (c\<lparr>dt_ord := dt_ord c + 1\<rparr>)"
      by (simp add: add_days_def Let_def)
    from "1.IH"[OF True c'] "1.prems" 
    have "\<exists>ds. all_dates_loop (c\<lparr>dt_ord := dt_ord c + 1\<rparr>) e (acc @ [c]) = Inr ds" by simp
    then show ?thesis using True c'
      by (simp add: all_dates_loop.simps[of c])
  qed
qed

text \<open>The rows that the loop over the employees appends.\<close>

lemma employees_loop_rows:
  assumes "employees_loop lt pm ds acc emps = Inr res"
  shows "\<exists>rows. res = acc @ rows
       \<and> map row_emp_code rows =
           filter (\<lambda>c. c \<noteq> []) (List.map_filter (\<lambda>e. py_get (emp_code e)) emps)
       \<and> (\<forall>row \<in> set rows.
            days_loop lt (get_emp_punches pm (row_emp_code row)) zero_stats ds
              = Inr (row_stats row))"
  using assms
proof (induction emps arbitrary: acc)
  case Nil
  then show ?case by simp
next
  case (Cons emp emps)
  show ?case
  proof (cases "py_get (emp_code emp)")
    case None
    with Cons.prems have "employees_loop lt pm ds acc emps = Inr res" by simp
    from Cons.IH[OF this] None show ?thesis by simp
  next
    case (Some code)
    show ?thesis
    proof (cases "code = []")
      case True
      with Some Cons.prems have "employees_loop lt pm ds acc emps = Inr res" by simp
      from Cons.IH[OF this] Some True show ?thesis by simp
    next
      case False
      with Some Cons.prems obtain st where
        st: "days_loop lt (get_emp_punches pm code) zero_stats ds = Inr st" and
        r: "employees_loop lt pm ds
              (acc @ [\<lparr>row_emp_code = code,
                        row_first_name = py_get_default (emp_first_name emp) [],
                        row_last_name = py_get_default (emp_last_name emp) [],
                        row_department = dept_name emp,
                        row_stats = st\<rparr>]) emps = Inr res"
        by (auto split: sum.splits)
      from Cons.IH[OF r] obtain rows where rows:
        "res = (acc @ [\<lparr>row_emp_code = code,
                        row_first_name = py_get_default (emp_first_name emp) [],
                        row_last_name = py_get_default (emp_last_name emp) [],
                        row_department = dept_name emp,
                        row_stats = st\<rparr>]) @ rows"
        "map row_emp_code rows =
           filter (\<lambda>c. c \<noteq> []) (List.map_filter (\<lambda>e. py_get (emp_code e)) emps)"
        "\<forall>row \<in> set rows.
            days_loop lt (get_emp_punches pm (row_emp_code row)) zero_stats ds
              = Inr (row_stats row)"
        by blast
      show ?thesis
        apply (rule exI[of _ "\<lparr>row_emp_code = code,
                        row_first_name = py_get_default (emp_first_name emp) [],
                        row_last_name = py_get_default (emp_last_name emp) [],
                        row_department = dept_name emp,
                        row_stats = st\<rparr> # rows"])
        using rows st Some False by simp
    qed
  qed
qed

lemma set_map_filter: "set (List.map_filter f xs) = {y. \<exists>x \<in> set xs. f x = Some y}"
  by (induction xs) (auto split: option.splits)

text \<open>What a returned report is made of.\<close>

lemma calculate_attendance_stats_rows:
  assumes "calculate_attendance_stats L emps txs s e = Inr report"
  obtains lt ds where
    "strptime_time L = Inr lt"
    "all_dates_loop s e [] = Inr ds"
    "sorted (map row_emp_code report)"
    "set (map row_emp_code report) =
       {c. c \<noteq> [] \<and> (\<exists>emp \<in> set emps. py_get (emp_code emp) = Some c)}"
    "\<forall>row \<in> set report.
       days_loop lt (get_emp_punches (index_transactions txs) (row_emp_code row)) zero_stats ds
         = Inr (row_stats row)"
proof -
  from assms obtain lt ds rows where
    lt: "strptime_time L = Inr lt" and ds: "all_dates_loop s e [] = Inr ds" and
    rows: "employees_loop lt (index_transactions txs) ds [] emps = Inr rows" and
    rep: "report = sort_key row_emp_code rows"
    by (auto simp: calculate_attendance_stats_def Let_def split: sum.splits)
  from employees_loop_rows[OF rows] have
    codes: "map row_emp_code rows =
           filter (\<lambda>c. c \<noteq> []) (List.map_filter (\<lambda>e. py_get (emp_code e)) emps)" and
    each: "\<forall>row \<in> set rows.
            days_loop lt (get_emp_punches (index_transactions txs) (row_emp_code row)) zero_stats ds
              = Inr (row_stats row)"
    by auto
  have 1: "sorted (map row_emp_code report)" by (simp add: rep)
  have "set (map row_emp_code report) = set (map row_emp_code rows)" by (simp add: rep)
  also have "\<dots> = {c. c \<noteq> [] \<and> (\<exists>emp \<in> set emps. py_get (emp_code emp) = Some c)}"
    by (auto simp: codes set_map_filter)
  finally have 2: "set (map row_emp_code report) =
       {c. c \<noteq> [] \<and> (\<exists>emp \<in> set emps. py_get (emp_code emp) = Some c)}" .
  have 3: "\<forall>row \<in> set report.
       days_loop lt (get_emp_punches (index_transactions txs) (row_emp_code row)) zero_stats ds
         = Inr (row_stats row)" using each by (simp add: rep)
  from lt ds 1 2 3 show ?thesis by (rule that)
qed

lemma has_punches_index:
  "has_punches (get_emp_punches (index_transactions txs) code) d =
   (filter (in_bucket code (strftime_date d)) txs \<noteq> [])"
  by (simp add: has_punches_def index_transactions_bucket)

lemma filter_partition_length:
  "length (filter P xs) = length (filter (\<lambda>x. P x \<and> Q x) xs) + length (filter (\<lambda>x. P x \<and> \<not> Q x) xs)"
  by (induction xs) auto

text \<open>
  The counters of a completed day loop that started from zero, in terms of the date
  strings of its days and of the punches filed under them.
\<close>

lemma days_loop_zero_stats:
  assumes "days_loop lt (get_emp_punches (index_transactions txs) code) zero_stats ds = Inr st"
  shows "work_days_required st = int (length (filter (\<lambda>d. weekday d \<noteq> 6) ds))"
    and "present st =
           int (length (filter (\<lambda>d. filter (in_bucket code d) txs \<noteq> [])
                          (map strftime_date ds)))"
    and "absent_details st =
           filter (\<lambda>d. filter (in_bucket code d) txs = [])
             (map strftime_date (filter (\<lambda>d. weekday d \<noteq> 6) ds))"
    and "absent st = int (length (absent_details st))"
    and "late st = int (length (late_details st))"
proof -
  let ?ep = "get_emp_punches (index_transactions txs) code"
  note c = days_loop_counts[OF assms]
  have hp: "has_punches ?ep = (\<lambda>d. filter (in_bucket code (strftime_date d)) txs \<noteq> [])"
    by (rule ext) (rule has_punches_index)
  from c show "work_days_required st = int (length (filter (\<lambda>d. weekday d \<noteq> 6) ds))"
    by (simp add: zero_stats_def)
  from c have "present st = int (length (filter (has_punches ?ep) ds))"
    by (simp add: zero_stats_def)
  also have "length (filter (has_punches ?ep) ds) =
      length (filter (\<lambda>d. filter (in_bucket code d) txs \<noteq> []) (map strftime_date ds))"
    unfolding hp by (simp add: filter_map comp_def)
  finally show "present st =
           int (length (filter (\<lambda>d. filter (in_bucket code d) txs \<noteq> [])
                          (map strftime_date ds)))" .
  from c have ad: "absent_details st =
      map strftime_date (filter (\<lambda>d. weekday d \<noteq> 6 \<and> \<not> has_punches ?ep d) ds)"
    by (simp add: zero_stats_def)
  also have "\<dots> = filter (\<lambda>d. filter (in_bucket code d) txs = [])
             (map strftime_date (filter (\<lambda>d. weekday d \<noteq> 6) ds))"
    unfolding hp by (simp add: filter_map comp_def)
  finally show "absent_details st =
           filter (\<lambda>d. filter (in_bucket code d) txs = [])
             (map strftime_date (filter (\<lambda>d. weekday d \<noteq> 6) ds))" .
  from c have "absent st =
      int (length (filter (\<lambda>d. weekday d \<noteq> 6 \<and> \<not> has_punches ?ep d) ds))"
    by (simp add: zero_stats_def)
  then show "absent st = int (length (absent_details st))"
    unfolding ad by simp
  from c show "late st = int (length (late_details st))"
    by (simp add: zero_stats_def)
qed

text \<open>
  C1, as amended.  In every row of a returned report, \<open>present + absent\<close> is
  \<open>work_days_required\<close> plus the number of Sundays of the range on which the employee
  has at least one punch: a worked Sunday counts as present and is not a required day.
  The two sides are equal exactly for the employees without a punch on a Sunday of the
  range.
\<close>

theorem present_absent_required:
  assumes "calculate_attendance_stats LATE_AFTER_TIME employees transactions start_dt end_dt
             = Inr report"
    and "row \<in> set report"
    and "all_dates_loop start_dt end_dt [] = Inr all_dates"
  shows "present (row_stats row) + absent (row_stats row) =
           work_days_required (row_stats row)
           + int (length (filter
               (\<lambda>day. weekday day = 6
                  \<and> filter (in_bucket (row_emp_code row) (strftime_date day)) transactions \<noteq> [])
               all_dates))"
proof -
  from assms(1) obtain lt ds where
    ds: "all_dates_loop start_dt end_dt [] = Inr ds" and
    each: "\<forall>row \<in> set report.
       days_loop lt (get_emp_punches (index_transactions transactions) (row_emp_code row))
         zero_stats ds = Inr (row_stats row)"
    by (rule calculate_attendance_stats_rows)
  from ds assms(3) have eq: "ds = all_dates" by simp
  let ?ep = "get_emp_punches (index_transactions transactions) (row_emp_code row)"
  from each assms(2) have loop: "days_loop lt ?ep zero_stats all_dates = Inr (row_stats row)"
    by (simp add: eq)
  note c = days_loop_counts[OF loop]
  have split: "length (filter (has_punches ?ep) all_dates) =
      length (filter (\<lambda>d. has_punches ?ep d \<and> weekday d = 6) all_dates)
    + length (filter (\<lambda>d. has_punches ?ep d \<and> weekday d \<noteq> 6) all_dates)"
    by (rule filter_partition_length)
  have split2: "length (filter (\<lambda>d. weekday d \<noteq> 6) all_dates) =
      length (filter (\<lambda>d. weekday d \<noteq> 6 \<and> has_punches ?ep d) all_dates)
    + length (filter (\<lambda>d. weekday d \<noteq> 6 \<and> \<not> has_punches ?ep d) all_dates)"
    by (rule filter_partition_length)
  have comm: "filter (\<lambda>d. has_punches ?ep d \<and> weekday d \<noteq> 6) all_dates
            = filter (\<lambda>d. weekday d \<noteq> 6 \<and> has_punches ?ep d) all_dates"
    by (rule filter_cong) auto
  have comm2: "filter (\<lambda>d. has_punches ?ep d \<and> weekday d = 6) all_dates
            = filter (\<lambda>day. weekday day = 6
                  \<and> filter (in_bucket (row_emp_code row) (strftime_date day)) transactions \<noteq> []) all_dates"
    by (rule filter_cong) (auto simp: has_punches_index)
  from c split split2 comm comm2 show ?thesis
    by (simp add: zero_stats_def)
qed

theorem present_absent_required_witness:
  "calculate_attendance_stats ''08:05:00'' [sample_employee ''E1'']
     [sample_punch ''E1'' ''2024-02-04 09:00:00'', sample_punch ''E1'' ''2024-02-05 08:00:00'']
     (midnight 738920) (midnight 738921)
   = Inr [\<lparr>row_emp_code = ''E1'', row_first_name = Some ''Ann'', row_last_name = Some [],
           row_department = None,
           row_stats = \<lparr>work_days_required = 1, present = 2, late = 0, absent = 0,
                         late_details = [], absent_details = []\<rparr>\<rparr>]
   \<and> all_dates_loop (midnight 738920) (midnight 738921) [] = Inr [midnight 738920, midnight 738921]
   \<and> (2::int) + 0 = 1 + int (length (filter
               (\<lambda>day. weekday day = 6
                  \<and> filter (in_bucket ''E1'' (strftime_date day))
                      [sample_punch ''E1'' ''2024-02-04 09:00:00'',
                       sample_punch ''E1'' ''2024-02-05 08:00:00''] \<noteq> [])
               [midnight 738920, midnight 738921]))"
proof -
  let ?row = "\<lparr>row_emp_code = ''E1'', row_first_name = Some ''Ann'', row_last_name = Some [],
           row_department = None,
           row_stats = \<lparr>work_days_required = 1, present = 2, late = 0, absent = 0,
                         late_details = [], absent_details = []\<rparr>\<rparr>"
  have h1: "calculate_attendance_stats ''08:05:00'' [sample_employee ''E1'']
     [sample_punch ''E1'' ''2024-02-04 09:00:00'', sample_punch ''E1'' ''2024-02-05 08:00:00'']
     (midnight 738920) (midnight 738921) = Inr [?row]"
    by code_simp
  have h2: "?row \<in> set [?row]" by simp
  have h3: "all_dates_loop (midnight 738920) (midnight 738921) []
              = Inr [midnight 738920, midnight 738921]"
    by code_simp
  from present_absent_required[OF h1 h2 h3] h1 h3 show ?thesis by simp
qed

text \<open>
  The invariant \<open>present + absent = work_days_required\<close> fails for an employee whose
  only punch is on Sunday 2024-02-04: present is 1, absent 0 and required 0.
\<close>

theorem present_absent_required_counterexample:
  "calculate_attendance_stats ''08:05:00'' [sample_employee ''E1'']
     [sample_punch ''E1'' ''2024-02-04 09:00:00'']
     (midnight 738920) (midnight 738920)
   = Inr [\<lparr>row_emp_code = ''E1'', row_first_name = Some ''Ann'', row_last_name = Some [],
           row_department = None,
           row_stats = \<lparr>work_days_required = 0, present = 1, late = 0, absent = 0,
                         late_details = [], absent_details = []\<rparr>\<rparr>]
   \<and> present \<lparr>work_days_required = 0, present = 1, late = 0, absent = 0,
                         late_details = [], absent_details = []\<rparr>
     + absent \<lparr>work_days_required = 0, present = 1, late = 0, absent = 0,
                         late_details = [], absent_details = []\<rparr>
     \<noteq> work_days_required \<lparr>work_days_required = 0, present = 1, late = 0, absent = 0,
                         late_details = [], absent_details = []\<rparr>"
  by code_simp

lemma days_loop_no_punches:
  "\<forall>d \<in> set ds. \<not> has_punches ep d \<Longrightarrow>
   days_loop lt ep st ds =
     Inr (st\<lparr>work_days_required :=
                work_days_required st + int (length (filter (\<lambda>d. weekday d \<noteq> 6) ds)),
             absent := absent st + int (length (filter (\<lambda>d. weekday d \<noteq> 6) ds)),
             absent_details :=
                absent_details st @ map strftime_date (filter (\<lambda>d. weekday d \<noteq> 6) ds)\<rparr>)"
proof (induction ds arbitrary: st)
  case Nil
  then show ?case by simp
next
  case (Cons d ds)
  then have np: "\<not> has_punches ep d" and rest: "\<forall>d \<in> set ds. \<not> has_punches ep d" by auto
  show ?case
  proof (cases "weekday d = 6")
    case True
    with np have "day_step lt ep st d = Inr st" by (simp add: day_step_weekend)
    with Cons.IH[OF rest] True show ?thesis by simp
  next
    case False
    with np show ?thesis by (simp add: day_step_absent Cons.IH[OF rest])
  qed
qed




text \<open>
  C5.  In a returned report every employee of the roster whose code is a non-empty string
  has a row.  The days of an employee without a punch on any day of the range are
  computed without an error, and each of that employee's rows has \<open>absent\<close> equal to the
  number of days of the range that are not Sundays, as many entries in
  \<open>absent_details\<close>, and \<open>late = 0\<close>; with five such days, \<open>absent = 5\<close>.
\<close>

theorem roster_employee_has_stats:
  assumes "calculate_attendance_stats LATE_AFTER_TIME employees transactions start_dt end_dt
             = Inr report"
    and "all_dates_loop start_dt end_dt [] = Inr all_dates"
    and "emp \<in> set employees"
    and "py_get (emp_code emp) = Some code"
    and "code \<noteq> []"
  shows "(\<exists>row \<in> set report. row_emp_code row = code)
       \<and> ((\<forall>day \<in> set all_dates.
              filter (in_bucket code (strftime_date day)) transactions = []) \<longrightarrow>
           (\<forall>row \<in> set report. row_emp_code row = code \<longrightarrow>
              absent (row_stats row) = int (length (filter (\<lambda>d. weekday d \<noteq> 6) all_dates))
            \<and> length (absent_details (row_stats row))
                = length (filter (\<lambda>d. weekday d \<noteq> 6) all_dates)
            \<and> late (row_stats row) = 0
            \<and> late_details (row_stats row) = []
            \<and> present (row_stats row) = 0))
       \<and> ((\<forall>day \<in> set all_dates.
              filter (in_bucket code (strftime_date day)) transactions = []) \<longrightarrow>
           (\<exists>st. days_loop late_time
                   (get_emp_punches (index_transactions transactions) code) zero_stats all_dates
                 = Inr st))"
proof -
  from assms(1) obtain lt ds where
    ds: "all_dates_loop start_dt end_dt [] = Inr ds" and
    codes: "set (map row_emp_code report) =
       {c. c \<noteq> [] \<and> (\<exists>emp \<in> set employees. py_get (emp_code emp) = Some c)}" and
    each: "\<forall>row \<in> set report.
       days_loop lt (get_emp_punches (index_transactions transactions) (row_emp_code row))
         zero_stats ds = Inr (row_stats row)"
    by (rule calculate_attendance_stats_rows)
  from ds assms(2) have eq: "ds = all_dates" by simp
  from assms(3-5) have "code \<in> {c. c \<noteq> [] \<and> (\<exists>emp \<in> set employees. py_get (emp_code emp) = Some c)}"
    by blast
  with codes have "code \<in> set (map row_emp_code report)" by simp
  then have 1: "\<exists>row \<in> set report. row_emp_code row = code" by auto
  have 2: "(\<forall>day \<in> set all_dates.
              filter (in_bucket code (strftime_date day)) transactions = []) \<longrightarrow>
           (\<forall>row \<in> set report. row_emp_code row = code \<longrightarrow>
              absent (row_stats row) = int (length (filter (\<lambda>d. weekday d \<noteq> 6) all_dates))
            \<and> length (absent_details (row_stats row))
                = length (filter (\<lambda>d. weekday d \<noteq> 6) all_dates)
            \<and> late (row_stats row) = 0
            \<and> late_details (row_stats row) = []
            \<and> present (row_stats row) = 0)"
  proof (intro impI ballI)
    fix row
    assume none: "\<forall>day \<in> set all_dates.
              filter (in_bucket code (strftime_date day)) transactions = []"
      and row: "row \<in> set report" and c: "row_emp_code row = code"
    let ?ep = "get_emp_punches (index_transactions transactions) code"
    from none have np: "\<forall>d \<in> set all_dates. \<not> has_punches ?ep d"
      by (simp add: has_punches_index)
    from each row c eq have "days_loop lt ?ep zero_stats all_dates = Inr (row_stats row)"
      by auto
    with days_loop_no_punches[OF np, of lt zero_stats]
    have "row_stats row =
      zero_stats\<lparr>work_days_required :=
                work_days_required zero_stats
                + int (length (filter (\<lambda>d. weekday d \<noteq> 6) all_dates)),
             absent := absent zero_stats + int (length (filter (\<lambda>d. weekday d \<noteq> 6) all_dates)),
             absent_details :=
                absent_details zero_stats
                @ map strftime_date (filter (\<lambda>d. weekday d \<noteq> 6) all_dates)\<rparr>"
      by simp
    then show "absent (row_stats row) = int (length (filter (\<lambda>d. weekday d \<noteq> 6) all_dates))
            \<and> length (absent_details (row_stats row))
                = length (filter (\<lambda>d. weekday d \<noteq> 6) all_dates)
            \<and> late (row_stats row) = 0
            \<and> late_details (row_stats row) = []
            \<and> present (row_stats row) = 0"
      by (simp add: zero_stats_def)
  qed
  have 3: "(\<forall>day \<in> set all_dates.
              filter (in_bucket code (strftime_date day)) transactions = []) \<longrightarrow>
           (\<exists>st. days_loop late_time
                   (get_emp_punches (index_transactions transactions) code) zero_stats all_dates
                 = Inr st)"
  proof
    assume "\<forall>day \<in> set all_dates.
              filter (in_bucket code (strftime_date day)) transactions = []"
    then have "\<forall>d \<in> set all_dates.
        \<not> has_punches (get_emp_punches (index_transactions transactions) code) d"
      by (simp add: has_punches_index)
    from days_loop_no_punches[OF this] show "\<exists>st. days_loop late_time
                   (get_emp_punches (index_transactions transactions) code) zero_stats all_dates
                 = Inr st" by blast
  qed
  from 1 2 3 show ?thesis by blast
qed

theorem roster_employee_has_stats_witness:
  "calculate_attendance_stats ''08:05:00'' [sample_employee ''E1'', sample_employee ''E0'']
     [sample_punch ''E1'' ''2024-02-05 08:06:00'']
     (midnight 738920) (midnight 738925)
   = Inr [\<lparr>row_emp_code = ''E0'', row_first_name = Some ''Ann'', row_last_name = Some [],
           row_department = None,
           row_stats = \<lparr>work_days_required = 5, present = 0, late = 0, absent = 5,
                         late_details = [],
                         absent_details = [''2024-02-05'', ''2024-02-06'', ''2024-02-07'',
                                           ''2024-02-08'', ''2024-02-09'']\<rparr>\<rparr>,
          \<lparr>row_emp_code = ''E1'', row_first_name = Some ''Ann'', row_last_name = Some [],
           row_department = None,
           row_stats = \<lparr>work_days_required = 5, present = 1, late = 1, absent = 4,
                         late_details = [\<lparr>ld_date = ''2024-02-05'',
                                          ld_punch_time = ''2024-02-05 08:06:00'',
                                          ld_late_by = ''0:01:00''\<rparr>],
                         absent_details = [''2024-02-06'', ''2024-02-07'',
                                           ''2024-02-08'', ''2024-02-09'']\<rparr>\<rparr>]
   \<and> length (filter (\<lambda>d. weekday d \<noteq> 6)
        [midnight 738920, midnight 738921, midnight 738922, midnight 738923,
         midnight 738924, midnight 738925]) = 5
   \<and> absent \<lparr>work_days_required = 5, present = 0, late = 0, absent = 5,
               late_details = [],
               absent_details = [''2024-02-05'', ''2024-02-06'', ''2024-02-07'',
                                 ''2024-02-08'', ''2024-02-09'']\<rparr> = 5
   \<and> length (absent_details \<lparr>work_days_required = 5, present = 0, late = 0, absent = 5,
               late_details = [],
               absent_details = [''2024-02-05'', ''2024-02-06'', ''2024-02-07'',
                                 ''2024-02-08'', ''2024-02-09'']\<rparr>) = 5
   \<and> late \<lparr>work_days_required = 5, present = 0, late = 0, absent = 5,
               late_details = [],
               absent_details = [''2024-02-05'', ''2024-02-06'', ''2024-02-07'',
                                 ''2024-02-08'', ''2024-02-09'']\<rparr> = 0"
proof -
  let ?txs = "[sample_punch ''E1'' ''2024-02-05 08:06:00'']"
  let ?ds = "[midnight 738920, midnight 738921, midnight 738922, midnight 738923,
         midnight 738924, midnight 738925]"
  let ?st0 = "\<lparr>work_days_required = 5, present = 0, late = 0, absent = 5,
               late_details = [],
               absent_details = [''2024-02-05'', ''2024-02-06'', ''2024-02-07'',
                                 ''2024-02-08'', ''2024-02-09'']\<rparr>"
  let ?row0 = "\<lparr>row_emp_code = ''E0'', row_first_name = Some ''Ann'', row_last_name = Some [],
           row_department = None, row_stats = ?st0\<rparr>"
  let ?row1 = "\<lparr>row_emp_code = ''E1'', row_first_name = Some ''Ann'', row_last_name = Some [],
           row_department = None,
           row_stats = \<lparr>work_days_required = 5, present = 1, late = 1, absent = 4,
                         late_details = [\<lparr>ld_date = ''2024-02-05'',
                                          ld_punch_time = ''2024-02-05 08:06:00'',
                                          ld_late_by = ''0:01:00''\<rparr>],
                         absent_details = [''2024-02-06'', ''2024-02-07'',
                                           ''2024-02-08'', ''2024-02-09'']\<rparr>\<rparr>"
  have h1: "calculate_attendance_stats ''08:05:00''
     [sample_employee ''E1'', sample_employee ''E0''] ?txs
     (midnight 738920) (midnight 738925) = Inr [?row0, ?row1]"
    by code_simp
  have h2: "all_dates_loop (midnight 738920) (midnight 738925) [] = Inr ?ds"
    by code_simp
  have h3: "sample_employee ''E0'' \<in> set [sample_employee ''E1'', sample_employee ''E0'']"
    by simp
  have h4: "py_get (emp_code (sample_employee ''E0'')) = Some ''E0''"
    by (simp add: sample_employee_def)
  have h5: "''E0'' \<noteq> []" by simp
  have none: "\<forall>day \<in> set ?ds. filter (in_bucket ''E0'' (strftime_date day)) ?txs = []"
    by (simp add: in_bucket_def sample_punch_def)
  have five: "length (filter (\<lambda>d. weekday d \<noteq> 6) ?ds) = 5" by code_simp
  have mem: "?row0 \<in> set [?row0, ?row1]" by simp
  have code0: "row_emp_code ?row0 = ''E0''" by simp
  note t = roster_employee_has_stats[OF h1 h2 h3 h4 h5]
  from t[THEN conjunct2, THEN conjunct1, THEN mp, OF none, THEN bspec, OF mem, THEN mp,
         OF code0] five
  have "absent ?st0 = 5 \<and> length (absent_details ?st0) = 5 \<and> late ?st0 = 0"
    by simp
  with h1 five show ?thesis by (intro conjI) simp_all
qed

section \<open>Properties of the report endpoints\<close>

lemma filtered_report_data:
  assumes "filtered_report L emps txs p s e = Inr rep"
  shows "\<exists>all_data. calculate_attendance_stats L emps txs s e = Inr all_data
          \<and> rep_data rep = filter (\<lambda>d. late (row_stats d) > 0 \<or> absent (row_stats d) > 0) all_data
          \<and> rep_count rep = int (length (rep_data rep))
          \<and> rep_period_start rep = strftime_full s \<and> rep_period_end rep = strftime_full e"
  using assms by (auto simp: filtered_report_def Let_def split: sum.splits)

lemma report_endpoint_period:
  assumes "attendance_report_monthly L emps txs now month year = Inr rep
         \<or> attendance_report_weekly L emps txs now = Inr rep
         \<or> attendance_report_monthly_previous L emps txs now = Inr rep"
  shows "\<exists>p s e. filtered_report L emps txs p s e = Inr rep"
  using assms
  by (auto simp: attendance_report_monthly_def attendance_report_weekly_def
        attendance_report_monthly_previous_def Let_def split: sum.splits prod.splits)

text \<open>
  C7.  The data of a response of any of the three report endpoints is the aggregation of
  the endpoint's period, filtered by \<open>late > 0 or absent > 0\<close>: a row of the aggregation
  is in the response exactly when its \<open>late\<close> or its \<open>absent\<close> is positive, so a row
  with \<open>late = 0\<close> and \<open>absent = 0\<close> is left out whatever its \<open>present\<close> is.
\<close>

theorem report_endpoints_filter:
  assumes "attendance_report_monthly LATE_AFTER_TIME employees transactions now month year
             = Inr rep
         \<or> attendance_report_weekly LATE_AFTER_TIME employees transactions now = Inr rep
         \<or> attendance_report_monthly_previous LATE_AFTER_TIME employees transactions now
             = Inr rep"
  shows "\<exists>start_dt end_dt all_data.
           calculate_attendance_stats LATE_AFTER_TIME employees transactions start_dt end_dt
             = Inr all_data
         \<and> rep_period_start rep = strftime_full start_dt
         \<and> rep_period_end rep = strftime_full end_dt
         \<and> rep_data rep
             = filter (\<lambda>d. late (row_stats d) > 0 \<or> absent (row_stats d) > 0) all_data
         \<and> (\<forall>d. d \<in> set (rep_data rep) \<longleftrightarrow>
                d \<in> set all_data \<and> (late (row_stats d) > 0 \<or> absent (row_stats d) > 0))
         \<and> (\<forall>d \<in> set all_data.
                late (row_stats d) = 0 \<and> absent (row_stats d) = 0 \<and> present (row_stats d) > 0
                \<longrightarrow> d \<notin> set (rep_data rep))"
proof -
  from report_endpoint_period[OF assms] obtain p s e where
    "filtered_report LATE_AFTER_TIME employees transactions p s e = Inr rep" by blast
  from filtered_report_data[OF this] obtain all_data where
    a: "calculate_attendance_stats LATE_AFTER_TIME employees transactions s e = Inr all_data"
    and d: "rep_data rep
             = filter (\<lambda>d. late (row_stats d) > 0 \<or> absent (row_stats d) > 0) all_data"
    and ps: "rep_period_start rep = strftime_full s" "rep_period_end rep = strftime_full e"
    by blast
  from d have m: "\<forall>d. d \<in> set (rep_data rep) \<longleftrightarrow>
                d \<in> set all_data \<and> (late (row_stats d) > 0 \<or> absent (row_stats d) > 0)"
    by auto
  from d have x: "\<forall>d \<in> set all_data.
                late (row_stats d) = 0 \<and> absent (row_stats d) = 0 \<and> present (row_stats d) > 0
                \<longrightarrow> d \<notin> set (rep_data rep)"
    by auto
  from a d ps m x show ?thesis by blast
qed

theorem report_endpoints_filter_witness:
  "attendance_report_weekly ''08:05:00'' [sample_employee ''E1'', sample_employee ''E0'']
       [sample_punch ''E1'' ''2024-02-05 08:00:00''] \<lparr>dt_ord = 738921, dt_sec = 36000\<rparr>
     = Inr \<lparr>rep_period = ''current_week_to_date'',
            rep_period_start = ''2024-02-05 00:00:00'',
            rep_period_end = ''2024-02-05 10:00:00'',
            rep_count = 1,
            rep_data =
              [\<lparr>row_emp_code = ''E0'', row_first_name = Some ''Ann'', row_last_name = Some [],
                row_department = None,
                row_stats = \<lparr>work_days_required = 1, present = 0, late = 0, absent = 1,
                              late_details = [], absent_details = [''2024-02-05'']\<rparr>\<rparr>]\<rparr>
   \<and> (\<exists>start_dt end_dt all_data.
           calculate_attendance_stats ''08:05:00''
             [sample_employee ''E1'', sample_employee ''E0'']
             [sample_punch ''E1'' ''2024-02-05 08:00:00''] start_dt end_dt = Inr all_data
         \<and> ''2024-02-05 00:00:00'' = strftime_full start_dt
         \<and> ''2024-02-05 10:00:00'' = strftime_full end_dt
         \<and> [\<lparr>row_emp_code = ''E0'', row_first_name = Some ''Ann'', row_last_name = Some [],
                row_department = None,
                row_stats = \<lparr>work_days_required = 1, present = 0, late = 0, absent = 1,
                              late_details = [], absent_details = [''2024-02-05'']\<rparr>\<rparr>]
             = filter (\<lambda>d. late (row_stats d) > 0 \<or> absent (row_stats d) > 0) all_data)"
proof -
  let ?rep = "\<lparr>rep_period = ''current_week_to_date'',
            rep_period_start = ''2024-02-05 00:00:00'',
            rep_period_end = ''2024-02-05 10:00:00'',
            rep_count = 1,
            rep_data =
              [\<lparr>row_emp_code = ''E0'', row_first_name = Some ''Ann'', row_last_name = Some [],
                row_department = None,
                row_stats = \<lparr>work_days_required = 1, present = 0, late = 0, absent = 1,
                              late_details = [], absent_details = [''2024-02-05'']\<rparr>\<rparr>]\<rparr>"
  have h: "attendance_report_weekly ''08:05:00''
       [sample_employee ''E1'', sample_employee ''E0'']
       [sample_punch ''E1'' ''2024-02-05 08:00:00''] \<lparr>dt_ord = 738921, dt_sec = 36000\<rparr>
     = Inr ?rep"
    by code_simp
  then have "attendance_report_monthly ''08:05:00''
       [sample_employee ''E1'', sample_employee ''E0'']
       [sample_punch ''E1'' ''2024-02-05 08:00:00''] \<lparr>dt_ord = 738921, dt_sec = 36000\<rparr>
       None None = Inr ?rep
     \<or> attendance_report_weekly ''08:05:00''
       [sample_employee ''E1'', sample_employee ''E0'']
       [sample_punch ''E1'' ''2024-02-05 08:00:00''] \<lparr>dt_ord = 738921, dt_sec = 36000\<rparr>
       = Inr ?rep
     \<or> attendance_report_monthly_previous ''08:05:00''
       [sample_employee ''E1'', sample_employee ''E0'']
       [sample_punch ''E1'' ''2024-02-05 08:00:00''] \<lparr>dt_ord = 738921, dt_sec = 36000\<rparr>
       = Inr ?rep"
    by blast
  from report_endpoints_filter[OF this] obtain s e a where
    "calculate_attendance_stats ''08:05:00''
             [sample_employee ''E1'', sample_employee ''E0'']
             [sample_punch ''E1'' ''2024-02-05 08:00:00''] s e = Inr a"
    "rep_period_start ?rep = strftime_full s"
    "rep_period_end ?rep = strftime_full e"
    "rep_data ?rep = filter (\<lambda>d. late (row_stats d) > 0 \<or> absent (row_stats d) > 0) a"
    by blast
  then have "\<exists>start_dt end_dt all_data.
           calculate_attendance_stats ''08:05:00''
             [sample_employee ''E1'', sample_employee ''E0'']
             [sample_punch ''E1'' ''2024-02-05 08:00:00''] start_dt end_dt = Inr all_data
         \<and> ''2024-02-05 00:00:00'' = strftime_full start_dt
         \<and> ''2024-02-05 10:00:00'' = strftime_full end_dt
         \<and> [\<lparr>row_emp_code = ''E0'', row_first_name = Some ''Ann'', row_last_name = Some [],
                row_department = None,
                row_stats = \<lparr>work_days_required = 1, present = 0, late = 0, absent = 1,
                              late_details = [], absent_details = [''2024-02-05'']\<rparr>\<rparr>]
             = filter (\<lambda>d. late (row_stats d) > 0 \<or> absent (row_stats d) > 0) all_data"
    by (intro exI[of _ s] exI[of _ e] exI[of _ a]) simp
  with h show ?thesis by (rule conjI)
qed

text \<open>
  C8.  For \<open>month = 2\<close> and \<open>year = 2024\<close> the period of the monthly report starts at
  2024-02-01 00:00:00 and ends at 2024-02-29 23:59:59, whatever the clock says; the
  endpoint aggregates that period, and a response carries the two instants as
  \<open>period_start\<close> and \<open>period_end\<close> and the filtered rows of that aggregation.  The
  list of days of the aggregation is the 29 days from 2024-02-01 to 2024-02-29.  When
  the aggregation returns, every employee of the roster with a non-empty code has a row,
  and the statistics of every row are the result of the day loop over these 29 days:
  25 required days (the days that are not Sundays), \<open>present\<close> the number of the 29
  dates under which the employee has a punch, and \<open>absent_details\<close> the dates among the
  25 under which the employee has none.
\<close>

theorem february_2024_period:
  "monthly_period now (Some 2) (Some 2024)
     = Inr (\<lparr>dt_ord = 738917, dt_sec = 0\<rparr>, \<lparr>dt_ord = 738945, dt_sec = 86399\<rparr>,
            ''custom_month'')
   \<and> strftime_full \<lparr>dt_ord = 738917, dt_sec = 0\<rparr> = ''2024-02-01 00:00:00''
   \<and> strftime_full \<lparr>dt_ord = 738945, dt_sec = 86399\<rparr> = ''2024-02-29 23:59:59''
   \<and> attendance_report_monthly LATE_AFTER_TIME employees transactions now (Some 2) (Some 2024)
       = filtered_report LATE_AFTER_TIME employees transactions ''custom_month''
           \<lparr>dt_ord = 738917, dt_sec = 0\<rparr> \<lparr>dt_ord = 738945, dt_sec = 86399\<rparr>
   \<and> (attendance_report_monthly LATE_AFTER_TIME employees transactions now (Some 2) (Some 2024)
         = Inr rep \<longrightarrow>
       rep_period_start rep = ''2024-02-01 00:00:00''
       \<and> rep_period_end rep = ''2024-02-29 23:59:59''
       \<and> (\<exists>all_data.
             calculate_attendance_stats LATE_AFTER_TIME employees transactions
               \<lparr>dt_ord = 738917, dt_sec = 0\<rparr> \<lparr>dt_ord = 738945, dt_sec = 86399\<rparr> = Inr all_data
           \<and> rep_data rep =
               filter (\<lambda>d. late (row_stats d) > 0 \<or> absent (row_stats d) > 0) all_data))
   \<and> (\<exists>all_dates.
         all_dates_loop \<lparr>dt_ord = 738917, dt_sec = 0\<rparr> \<lparr>dt_ord = 738945, dt_sec = 86399\<rparr> []
           = Inr all_dates
       \<and> map dt_ord all_dates = [738917..738945]
       \<and> map strftime_date all_dates =
           [''2024-02-01'', ''2024-02-02'', ''2024-02-03'', ''2024-02-04'',
            ''2024-02-05'', ''2024-02-06'', ''2024-02-07'', ''2024-02-08'',
            ''2024-02-09'', ''2024-02-10'', ''2024-02-11'', ''2024-02-12'',
            ''2024-02-13'', ''2024-02-14'', ''2024-02-15'', ''2024-02-16'',
            ''2024-02-17'', ''2024-02-18'', ''2024-02-19'', ''2024-02-20'',
            ''2024-02-21'', ''2024-02-22'', ''2024-02-23'', ''2024-02-24'',
            ''2024-02-25'', ''2024-02-26'', ''2024-02-27'', ''2024-02-28'',
            ''2024-02-29'']
       \<and> (\<forall>all_data.
             calculate_attendance_stats LATE_AFTER_TIME employees transactions
               \<lparr>dt_ord = 738917, dt_sec = 0\<rparr> \<lparr>dt_ord = 738945, dt_sec = 86399\<rparr> = Inr all_data \<longrightarrow>
             (\<forall>emp \<in> set employees. \<forall>code.
                py_get (emp_code emp) = Some code \<and> code \<noteq> [] \<longrightarrow>
                (\<exists>row \<in> set all_data. row_emp_code row = code))
           \<and> (\<forall>row \<in> set all_data.
                (\<exists>late_time_struct.
                   strptime_time LATE_AFTER_TIME = Inr late_time_struct
                 \<and> days_loop late_time_struct
                     (get_emp_punches (index_transactions transactions) (row_emp_code row))
                     zero_stats all_dates = Inr (row_stats row))
              \<and> work_days_required (row_stats row) = 25
              \<and> present (row_stats row) =
                  int (length (filter
                    (\<lambda>d. filter (in_bucket (row_emp_code row) d) transactions \<noteq> [])
                    (map strftime_date all_dates)))
              \<and> absent_details (row_stats row) =
                  filter (\<lambda>d. filter (in_bucket (row_emp_code row) d) transactions = [])
                    (map strftime_date (filter (\<lambda>d. weekday d \<noteq> 6) all_dates))
              \<and> absent (row_stats row) = int (length (absent_details (row_stats row))))))"
proof -
  let ?s = "\<lparr>dt_ord = 738917, dt_sec = 0\<rparr>"
  let ?e = "\<lparr>dt_ord = 738945, dt_sec = 86399\<rparr>"
  let ?ds = "map (\<lambda>n. \<lparr>dt_ord = n, dt_sec = 0\<rparr>) [738917..738945]"
  have a: "mk_datetime 2024 2 1 0 0 0 = Inr ?s" by code_simp
  have b: "mk_datetime 2024 3 1 0 0 0 = Inr \<lparr>dt_ord = 738946, dt_sec = 0\<rparr>" by code_simp
  have c: "add_seconds \<lparr>dt_ord = 738946, dt_sec = 0\<rparr> (- 1) = Inr ?e" by code_simp
  have 1: "monthly_period now (Some 2) (Some 2024) = Inr (?s, ?e, ''custom_month'')"
    by (simp add: monthly_period_def a b c)
  have 2: "strftime_full ?s = ''2024-02-01 00:00:00''"
    by code_simp
  have 3: "strftime_full ?e = ''2024-02-29 23:59:59''"
    by code_simp
  have 4: "attendance_report_monthly LATE_AFTER_TIME employees transactions now (Some 2) (Some 2024)
       = filtered_report LATE_AFTER_TIME employees transactions ''custom_month'' ?s ?e"
    by (simp add: attendance_report_monthly_def 1)
  have 5: "attendance_report_monthly LATE_AFTER_TIME employees transactions now (Some 2) (Some 2024)
         = Inr rep \<longrightarrow>
       rep_period_start rep = ''2024-02-01 00:00:00''
       \<and> rep_period_end rep = ''2024-02-29 23:59:59''
       \<and> (\<exists>all_data.
             calculate_attendance_stats LATE_AFTER_TIME employees transactions ?s ?e
               = Inr all_data
           \<and> rep_data rep =
               filter (\<lambda>d. late (row_stats d) > 0 \<or> absent (row_stats d) > 0) all_data)"
    using filtered_report_data[of LATE_AFTER_TIME employees transactions "''custom_month''"
        ?s ?e rep]
    by (auto simp: 4 2 3)
  have 6: "all_dates_loop ?s ?e [] = Inr ?ds"
    by code_simp
  have 7: "map strftime_date ?ds =
           [''2024-02-01'', ''2024-02-02'', ''2024-02-03'', ''2024-02-04'',
            ''2024-02-05'', ''2024-02-06'', ''2024-02-07'', ''2024-02-08'',
            ''2024-02-09'', ''2024-02-10'', ''2024-02-11'', ''2024-02-12'',
            ''2024-02-13'', ''2024-02-14'', ''2024-02-15'', ''2024-02-16'',
            ''2024-02-17'', ''2024-02-18'', ''2024-02-19'', ''2024-02-20'',
            ''2024-02-21'', ''2024-02-22'', ''2024-02-23'', ''2024-02-24'',
            ''2024-02-25'', ''2024-02-26'', ''2024-02-27'', ''2024-02-28'',
            ''2024-02-29'']"
    by code_simp
  have 9: "map dt_ord ?ds = [738917..738945]"
    by (simp add: comp_def)
  have wd: "length (filter (\<lambda>d. weekday d \<noteq> 6) ?ds) = 25"
    by code_simp
  have agg: "(\<forall>emp \<in> set employees. \<forall>code.
                py_get (emp_code emp) = Some code \<and> code \<noteq> [] \<longrightarrow>
                (\<exists>row \<in> set all_data. row_emp_code row = code))
           \<and> (\<forall>row \<in> set all_data.
                (\<exists>late_time_struct.
                   strptime_time LATE_AFTER_TIME = Inr late_time_struct
                 \<and> days_loop late_time_struct
                     (get_emp_punches (index_transactions transactions) (row_emp_code row))
                     zero_stats ?ds = Inr (row_stats row))
              \<and> work_days_required (row_stats row) = 25
              \<and> present (row_stats row) =
                  int (length (filter
                    (\<lambda>d. filter (in_bucket (row_emp_code row) d) transactions \<noteq> [])
                    (map strftime_date ?ds)))
              \<and> absent_details (row_stats row) =
                  filter (\<lambda>d. filter (in_bucket (row_emp_code row) d) transactions = [])
                    (map strftime_date (filter (\<lambda>d. weekday d \<noteq> 6) ?ds))
              \<and> absent (row_stats row) = int (length (absent_details (row_stats row))))"
    if calc: "calculate_attendance_stats LATE_AFTER_TIME employees transactions ?s ?e
                = Inr all_data" for all_data
  proof -
    from calc obtain lt ds where
      lt: "strptime_time LATE_AFTER_TIME = Inr lt" and
      ds: "all_dates_loop ?s ?e [] = Inr ds" and
      codes: "set (map row_emp_code all_data) =
         {c. c \<noteq> [] \<and> (\<exists>emp \<in> set employees. py_get (emp_code emp) = Some c)}" and
      each: "\<forall>row \<in> set all_data.
         days_loop lt (get_emp_punches (index_transactions transactions) (row_emp_code row))
           zero_stats ds = Inr (row_stats row)"
      by (rule calculate_attendance_stats_rows)
    from ds 6 have eq: "ds = ?ds" by simp
    have rows: "\<forall>emp \<in> set employees. \<forall>code.
                py_get (emp_code emp) = Some code \<and> code \<noteq> [] \<longrightarrow>
                (\<exists>row \<in> set all_data. row_emp_code row = code)"
    proof (intro ballI allI impI)
      fix emp code
      assume "emp \<in> set employees" "py_get (emp_code emp) = Some code \<and> code \<noteq> []"
      then have "code \<in> {c. c \<noteq> [] \<and> (\<exists>emp \<in> set employees. py_get (emp_code emp) = Some c)}"
        by auto
      then have "code \<in> set (map row_emp_code all_data)" unfolding codes .
      then show "\<exists>row \<in> set all_data. row_emp_code row = code" by auto
    qed
    have stats: "(\<exists>late_time_struct.
                   strptime_time LATE_AFTER_TIME = Inr late_time_struct
                 \<and> days_loop late_time_struct
                     (get_emp_punches (index_transactions transactions) (row_emp_code row))
                     zero_stats ?ds = Inr (row_stats row))
              \<and> work_days_required (row_stats row) = 25
              \<and> present (row_stats row) =
                  int (length (filter
                    (\<lambda>d. filter (in_bucket (row_emp_code row) d) transactions \<noteq> [])
                    (map strftime_date ?ds)))
              \<and> absent_details (row_stats row) =
                  filter (\<lambda>d. filter (in_bucket (row_emp_code row) d) transactions = [])
                    (map strftime_date (filter (\<lambda>d. weekday d \<noteq> 6) ?ds))
              \<and> absent (row_stats row) = int (length (absent_details (row_stats row)))"
      if "row \<in> set all_data" for row
    proof -
      from each that have loop:
        "days_loop lt (get_emp_punches (index_transactions transactions) (row_emp_code row))
           zero_stats ?ds = Inr (row_stats row)"
        unfolding eq by (rule bspec)
      note z = days_loop_zero_stats[OF loop]
      have r: "work_days_required (row_stats row) = 25"
        unfolding z(1) wd by simp
      from lt loop have ex: "\<exists>late_time_struct.
                   strptime_time LATE_AFTER_TIME = Inr late_time_struct
                 \<and> days_loop late_time_struct
                     (get_emp_punches (index_transactions transactions) (row_emp_code row))
                     zero_stats ?ds = Inr (row_stats row)"
        by (intro exI[of _ lt] conjI)
      from ex r z(2) z(3) z(4) show ?thesis by (intro conjI)
    qed
    from rows ballI[of "set all_data", OF stats] show ?thesis by (rule conjI)
  qed
  have 8: "\<exists>all_dates.
         all_dates_loop ?s ?e [] = Inr all_dates
       \<and> map dt_ord all_dates = [738917..738945]
       \<and> map strftime_date all_dates =
           [''2024-02-01'', ''2024-02-02'', ''2024-02-03'', ''2024-02-04'',
            ''2024-02-05'', ''2024-02-06'', ''2024-02-07'', ''2024-02-08'',
            ''2024-02-09'', ''2024-02-10'', ''2024-02-11'', ''2024-02-12'',
            ''2024-02-13'', ''2024-02-14'', ''2024-02-15'', ''2024-02-16'',
            ''2024-02-17'', ''2024-02-18'', ''2024-02-19'', ''2024-02-20'',
            ''2024-02-21'', ''2024-02-22'', ''2024-02-23'', ''2024-02-24'',
            ''2024-02-25'', ''2024-02-26'', ''2024-02-27'', ''2024-02-28'',
            ''2024-02-29'']
       \<and> (\<forall>all_data.
             calculate_attendance_stats LATE_AFTER_TIME employees transactions ?s ?e
               = Inr all_data \<longrightarrow>
             (\<forall>emp \<in> set employees. \<forall>code.
                py_get (emp_code emp) = Some code \<and> code \<noteq> [] \<longrightarrow>
                (\<exists>row \<in> set all_data. row_emp_code row = code))
           \<and> (\<forall>row \<in> set all_data.
                (\<exists>late_time_struct.
                   strptime_time LATE_AFTER_TIME = Inr late_time_struct
                 \<and> days_loop late_time_struct
                     (get_emp_punches (index_transactions transactions) (row_emp_code row))
                     zero_stats all_dates = Inr (row_stats row))
              \<and> work_days_required (row_stats row) = 25
              \<and> present (row_stats row) =
                  int (length (filter
                    (\<lambda>d. filter (in_bucket (row_emp_code row) d) transactions \<noteq> [])
                    (map strftime_date all_dates)))
              \<and> absent_details (row_stats row) =
                  filter (\<lambda>d. filter (in_bucket (row_emp_code row) d) transactions = [])
                    (map strftime_date (filter (\<lambda>d. weekday d \<noteq> 6) all_dates))
              \<and> absent (row_stats row) = int (length (absent_details (row_stats row)))))"
  proof (intro exI[of _ ?ds] conjI allI impI)
    show "all_dates_loop ?s ?e [] = Inr ?ds" by (rule 6)
    show "map dt_ord ?ds = [738917..738945]" by (rule 9)
    show "map strftime_date ?ds =
           [''2024-02-01'', ''2024-02-02'', ''2024-02-03'', ''2024-02-04'',
            ''2024-02-05'', ''2024-02-06'', ''2024-02-07'', ''2024-02-08'',
            ''2024-02-09'', ''2024-02-10'', ''2024-02-11'', ''2024-02-12'',
            ''2024-02-13'', ''2024-02-14'', ''2024-02-15'', ''2024-02-16'',
            ''2024-02-17'', ''2024-02-18'', ''2024-02-19'', ''2024-02-20'',
            ''2024-02-21'', ''2024-02-22'', ''2024-02-23'', ''2024-02-24'',
            ''2024-02-25'', ''2024-02-26'', ''2024-02-27'', ''2024-02-28'',
            ''2024-02-29'']"
      by (rule 7)
  next
    fix all_data
    assume "calculate_attendance_stats LATE_AFTER_TIME employees transactions ?s ?e
               = Inr all_data"
    from agg[OF this] show "\<forall>emp \<in> set employees. \<forall>code.
                py_get (emp_code emp) = Some code \<and> code \<noteq> [] \<longrightarrow>
                (\<exists>row \<in> set all_data. row_emp_code row = code)"
      by (rule conjunct1)
  next
    fix all_data
    assume "calculate_attendance_stats LATE_AFTER_TIME employees transactions ?s ?e
               = Inr all_data"
    from agg[OF this] show "\<forall>row \<in> set all_data.
                (\<exists>late_time_struct.
                   strptime_time LATE_AFTER_TIME = Inr late_time_struct
                 \<and> days_loop late_time_struct
                     (get_emp_punches (index_transactions transactions) (row_emp_code row))
                     zero_stats ?ds = Inr (row_stats row))
              \<and> work_days_required (row_stats row) = 25
              \<and> present (row_stats row) =
                  int (length (filter
                    (\<lambda>d. filter (in_bucket (row_emp_code row) d) transactions \<noteq> [])
                    (map strftime_date ?ds)))
              \<and> absent_details (row_stats row) =
                  filter (\<lambda>d. filter (in_bucket (row_emp_code row) d) transactions = [])
                    (map strftime_date (filter (\<lambda>d. weekday d \<noteq> 6) ?ds))
              \<and> absent (row_stats row) = int (length (absent_details (row_stats row)))"
      by (rule conjunct2)
  qed
  show ?thesis
    by (intro conjI) (rule 1, rule 2, rule 3, rule 4, rule 5, rule 8)
qed


theorem february_2024_period_witness:
  "attendance_report_monthly ''08:05:00'' [sample_employee ''E1'']
       [sample_punch ''E1'' ''2024-01-31 09:00:00'', sample_punch ''E1'' ''2024-02-01 08:00:00'',
        sample_punch ''E1'' ''2024-02-29 08:00:00'', sample_punch ''E1'' ''2024-03-01 08:00:00'']
       \<lparr>dt_ord = 739000, dt_sec = 100\<rparr> (Some 2) (Some 2024)
     = Inr \<lparr>rep_period = ''custom_month'',
        rep_period_start = ''2024-02-01 00:00:00'',
        rep_period_end = ''2024-02-29 23:59:59'',
        rep_count = 1, rep_data = [\<lparr>row_emp_code = ''E1'', row_first_name = Some ''Ann'', row_last_name = Some [],
        row_department = None,
        row_stats = \<lparr>work_days_required = 25, present = 2, late = 0, absent = 23,
          late_details = [],
          absent_details =
            [''2024-02-02'', ''2024-02-03'', ''2024-02-05'', ''2024-02-06'',
            ''2024-02-07'', ''2024-02-08'', ''2024-02-09'', ''2024-02-10'',
            ''2024-02-12'', ''2024-02-13'', ''2024-02-14'', ''2024-02-15'',
            ''2024-02-16'', ''2024-02-17'', ''2024-02-19'', ''2024-02-20'',
            ''2024-02-21'', ''2024-02-22'', ''2024-02-23'', ''2024-02-24'',
            ''2024-02-26'', ''2024-02-27'', ''2024-02-28'']\<rparr>\<rparr>]\<rparr>
   \<and> rep_period_start \<lparr>rep_period = ''custom_month'',
        rep_period_start = ''2024-02-01 00:00:00'',
        rep_period_end = ''2024-02-29 23:59:59'',
        rep_count = 1, rep_data = [\<lparr>row_emp_code = ''E1'', row_first_name = Some ''Ann'', row_last_name = Some [],
        row_department = None,
        row_stats = \<lparr>work_days_required = 25, present = 2, late = 0, absent = 23,
          late_details = [],
          absent_details =
            [''2024-02-02'', ''2024-02-03'', ''2024-02-05'', ''2024-02-06'',
            ''2024-02-07'', ''2024-02-08'', ''2024-02-09'', ''2024-02-10'',
            ''2024-02-12'', ''2024-02-13'', ''2024-02-14'', ''2024-02-15'',
            ''2024-02-16'', ''2024-02-17'', ''2024-02-19'', ''2024-02-20'',
            ''2024-02-21'', ''2024-02-22'', ''2024-02-23'', ''2024-02-24'',
            ''2024-02-26'', ''2024-02-27'', ''2024-02-28'']\<rparr>\<rparr>]\<rparr> = ''2024-02-01 00:00:00''
   \<and> rep_period_end \<lparr>rep_period = ''custom_month'',
        rep_period_start = ''2024-02-01 00:00:00'',
        rep_period_end = ''2024-02-29 23:59:59'',
        rep_count = 1, rep_data = [\<lparr>row_emp_code = ''E1'', row_first_name = Some ''Ann'', row_last_name = Some [],
        row_department = None,
        row_stats = \<lparr>work_days_required = 25, present = 2, late = 0, absent = 23,
          late_details = [],
          absent_details =
            [''2024-02-02'', ''2024-02-03'', ''2024-02-05'', ''2024-02-06'',
            ''2024-02-07'', ''2024-02-08'', ''2024-02-09'', ''2024-02-10'',
            ''2024-02-12'', ''2024-02-13'', ''2024-02-14'', ''2024-02-15'',
            ''2024-02-16'', ''2024-02-17'', ''2024-02-19'', ''2024-02-20'',
            ''2024-02-21'', ''2024-02-22'', ''2024-02-23'', ''2024-02-24'',
            ''2024-02-26'', ''2024-02-27'', ''2024-02-28'']\<rparr>\<rparr>]\<rparr> = ''2024-02-29 23:59:59''
   \<and> int (length (filter
         (\<lambda>d. filter (in_bucket ''E1'' d)
            [sample_punch ''E1'' ''2024-01-31 09:00:00'', sample_punch ''E1'' ''2024-02-01 08:00:00'',
        sample_punch ''E1'' ''2024-02-29 08:00:00'', sample_punch ''E1'' ''2024-03-01 08:00:00''] \<noteq> [])
         [''2024-02-01'', ''2024-02-02'', ''2024-02-03'', ''2024-02-04'',
            ''2024-02-05'', ''2024-02-06'', ''2024-02-07'', ''2024-02-08'',
            ''2024-02-09'', ''2024-02-10'', ''2024-02-11'', ''2024-02-12'',
            ''2024-02-13'', ''2024-02-14'', ''2024-02-15'', ''2024-02-16'',
            ''2024-02-17'', ''2024-02-18'', ''2024-02-19'', ''2024-02-20'',
            ''2024-02-21'', ''2024-02-22'', ''2024-02-23'', ''2024-02-24'',
            ''2024-02-25'', ''2024-02-26'', ''2024-02-27'', ''2024-02-28'',
            ''2024-02-29''])) = 2"
proof -
  let ?T = "[sample_punch ''E1'' ''2024-01-31 09:00:00'', sample_punch ''E1'' ''2024-02-01 08:00:00'',
        sample_punch ''E1'' ''2024-02-29 08:00:00'', sample_punch ''E1'' ''2024-03-01 08:00:00'']"
  let ?row = "\<lparr>row_emp_code = ''E1'', row_first_name = Some ''Ann'', row_last_name = Some [],
        row_department = None,
        row_stats = \<lparr>work_days_required = 25, present = 2, late = 0, absent = 23,
          late_details = [],
          absent_details =
            [''2024-02-02'', ''2024-02-03'', ''2024-02-05'', ''2024-02-06'',
            ''2024-02-07'', ''2024-02-08'', ''2024-02-09'', ''2024-02-10'',
            ''2024-02-12'', ''2024-02-13'', ''2024-02-14'', ''2024-02-15'',
            ''2024-02-16'', ''2024-02-17'', ''2024-02-19'', ''2024-02-20'',
            ''2024-02-21'', ''2024-02-22'', ''2024-02-23'', ''2024-02-24'',
            ''2024-02-26'', ''2024-02-27'', ''2024-02-28'']\<rparr>\<rparr>"
  let ?rep = "\<lparr>rep_period = ''custom_month'',
        rep_period_start = ''2024-02-01 00:00:00'',
        rep_period_end = ''2024-02-29 23:59:59'',
        rep_count = 1, rep_data = [\<lparr>row_emp_code = ''E1'', row_first_name = Some ''Ann'', row_last_name = Some [],
        row_department = None,
        row_stats = \<lparr>work_days_required = 25, present = 2, late = 0, absent = 23,
          late_details = [],
          absent_details =
            [''2024-02-02'', ''2024-02-03'', ''2024-02-05'', ''2024-02-06'',
            ''2024-02-07'', ''2024-02-08'', ''2024-02-09'', ''2024-02-10'',
            ''2024-02-12'', ''2024-02-13'', ''2024-02-14'', ''2024-02-15'',
            ''2024-02-16'', ''2024-02-17'', ''2024-02-19'', ''2024-02-20'',
            ''2024-02-21'', ''2024-02-22'', ''2024-02-23'', ''2024-02-24'',
            ''2024-02-26'', ''2024-02-27'', ''2024-02-28'']\<rparr>\<rparr>]\<rparr>"
  let ?now = "\<lparr>dt_ord = 739000, dt_sec = 100\<rparr>"
  have h: "attendance_report_monthly ''08:05:00'' [sample_employee ''E1''] ?T ?now
       (Some 2) (Some 2024) = Inr ?rep"
    by code_simp
  have calc: "calculate_attendance_stats ''08:05:00'' [sample_employee ''E1''] ?T
       \<lparr>dt_ord = 738917, dt_sec = 0\<rparr> \<lparr>dt_ord = 738945, dt_sec = 86399\<rparr> = Inr [?row]"
    by code_simp
  note t = february_2024_period[of ?now "''08:05:00''" "[sample_employee ''E1'']" ?T ?rep]
  note t5 = t[THEN conjunct2, THEN conjunct2, THEN conjunct2, THEN conjunct2, THEN conjunct1]
  note t6 = t[THEN conjunct2, THEN conjunct2, THEN conjunct2, THEN conjunct2, THEN conjunct2]
  note p = mp[OF t5 h]
  have ps: "rep_period_start ?rep = ''2024-02-01 00:00:00''" by (rule p[THEN conjunct1])
  have pe: "rep_period_end ?rep = ''2024-02-29 23:59:59''"
    by (rule p[THEN conjunct2, THEN conjunct1])
  from t6 obtain all_dates where
    s29: "map strftime_date all_dates =
           [''2024-02-01'', ''2024-02-02'', ''2024-02-03'', ''2024-02-04'',
            ''2024-02-05'', ''2024-02-06'', ''2024-02-07'', ''2024-02-08'',
            ''2024-02-09'', ''2024-02-10'', ''2024-02-11'', ''2024-02-12'',
            ''2024-02-13'', ''2024-02-14'', ''2024-02-15'', ''2024-02-16'',
            ''2024-02-17'', ''2024-02-18'', ''2024-02-19'', ''2024-02-20'',
            ''2024-02-21'', ''2024-02-22'', ''2024-02-23'', ''2024-02-24'',
            ''2024-02-25'', ''2024-02-26'', ''2024-02-27'', ''2024-02-28'',
            ''2024-02-29'']"
    and agg: "\<forall>all_data.
             calculate_attendance_stats ''08:05:00'' [sample_employee ''E1''] ?T
               \<lparr>dt_ord = 738917, dt_sec = 0\<rparr> \<lparr>dt_ord = 738945, dt_sec = 86399\<rparr> = Inr all_data \<longrightarrow>
             (\<forall>emp \<in> set [sample_employee ''E1'']. \<forall>code.
                py_get (emp_code emp) = Some code \<and> code \<noteq> [] \<longrightarrow>
                (\<exists>row \<in> set all_data. row_emp_code row = code))
           \<and> (\<forall>row \<in> set all_data.
                (\<exists>late_time_struct.
                   strptime_time ''08:05:00'' = Inr late_time_struct
                 \<and> days_loop late_time_struct
                     (get_emp_punches (index_transactions ?T) (row_emp_code row))
                     zero_stats all_dates = Inr (row_stats row))
              \<and> work_days_required (row_stats row) = 25
              \<and> present (row_stats row) =
                  int (length (filter
                    (\<lambda>d. filter (in_bucket (row_emp_code row) d) ?T \<noteq> [])
                    (map strftime_date all_dates)))
              \<and> absent_details (row_stats row) =
                  filter (\<lambda>d. filter (in_bucket (row_emp_code row) d) ?T = [])
                    (map strftime_date (filter (\<lambda>d. weekday d \<noteq> 6) all_dates))
              \<and> absent (row_stats row) = int (length (absent_details (row_stats row))))"
    by (elim exE conjE) (rule that, assumption+)
  have mem: "?row \<in> set [?row]" by simp
  note r = agg[THEN spec, THEN mp, OF calc, THEN conjunct2, THEN bspec, OF mem]
  note pr = r[THEN conjunct2, THEN conjunct2, THEN conjunct1, unfolded s29]
  have n: "int (length (filter (\<lambda>d. filter (in_bucket ''E1'' d) ?T \<noteq> [])
         [''2024-02-01'', ''2024-02-02'', ''2024-02-03'', ''2024-02-04'',
            ''2024-02-05'', ''2024-02-06'', ''2024-02-07'', ''2024-02-08'',
            ''2024-02-09'', ''2024-02-10'', ''2024-02-11'', ''2024-02-12'',
            ''2024-02-13'', ''2024-02-14'', ''2024-02-15'', ''2024-02-16'',
            ''2024-02-17'', ''2024-02-18'', ''2024-02-19'', ''2024-02-20'',
            ''2024-02-21'', ''2024-02-22'', ''2024-02-23'', ''2024-02-24'',
            ''2024-02-25'', ''2024-02-26'', ''2024-02-27'', ''2024-02-28'',
            ''2024-02-29''])) = 2"
    using pr by simp
  show ?thesis
    by (intro conjI) (rule h, rule ps, rule pe, rule n)
qed

section \<open>Parsing errors in the aggregator\<close>




text \<open>The punches of an indexed bucket carry their timestamp as a string.\<close>

lemma in_bucket_punch_time:
  "in_bucket code d tx \<Longrightarrow> tx_punch_time tx = Str (str_of (tx_punch_time tx))"
  by (cases "tx_punch_time tx") (auto simp: in_bucket_def indexable_def)

lemma punch_time_keys_strings:
  "\<forall>tx \<in> set txs. tx_punch_time tx = Str (str_of (tx_punch_time tx)) \<Longrightarrow>
   punch_time_keys txs = Inr (map (\<lambda>tx. Some (str_of (tx_punch_time tx))) txs)"
proof (induction txs)
  case Nil
  then show ?case by simp
next
  case (Cons a txs)
  then have "tx_punch_time a = Str (str_of (tx_punch_time a))" by simp
  then have "py_getitem (tx_punch_time a) = Inr (Some (str_of (tx_punch_time a)))"
    by (metis py_getitem.simps(3))
  with Cons show ?case by simp
qed

lemma sorted_by_punch_time_strings:
  assumes "\<forall>tx \<in> set txs. tx_punch_time tx = Str (str_of (tx_punch_time tx))"
  shows "sorted_by_punch_time txs = Inr (sort_key (\<lambda>x. str_of (tx_punch_time x)) txs)"
  by (auto simp: sorted_by_punch_time_def punch_time_keys_strings[OF assms])

text \<open>
  The step of a day that is not a Sunday, on a bucket of punches with string timestamps:
  the first punch in the order of the timestamp strings is parsed, and nothing else.
\<close>

lemma day_step_first_punch:
  assumes "weekday day \<noteq> 6"
    and "\<forall>tx \<in> set (get_daily_txs ep (strftime_date day)).
           tx_punch_time tx = Str (str_of (tx_punch_time tx))"
    and "sort_key (\<lambda>x. str_of (tx_punch_time x)) (get_daily_txs ep (strftime_date day))
           = first_punch # rest"
  shows "day_step lt ep st day =
     (case strptime (str_of (tx_punch_time first_punch)) of
        Inl e \<Rightarrow> Inl e
      | Inr first_punch_dt \<Rightarrow>
          if dt_key first_punch_dt > dt_key (combine day lt)
          then Inr (st\<lparr>work_days_required := work_days_required st + 1,
                       present := present st + 1,
                       late := late st + 1,
                       late_details := late_details st @
                         [\<lparr>ld_date = strftime_date day,
                           ld_punch_time = str_of (tx_punch_time first_punch),
                           ld_late_by = str_timedelta
                             (dt_diff first_punch_dt (combine day lt))\<rparr>]\<rparr>)
          else Inr (st\<lparr>work_days_required := work_days_required st + 1,
                       present := present st + 1\<rparr>))"
proof -
  let ?txs = "get_daily_txs ep (strftime_date day)"
  from assms(3) have ne: "?txs \<noteq> []" by auto
  have "first_punch \<in> set (sort_key (\<lambda>x. str_of (tx_punch_time x)) ?txs)"
    by (simp add: assms(3))
  then have "first_punch \<in> set ?txs" by simp
  with assms(2) have fp: "tx_punch_time first_punch = Str (str_of (tx_punch_time first_punch))"
    by blast
  then have g: "py_get (tx_punch_time first_punch) = Some (str_of (tx_punch_time first_punch))"
    by (metis py_get.simps(3))
  show ?thesis
    using assms(1) ne
    by (simp add: day_step_def Let_def sorted_by_punch_time_strings[OF assms(2)] assms(3) g
             split: sum.splits)
qed


lemma sort_key_Nil_iff: "sort_key f xs = [] \<longleftrightarrow> xs = []"
  using length_sort[of f xs] by (metis length_0_conv)




lemma indexed_bucket_strings:
  "\<forall>tx \<in> set (get_daily_txs (get_emp_punches (index_transactions txs) code) d).
     tx_punch_time tx = Str (str_of (tx_punch_time tx))"
  by (auto simp: index_transactions_bucket dest: in_bucket_punch_time)








section \<open>Properties of the simple summary\<close>

lemma py_getitem_get: "py_getitem v = Inr p \<Longrightarrow> py_get v = p"
  by (cases v) auto

lemma grouped_append_inv:
  assumes "\<forall>(k, l) \<in> set g. l \<noteq> [] \<and> (\<forall>r \<in> set l. py_getitem (tx_emp_code r) = Inr k \<and> r \<in> S)"
    and "py_getitem (tx_emp_code r) = Inr k" "r \<in> S"
  shows "\<forall>(k, l) \<in> set (grouped_append g k r).
           l \<noteq> [] \<and> (\<forall>r \<in> set l. py_getitem (tx_emp_code r) = Inr k \<and> r \<in> S)"
  using assms by (induction g) (fastforce split: if_splits)+

lemma group_records_inv:
  assumes "group_records g records = Inr g'"
    and "\<forall>(k, l) \<in> set g. l \<noteq> [] \<and> (\<forall>r \<in> set l. py_getitem (tx_emp_code r) = Inr k \<and> r \<in> S)"
    and "set records \<subseteq> S"
  shows "\<forall>(k, l) \<in> set g'. l \<noteq> [] \<and> (\<forall>r \<in> set l. py_getitem (tx_emp_code r) = Inr k \<and> r \<in> S)"
  using assms
proof (induction records arbitrary: g)
  case Nil
  then show ?case by simp
next
  case (Cons r records)
  from Cons.prems(1) obtain k where k: "py_getitem (tx_emp_code r) = Inr k"
    and g': "group_records (grouped_append g k r) records = Inr g'"
    by (auto split: sum.splits)
  from Cons.prems(3) have "r \<in> S" "set records \<subseteq> S" by auto
  from Cons.IH[OF g' grouped_append_inv[OF Cons.prems(2) k \<open>r \<in> S\<close>] \<open>set records \<subseteq> S\<close>]
  show ?case .
qed


text \<open>The keys of a list of punches are the parsed timestamps of the punches.\<close>

lemma punch_datetimes_keys:
  "punch_datetimes l = Inr ds \<Longrightarrow>
   list_all2 (\<lambda>r d. strptime_opt (py_get (tx_punch_time r)) = Inr d) l ds"
proof (induction l arbitrary: ds)
  case Nil
  then show ?case by simp
next
  case (Cons r l)
  then show ?case
    by (auto split: sum.splits dest: py_getitem_get)
qed

lemma zip_keys:
  assumes "list_all2 (\<lambda>r d. strptime_opt (py_get (tx_punch_time r)) = Inr d) l ds"
    and "(k, r) \<in> set (zip (map dt_key ds) l)"
  shows "\<exists>d. strptime_opt (py_get (tx_punch_time r)) = Inr d \<and> dt_key d = k"
  using assms
proof (induction l ds rule: list_all2_induct)
  case Nil
  then show ?case by simp
next
  case (Cons r' l d' ds)
  then show ?case by auto
qed

lemma sorted_hd_le_last:
  assumes "sorted (map f xs)" "xs \<noteq> []"
  shows "f (hd xs) \<le> f (last xs)"
proof (cases xs)
  case Nil
  with assms(2) show ?thesis by simp
next
  case (Cons x ys)
  show ?thesis
  proof (cases "ys = []")
    case True
    with Cons show ?thesis by simp
  next
    case False
    then have "last xs \<in> set ys" using Cons by auto
    with assms(1) Cons show ?thesis by auto
  qed
qed

lemma summarize_row:
  assumes "summarize k l = Inr row"
  shows "sr_emp_code row = k \<and> sr_total_punches row = int (length l) \<and> l \<noteq> []
       \<and> (\<exists>a b. strptime_opt (sr_first_punch_time row) = Inr a
                \<and> strptime_opt (sr_last_punch_time row) = Inr b
                \<and> dt_key a \<le> dt_key b)"
proof -
  from assms obtain ds where ds: "punch_datetimes l = Inr ds"
    by (auto simp: summarize_def sorted_by_datetime_def split: sum.splits)
  let ?z = "zip (map dt_key ds) l"
  let ?s = "sort_key fst ?z"
  from punch_datetimes_keys[OF ds] have all2:
    "list_all2 (\<lambda>r d. strptime_opt (py_get (tx_punch_time r)) = Inr d) l ds" .
  then have len: "length ds = length l" by (simp add: list_all2_lengthD)
  have sorted: "sorted_by_datetime l = Inr (map snd ?s)"
    by (simp add: sorted_by_datetime_def ds)
  from assms sorted have ne: "map snd ?s \<noteq> []"
    by (auto simp: summarize_def split: list.splits)
  then have sne: "?s \<noteq> []" by simp
  from assms sorted ne have row: "row =
     \<lparr>sr_emp_code = k,
      sr_first_name = py_get (tx_first_name (hd (map snd ?s))),
      sr_department = py_get (tx_department (hd (map snd ?s))),
      sr_first_punch_time = py_get (tx_punch_time (hd (map snd ?s))),
      sr_first_terminal_alias = py_get (tx_terminal_alias (hd (map snd ?s))),
      sr_last_punch_time = py_get (tx_punch_time (last (map snd ?s))),
      sr_last_terminal_alias = py_get (tx_terminal_alias (last (map snd ?s))),
      sr_total_punches = int (length (map snd ?s))\<rparr>"
    by (cases "map snd ?s") (auto simp: summarize_def Let_def)
  have l1: "length (map snd ?s) = length l" by (simp add: len)
  with ne have lne: "l \<noteq> []" by auto
  have hd_in: "hd ?s \<in> set ?z" using sne by (metis hd_in_set set_sort)
  have last_in: "last ?s \<in> set ?z" using sne by (metis last_in_set set_sort)
  from zip_keys[OF all2, of "fst (hd ?s)" "snd (hd ?s)"] hd_in obtain a where
    a: "strptime_opt (py_get (tx_punch_time (snd (hd ?s)))) = Inr a" "dt_key a = fst (hd ?s)"
    by auto
  from zip_keys[OF all2, of "fst (last ?s)" "snd (last ?s)"] last_in obtain b where
    b: "strptime_opt (py_get (tx_punch_time (snd (last ?s)))) = Inr b" "dt_key b = fst (last ?s)"
    by auto
  have "sorted (map fst ?s)" by simp
  from sorted_hd_le_last[OF this sne] have le: "dt_key a \<le> dt_key b" by (simp add: a b)
  have h: "hd (map snd ?s) = snd (hd ?s)" using sne by (simp add: hd_map)
  have la: "last (map snd ?s) = snd (last ?s)" using sne by (simp add: last_map)
  have fp: "sr_first_punch_time row = py_get (tx_punch_time (snd (hd ?s)))"
    by (simp add: row h)
  have lp: "sr_last_punch_time row = py_get (tx_punch_time (snd (last ?s)))"
    by (simp add: row la)
  have c: "sr_emp_code row = k" by (simp add: row)
  have t: "sr_total_punches row = int (length l)" by (simp add: row len)
  from a(1) b(1) le fp lp
  have "\<exists>a b. strptime_opt (sr_first_punch_time row) = Inr a
                \<and> strptime_opt (sr_last_punch_time row) = Inr b
                \<and> dt_key a \<le> dt_key b"
    by auto
  with c t lne show ?thesis by blast
qed

lemma summary_loop_rows:
  assumes "summary_loop acc g = Inr res"
  shows "\<exists>rows. res = acc @ rows
           \<and> (\<forall>row \<in> set rows. \<exists>(k, l) \<in> set g. summarize k l = Inr row)"
  using assms
proof (induction g arbitrary: acc)
  case Nil
  then show ?case by simp
next
  case (Cons p g)
  obtain k l where p: "p = (k, l)" by (cases p)
  from Cons.prems p obtain row where row: "summarize k l = Inr row"
    and r: "summary_loop (acc @ [row]) g = Inr res"
    by (auto split: sum.splits)
  from Cons.IH[OF r] obtain rows where rows: "res = (acc @ [row]) @ rows"
    "\<forall>row \<in> set rows. \<exists>(k, l) \<in> set g. summarize k l = Inr row" by blast
  have "res = acc @ (row # rows)" using rows(1) by simp
  moreover have "\<forall>r \<in> set (row # rows). \<exists>(k, l) \<in> set (p # g). summarize k l = Inr r"
    using rows(2) row p by auto
  ultimately show ?case by blast
qed

lemma sorted_by_emp_code_set:
  "sorted_by_emp_code summary = Inr s \<Longrightarrow> set s = set summary"
  by (auto simp: sorted_by_emp_code_def split: if_splits)

lemma build_attendance_summary_rows:
  assumes "build_attendance_summary records start_dt end_dt = Inr sm"
    and "row \<in> set (sm_data sm)"
  shows "punched_row records row"
proof -
  from assms(1) obtain g summ s where
    g: "group_records [] records = Inr g" and
    summ: "summary_loop [] g = Inr summ" and
    s: "sorted_by_emp_code summ = Inr s" and
    sm: "sm_data sm = s"
    by (auto simp: build_attendance_summary_def split: sum.splits)
  from assms(2) sm sorted_by_emp_code_set[OF s] have "row \<in> set summ" by simp
  with summary_loop_rows[OF summ] obtain k l where
    kl: "(k, l) \<in> set g" and row: "summarize k l = Inr row" by auto
  have "\<forall>(k, l) \<in> set g. l \<noteq> []
          \<and> (\<forall>r \<in> set l. py_getitem (tx_emp_code r) = Inr k \<and> r \<in> set records)"
    by (rule group_records_inv[OF g]) auto
  with kl have lne: "l \<noteq> []"
    and lr: "\<forall>r \<in> set l. py_getitem (tx_emp_code r) = Inr k \<and> r \<in> set records" by auto
  from lne obtain r where "r \<in> set l" by (cases l) auto
  with lr have r: "r \<in> set records" "py_getitem (tx_emp_code r) = Inr k" by auto
  from summarize_row[OF row] obtain a b where
    c: "sr_emp_code row = k" and t: "sr_total_punches row = int (length l)" and
    ab: "strptime_opt (sr_first_punch_time row) = Inr a"
        "strptime_opt (sr_last_punch_time row) = Inr b" "dt_key a \<le> dt_key b"
    by blast
  from lne t have "1 \<le> sr_total_punches row" by (cases l) auto
  moreover from r c have "list_ex (\<lambda>r. py_getitem (tx_emp_code r) = Inr (sr_emp_code row)) records"
    by (auto simp: list_ex_iff)
  ultimately show ?thesis using ab by (simp add: punched_row_def)
qed

lemma late_loop_subset:
  "late_loop thr acc rows = Inr res \<Longrightarrow> set res \<subseteq> set acc \<union> set rows"
proof (induction rows arbitrary: acc)
  case Nil
  then show ?case by simp
next
  case (Cons row rows)
  from Cons.prems obtain fp where fp: "strptime_opt (sr_first_punch_time row) = Inr fp"
    by (auto split: sum.splits)
  show ?case
  proof (cases "dt_key fp > dt_key thr")
    case True
    with Cons.prems fp have "late_loop thr (acc @ [row]) rows = Inr res" by simp
    from Cons.IH[OF this] show ?thesis by auto
  next
    case False
    with Cons.prems fp have "late_loop thr acc rows = Inr res" by simp
    from Cons.IH[OF this] show ?thesis by auto
  qed
qed

lemma early_loop_subset:
  "early_loop thr acc rows = Inr res \<Longrightarrow> set res \<subseteq> set acc \<union> set rows"
proof (induction rows arbitrary: acc)
  case Nil
  then show ?case by simp
next
  case (Cons row rows)
  from Cons.prems obtain lp where lp: "strptime_opt (sr_last_punch_time row) = Inr lp"
    by (auto split: sum.splits)
  show ?case
  proof (cases "dt_key lp < dt_key thr")
    case True
    with Cons.prems lp have "early_loop thr (acc @ [row]) rows = Inr res" by simp
    from Cons.IH[OF this] show ?thesis by auto
  next
    case False
    with Cons.prems lp have "early_loop thr acc rows = Inr res" by simp
    from Cons.IH[OF this] show ?thesis by auto
  qed
qed

lemma attendance_today_rows:
  assumes "attendance_today records now = Inr ts" "row \<in> set (sm_data ts)"
  shows "punched_row records row"
proof -
  from assms(1) obtain s e sm where
    "build_attendance_summary records s e = Inr sm" "sm_data ts = sm_data sm"
    by (auto simp: attendance_today_def Let_def split: sum.splits)
  with assms(2) show ?thesis by (auto intro: build_attendance_summary_rows)
qed

text \<open>
  C10.  Every row of a returned summary counts at least one punch, has a first punch
  time that is not after its last punch time (as parsed instants), and carries the
  employee code of some record of the input, so an employee without a punch has no row.
  The rows listed by the present, late and early-leave endpoints of today are rows of
  the summary of today, so the same holds for them.
\<close>

theorem summary_rows_have_punches:
  "(build_attendance_summary records start_dt end_dt = Inr sm \<and> row \<in> set (sm_data sm)
      \<longrightarrow> punched_row records row)
   \<and> (attendance_today_present records now = Inr resp \<and> row \<in> set (tl_data resp)
      \<longrightarrow> punched_row records row)
   \<and> (attendance_today_late LATE_AFTER_TIME records now = Inr resp \<and> row \<in> set (tl_data resp)
      \<longrightarrow> punched_row records row)
   \<and> (attendance_today_early_leave EARLY_LEAVE_TIME records now = Inr resp
        \<and> row \<in> set (tl_data resp)
      \<longrightarrow> punched_row records row)"
proof -
  have 1: "build_attendance_summary records start_dt end_dt = Inr sm \<and> row \<in> set (sm_data sm)
      \<longrightarrow> punched_row records row"
    by (auto intro: build_attendance_summary_rows)
  have 2: "attendance_today_present records now = Inr resp \<and> row \<in> set (tl_data resp)
      \<longrightarrow> punched_row records row"
    by (auto simp: attendance_today_present_def split: sum.splits
             intro: attendance_today_rows)
  have 3: "attendance_today_late LATE_AFTER_TIME records now = Inr resp
        \<and> row \<in> set (tl_data resp)
      \<longrightarrow> punched_row records row"
  proof (intro impI, elim conjE)
    assume a: "attendance_today_late LATE_AFTER_TIME records now = Inr resp"
      and r: "row \<in> set (tl_data resp)"
    from a obtain ts thr where ts: "attendance_today records now = Inr ts"
      and l: "late_loop thr [] (sm_data ts) = Inr (tl_data resp)"
      by (auto simp: attendance_today_late_def Let_def split: sum.splits)
    from late_loop_subset[OF l] r have "row \<in> set (sm_data ts)" by auto
    with ts show "punched_row records row" by (rule attendance_today_rows)
  qed
  have 4: "attendance_today_early_leave EARLY_LEAVE_TIME records now = Inr resp
        \<and> row \<in> set (tl_data resp)
      \<longrightarrow> punched_row records row"
  proof (intro impI, elim conjE)
    assume a: "attendance_today_early_leave EARLY_LEAVE_TIME records now = Inr resp"
      and r: "row \<in> set (tl_data resp)"
    from a obtain ts thr where ts: "attendance_today records now = Inr ts"
      and l: "early_loop thr [] (sm_data ts) = Inr (tl_data resp)"
      by (auto simp: attendance_today_early_leave_def Let_def split: sum.splits)
    from early_loop_subset[OF l] r have "row \<in> set (sm_data ts)" by auto
    with ts show "punched_row records row" by (rule attendance_today_rows)
  qed
  from 1 2 3 4 show ?thesis by (intro conjI)
qed

theorem summary_rows_have_punches_witness:
  "attendance_today_late ''08:05:00''
     [sample_punch ''E2'' ''2024-02-05 17:00:00'', sample_punch ''E1'' ''2024-02-05 9:00:00'',
      sample_punch ''E1'' ''2024-02-05 10:00:00'', sample_punch ''E1'' ''2024-02-05 08:00:00'']
     \<lparr>dt_ord = 738921, dt_sec = 40000\<rparr>
   = Inr \<lparr>tl_date = ''2024-02-05'', tl_count = 1,
          tl_data = [\<lparr>sr_emp_code = Some ''E2'', sr_first_name = Some ''Ann'',
                      sr_department = None,
                      sr_first_punch_time = Some ''2024-02-05 17:00:00'',
                      sr_first_terminal_alias = None,
                      sr_last_punch_time = Some ''2024-02-05 17:00:00'',
                      sr_last_terminal_alias = None, sr_total_punches = 1\<rparr>]\<rparr>
   \<and> build_attendance_summary
     [sample_punch ''E2'' ''2024-02-05 17:00:00'', sample_punch ''E1'' ''2024-02-05 9:00:00'',
      sample_punch ''E1'' ''2024-02-05 10:00:00'', sample_punch ''E1'' ''2024-02-05 08:00:00'']
     (midnight 738921) (midnight 738921)
   = Inr \<lparr>sm_start_date = ''2024-02-05'', sm_end_date = ''2024-02-05'', sm_count = 2,
          sm_data = [\<lparr>sr_emp_code = Some ''E1'', sr_first_name = Some ''Ann'',
                      sr_department = None,
                      sr_first_punch_time = Some ''2024-02-05 08:00:00'',
                      sr_first_terminal_alias = None,
                      sr_last_punch_time = Some ''2024-02-05 10:00:00'',
                      sr_last_terminal_alias = None, sr_total_punches = 3\<rparr>,
                     \<lparr>sr_emp_code = Some ''E2'', sr_first_name = Some ''Ann'',
                      sr_department = None,
                      sr_first_punch_time = Some ''2024-02-05 17:00:00'',
                      sr_first_terminal_alias = None,
                      sr_last_punch_time = Some ''2024-02-05 17:00:00'',
                      sr_last_terminal_alias = None, sr_total_punches = 1\<rparr>]\<rparr>
   \<and> punched_row
     [sample_punch ''E2'' ''2024-02-05 17:00:00'', sample_punch ''E1'' ''2024-02-05 9:00:00'',
      sample_punch ''E1'' ''2024-02-05 10:00:00'', sample_punch ''E1'' ''2024-02-05 08:00:00'']
     \<lparr>sr_emp_code = Some ''E1'', sr_first_name = Some ''Ann'',
                      sr_department = None,
                      sr_first_punch_time = Some ''2024-02-05 08:00:00'',
                      sr_first_terminal_alias = None,
                      sr_last_punch_time = Some ''2024-02-05 10:00:00'',
                      sr_last_terminal_alias = None, sr_total_punches = 3\<rparr>
   \<and> punched_row
     [sample_punch ''E2'' ''2024-02-05 17:00:00'', sample_punch ''E1'' ''2024-02-05 9:00:00'',
      sample_punch ''E1'' ''2024-02-05 10:00:00'', sample_punch ''E1'' ''2024-02-05 08:00:00'']
     \<lparr>sr_emp_code = Some ''E2'', sr_first_name = Some ''Ann'',
                      sr_department = None,
                      sr_first_punch_time = Some ''2024-02-05 17:00:00'',
                      sr_first_terminal_alias = None,
                      sr_last_punch_time = Some ''2024-02-05 17:00:00'',
                      sr_last_terminal_alias = None, sr_total_punches = 1\<rparr>"
proof -
  let ?records = "[sample_punch ''E2'' ''2024-02-05 17:00:00'',
      sample_punch ''E1'' ''2024-02-05 9:00:00'',
      sample_punch ''E1'' ''2024-02-05 10:00:00'', sample_punch ''E1'' ''2024-02-05 08:00:00'']"
  let ?r1 = "\<lparr>sr_emp_code = Some ''E1'', sr_first_name = Some ''Ann'',
                      sr_department = None,
                      sr_first_punch_time = Some ''2024-02-05 08:00:00'',
                      sr_first_terminal_alias = None,
                      sr_last_punch_time = Some ''2024-02-05 10:00:00'',
                      sr_last_terminal_alias = None, sr_total_punches = 3\<rparr>"
  let ?r2 = "\<lparr>sr_emp_code = Some ''E2'', sr_first_name = Some ''Ann'',
                      sr_department = None,
                      sr_first_punch_time = Some ''2024-02-05 17:00:00'',
                      sr_first_terminal_alias = None,
                      sr_last_punch_time = Some ''2024-02-05 17:00:00'',
                      sr_last_terminal_alias = None, sr_total_punches = 1\<rparr>"
  let ?sm = "\<lparr>sm_start_date = ''2024-02-05'', sm_end_date = ''2024-02-05'', sm_count = 2,
          sm_data = [?r1, ?r2]\<rparr>"
  let ?resp = "\<lparr>tl_date = ''2024-02-05'', tl_count = 1, tl_data = [?r2]\<rparr>"
  have h1: "attendance_today_late ''08:05:00'' ?records \<lparr>dt_ord = 738921, dt_sec = 40000\<rparr>
              = Inr ?resp"
    by code_simp
  have h2: "build_attendance_summary ?records (midnight 738921) (midnight 738921) = Inr ?sm"
    by code_simp
  have m1: "?r1 \<in> set (sm_data ?sm)" by simp
  have m2: "?r2 \<in> set (tl_data ?resp)" by simp
  have p1: "punched_row ?records ?r1"
    by (rule mp[OF summary_rows_have_punches[THEN conjunct1]], rule conjI, rule h2, rule m1)
  have p2: "punched_row ?records ?r2"
    by (rule mp[OF summary_rows_have_punches[THEN conjunct2, THEN conjunct2, THEN conjunct1]],
        rule conjI, rule h1, rule m2)
  from h1 h2 p1 p2 show ?thesis by (intro conjI)
qed

section \<open>Parsing a timestamp of the fixed form\<close>

lemma is_digit_cases:
  assumes "is_digit c"
  obtains "c = CHR ''0''" | "c = CHR ''1''" | "c = CHR ''2''" | "c = CHR ''3''" | "c = CHR ''4''"
    | "c = CHR ''5''" | "c = CHR ''6''" | "c = CHR ''7''" | "c = CHR ''8''" | "c = CHR ''9''"
proof -
  let ?n = "of_char c :: nat"
  from assms have "48 \<le> ?n \<and> ?n \<le> 57"
    by (simp add: is_digit_def less_eq_char_def)
  then have "?n = 48 \<or> ?n = 49 \<or> ?n = 50 \<or> ?n = 51 \<or> ?n = 52 \<or> ?n = 53 \<or> ?n = 54
      \<or> ?n = 55 \<or> ?n = 56 \<or> ?n = 57" by arith
  moreover have "c = char_of ?n" by simp
  ultimately have "c = char_of (48::nat) \<or> c = char_of (49::nat) \<or> c = char_of (50::nat)
      \<or> c = char_of (51::nat) \<or> c = char_of (52::nat) \<or> c = char_of (53::nat)
      \<or> c = char_of (54::nat) \<or> c = char_of (55::nat) \<or> c = char_of (56::nat)
      \<or> c = char_of (57::nat)" by metis
  moreover have "char_of (48::nat) = CHR ''0''" "char_of (49::nat) = CHR ''1''"
    "char_of (50::nat) = CHR ''2''" "char_of (51::nat) = CHR ''3''"
    "char_of (52::nat) = CHR ''4''" "char_of (53::nat) = CHR ''5''"
    "char_of (54::nat) = CHR ''6''" "char_of (55::nat) = CHR ''7''"
    "char_of (56::nat) = CHR ''8''" "char_of (57::nat) = CHR ''9''"
    by code_simp+
  ultimately show ?thesis using that by metis
qed

lemma re_d_digits:
  assumes "is_digit a" "is_digit b"
  shows "re_d (a # b # R) =
    (if 1 \<le> 10 * digit_val a + digit_val b \<and> 10 * digit_val a + digit_val b \<le> 31
     then [(10 * digit_val a + digit_val b, R)] else [])
    @ (if 1 \<le> digit_val a then [(digit_val a, b # R)] else [])"
  using assms
  by (elim is_digit_cases) (simp_all add: re_d_def in_range_def digit_val_def)


lemma is_digit_not_sep:
  "is_digit c \<Longrightarrow> c \<noteq> CHR ''-'' \<and> c \<noteq> CHR '':'' \<and> c \<noteq> CHR '' '' \<and> \<not> is_space c"
  by (elim is_digit_cases) (simp_all add: is_space_def)

lemma digit_val_range: "is_digit c \<Longrightarrow> 0 \<le> digit_val c \<and> digit_val c \<le> 9"
  by (elim is_digit_cases) (simp_all add: digit_val_def)

lemma re_m_digits:
  assumes "is_digit a" "is_digit b"
  shows "re_m (a # b # R) =
    (if 1 \<le> 10 * digit_val a + digit_val b \<and> 10 * digit_val a + digit_val b \<le> 12
     then [(10 * digit_val a + digit_val b, R)] else [])
    @ (if 1 \<le> digit_val a then [(digit_val a, b # R)] else [])"
  using assms
  by (elim is_digit_cases) (simp_all add: re_m_def in_range_def digit_val_def)

lemma re_H_digits:
  assumes "is_digit a" "is_digit b"
  shows "re_H (a # b # R) =
    (if 10 * digit_val a + digit_val b \<le> 23
     then [(10 * digit_val a + digit_val b, R)] else [])
    @ [(digit_val a, b # R)]"
  using assms
  by (elim is_digit_cases) (simp_all add: re_H_def in_range_def digit_val_def)

lemma re_M_digits:
  assumes "is_digit a" "is_digit b"
  shows "re_M (a # b # R) =
    (if 10 * digit_val a + digit_val b \<le> 59
     then [(10 * digit_val a + digit_val b, R)] else [])
    @ [(digit_val a, b # R)]"
  using assms
  by (elim is_digit_cases) (simp_all add: re_M_def in_range_def digit_val_def)

lemma re_S_digits:
  assumes "is_digit a" "is_digit b"
  shows "re_S (a # b # R) =
    (if 10 * digit_val a + digit_val b \<le> 61
     then [(10 * digit_val a + digit_val b, R)] else [])
    @ [(digit_val a, b # R)]"
  using assms
  by (elim is_digit_cases) (simp_all add: re_S_def in_range_def digit_val_def)

lemma is_space_space: "is_space CHR '' ''"
  by (simp add: is_space_def)

lemma re_ws_space_digit: "is_digit h \<Longrightarrow> re_ws (CHR '' '' # h # T) = [((), h # T)]"
  by (simp add: re_ws_def is_digit_not_sep is_space_space)

lemma re_ws_digit: "is_digit b \<Longrightarrow> re_ws (b # T) = []"
  by (simp add: re_ws_def is_digit_not_sep)

lemma bind_append: "List.bind (xs @ ys) f = List.bind xs f @ List.bind ys f"
  by (simp add: List.bind_def)

lemma concat_map_pair_singleton:
  "concat (map (\<lambda>(a, b). [f a b]) xs) = map (\<lambda>(a, b). f a b) xs"
  by (induction xs) auto

lemma match_ymd_digits:
  assumes "is_digit y1" "is_digit y2" "is_digit y3" "is_digit y4"
    "is_digit m1" "is_digit m2" "is_digit d1" "is_digit d2"
  shows "match_ymd (y1 # y2 # y3 # y4 # CHR ''-'' # m1 # m2 # CHR ''-'' # d1 # d2 # R) =
    (if 1 \<le> 10 * digit_val m1 + digit_val m2 \<and> 10 * digit_val m1 + digit_val m2 \<le> 12
     then map (\<lambda>(d, s).
            ((1000 * digit_val y1 + 100 * digit_val y2 + 10 * digit_val y3 + digit_val y4,
              10 * digit_val m1 + digit_val m2, d), s))
          (re_d (d1 # d2 # R))
     else [])"
proof -
  from assms(6) have ne: "m2 \<noteq> CHR ''-''" by (simp add: is_digit_not_sep)
  show ?thesis
    using assms ne
    by (auto simp: match_ymd_def re_Y_def re_m_digits bind_append List.bind_def
          concat_map_pair_singleton)
qed

lemma match_hms_digits:
  assumes "is_digit h1" "is_digit h2" "is_digit n1" "is_digit n2" "is_digit s1" "is_digit s2"
  shows "match_hms (h1 # h2 # CHR '':'' # n1 # n2 # CHR '':'' # s1 # s2 # R) =
    (if 10 * digit_val h1 + digit_val h2 \<le> 23 \<and> 10 * digit_val n1 + digit_val n2 \<le> 59
     then map (\<lambda>(S, s). ((10 * digit_val h1 + digit_val h2, 10 * digit_val n1 + digit_val n2, S), s))
          (re_S (s1 # s2 # R))
     else [])"
proof -
  from assms(2,4) have ne: "h2 \<noteq> CHR '':''" "n2 \<noteq> CHR '':''" by (simp_all add: is_digit_not_sep)
  show ?thesis
    using assms ne
    by (auto simp: match_hms_def re_H_digits re_M_digits bind_append List.bind_def
          concat_map_pair_singleton)
qed


lemma days_in_month_le: "1 \<le> m \<Longrightarrow> m \<le> 12 \<Longrightarrow> days_in_month y m \<le> 31"
proof -
  assume "1 \<le> m" "m \<le> 12"
  then have "m = 1 \<or> m = 2 \<or> m = 3 \<or> m = 4 \<or> m = 5 \<or> m = 6 \<or> m = 7 \<or> m = 8 \<or> m = 9
      \<or> m = 10 \<or> m = 11 \<or> m = 12" by arith
  then show ?thesis
    by (elim disjE) (simp_all add: days_in_month_def DAYS_IN_MONTH_def)
qed

text \<open>
  On a string of the form \<open>YYYY-MM-DD HH:MM:SS\<close> the parser reads the six numbers at
  their fixed places; the regular expression rejects nothing that the constructor accepts.
\<close>

lemma strptime_fixed_width:
  assumes "is_digit y1" "is_digit y2" "is_digit y3" "is_digit y4"
    "is_digit m1" "is_digit m2" "is_digit d1" "is_digit d2"
    "is_digit h1" "is_digit h2" "is_digit n1" "is_digit n2" "is_digit s1" "is_digit s2"
  shows "strptime (y1 # y2 # y3 # y4 # CHR ''-'' # m1 # m2 # CHR ''-'' # d1 # d2 # CHR '' ''
                   # h1 # h2 # CHR '':'' # n1 # n2 # CHR '':'' # [s1, s2]) =
         mk_datetime (1000 * digit_val y1 + 100 * digit_val y2 + 10 * digit_val y3 + digit_val y4)
           (10 * digit_val m1 + digit_val m2) (10 * digit_val d1 + digit_val d2)
           (10 * digit_val h1 + digit_val h2) (10 * digit_val n1 + digit_val n2)
           (10 * digit_val s1 + digit_val s2)"
proof -
  let ?Y = "1000 * digit_val y1 + 100 * digit_val y2 + 10 * digit_val y3 + digit_val y4"
  let ?M = "10 * digit_val m1 + digit_val m2"
  let ?D = "10 * digit_val d1 + digit_val d2"
  let ?H = "10 * digit_val h1 + digit_val h2"
  let ?N = "10 * digit_val n1 + digit_val n2"
  let ?S = "10 * digit_val s1 + digit_val s2"
  let ?T = "h1 # h2 # CHR '':'' # n1 # n2 # CHR '':'' # [s1, s2]"
  let ?p = "y1 # y2 # y3 # y4 # CHR ''-'' # m1 # m2 # CHR ''-'' # d1 # d2 # CHR '' '' # ?T"
  have ws1: "re_ws (CHR '' '' # ?T) = [((), ?T)]"
    using assms(9) by (rule re_ws_space_digit)
  have ws2: "re_ws (d2 # CHR '' '' # ?T) = []"
    using assms(8) by (rule re_ws_digit)
  have hms: "match_hms ?T =
      (if ?H \<le> 23 \<and> ?N \<le> 59
       then map (\<lambda>(S, s). ((?H, ?N, S), s)) (re_S [s1, s2]) else [])"
    using assms(9-14) by (rule match_hms_digits)
  have S: "re_S [s1, s2] = (if ?S \<le> 61 then [(?S, [])] else []) @ [(digit_val s1, [s2])]"
    using assms(13,14) by (rule re_S_digits)
  have ymd: "match_ymd ?p =
      (if 1 \<le> ?M \<and> ?M \<le> 12
       then map (\<lambda>(d, s). ((?Y, ?M, d), s)) (re_d (d1 # d2 # CHR '' '' # ?T)) else [])"
    using assms(1-8) by (rule match_ymd_digits)
  have d: "re_d (d1 # d2 # CHR '' '' # ?T) =
      (if 1 \<le> ?D \<and> ?D \<le> 31 then [(?D, CHR '' '' # ?T)] else [])
      @ (if 1 \<le> digit_val d1 then [(digit_val d1, d2 # CHR '' '' # ?T)] else [])"
    using assms(7,8) by (rule re_d_digits)
  have m: "match_datetime ?p =
      (if 1 \<le> ?M \<and> ?M \<le> 12 \<and> 1 \<le> ?D \<and> ?D \<le> 31 \<and> ?H \<le> 23 \<and> ?N \<le> 59
       then (if ?S \<le> 61 then [(((?Y, ?M, ?D), (?H, ?N, ?S)), [])] else [])
            @ [(((?Y, ?M, ?D), (?H, ?N, digit_val s1)), [s2])]
       else [])"
    unfolding match_datetime_def ymd d
    by (cases "1 \<le> ?M \<and> ?M \<le> 12"; cases "1 \<le> ?D \<and> ?D \<le> 31";
        cases "1 \<le> digit_val d1"; cases "?H \<le> 23 \<and> ?N \<le> 59"; cases "?S \<le> 61")
       (auto simp: List.bind_def ws1 ws2 hms S)
  have r: "0 \<le> digit_val s1" "0 \<le> digit_val s2" "0 \<le> digit_val h1" "0 \<le> digit_val h2"
    "0 \<le> digit_val n1" "0 \<le> digit_val n2" "0 \<le> digit_val d1" "0 \<le> digit_val d2"
    using assms by (simp_all add: digit_val_range)
  show ?thesis
  proof (cases "1 \<le> ?M \<and> ?M \<le> 12 \<and> 1 \<le> ?D \<and> ?D \<le> 31 \<and> ?H \<le> 23 \<and> ?N \<le> 59")
    case True
    have md: "match_datetime ?p =
        (if ?S \<le> 61 then [(((?Y, ?M, ?D), (?H, ?N, ?S)), [])] else [])
            @ [(((?Y, ?M, ?D), (?H, ?N, digit_val s1)), [s2])]"
      unfolding m by (rule if_P[OF True])
    show ?thesis
    proof (cases "?S \<le> 61")
      case s: True
      then show ?thesis by (simp add: strptime_def md)
    next
      case False
      then have "strptime ?p = Inl ValueError" by (simp add: strptime_def md)
      moreover from False have "mk_datetime ?Y ?M ?D ?H ?N ?S = Inl ValueError"
        by (simp add: mk_datetime_def)
      ultimately show ?thesis by simp
    qed
  next
    case False
    have md: "match_datetime ?p = []"
      unfolding m by (rule if_not_P[OF False])
    have "strptime ?p = Inl ValueError" by (simp add: strptime_def md)
    moreover have "mk_datetime ?Y ?M ?D ?H ?N ?S = Inl ValueError"
    proof (cases "1 \<le> ?M \<and> ?M \<le> 12")
      case True
      then have "days_in_month ?Y ?M \<le> 31" by (simp add: days_in_month_le)
      with False True r show ?thesis by (auto simp: mk_datetime_def)
    next
      case False
      then show ?thesis by (auto simp: mk_datetime_def)
    qed
    ultimately show ?thesis by simp
  qed
qed

lemma mk_datetime_fields:
  assumes "mk_datetime Y M D H N S = Inr t"
  shows "dt_ord t = ymd2ord Y M D" and "dt_sec t = H * 3600 + N * 60 + S"
    and "N \<le> 59" and "S \<le> 59"
  using assms by (auto simp: mk_datetime_def split: if_splits)

lemma digit_order:
  assumes "is_digit a" "is_digit b"
  shows "(a < b) = (digit_val a < digit_val b)" "(a = b) = (digit_val a = digit_val b)"
    "(a \<le> b) = (digit_val a \<le> digit_val b)"
  using assms by (elim is_digit_cases; simp add: digit_val_def)+

lemma time_chars_order:
  assumes "is_digit h1" "is_digit h2" "is_digit n1" "is_digit n2" "is_digit s1" "is_digit s2"
    "is_digit g1" "is_digit g2" "is_digit o1" "is_digit o2" "is_digit r1" "is_digit r2"
    and "[h1, h2, CHR '':'', n1, n2, CHR '':'', s1, s2]
           \<le> [g1, g2, CHR '':'', o1, o2, CHR '':'', r1, r2]"
  shows "digit_val h1 < digit_val g1 \<or> digit_val h1 = digit_val g1 \<and>
     (digit_val h2 < digit_val g2 \<or> digit_val h2 = digit_val g2 \<and>
     (digit_val n1 < digit_val o1 \<or> digit_val n1 = digit_val o1 \<and>
     (digit_val n2 < digit_val o2 \<or> digit_val n2 = digit_val o2 \<and>
     (digit_val s1 < digit_val r1 \<or> digit_val s1 = digit_val r1 \<and>
      digit_val s2 \<le> digit_val r2))))"
proof -
  note o = digit_order[OF assms(1) assms(7)] digit_order[OF assms(2) assms(8)]
      digit_order[OF assms(3) assms(9)] digit_order[OF assms(4) assms(10)]
      digit_order[OF assms(5) assms(11)] digit_order[OF assms(6) assms(12)]
  from assms(13) have "h1 < g1 \<or> h1 = g1 \<and> (h2 < g2 \<or> h2 = g2 \<and> (n1 < o1 \<or> n1 = o1 \<and>
      (n2 < o2 \<or> n2 = o2 \<and> (s1 < r1 \<or> s1 = r1 \<and> (s2 < r2 \<or> s2 = r2)))))"
    by simp
  then have "digit_val h1 < digit_val g1 \<or> digit_val h1 = digit_val g1 \<and>
     (digit_val h2 < digit_val g2 \<or> digit_val h2 = digit_val g2 \<and>
     (digit_val n1 < digit_val o1 \<or> digit_val n1 = digit_val o1 \<and>
     (digit_val n2 < digit_val o2 \<or> digit_val n2 = digit_val o2 \<and>
     (digit_val s1 < digit_val r1 \<or> digit_val s1 = digit_val r1 \<and>
      (digit_val s2 < digit_val r2 \<or> digit_val s2 = digit_val r2)))))"
    unfolding o .
  then show ?thesis
    unfolding order_le_less .
qed

lemma lex_seconds:
  fixes a b c d e f a' b' c' d' e' f' :: int
  assumes "0 \<le> a \<and> a \<le> 9" "0 \<le> b \<and> b \<le> 9" "0 \<le> c \<and> c \<le> 9" "0 \<le> d \<and> d \<le> 9"
    "0 \<le> e \<and> e \<le> 9" "0 \<le> f \<and> f \<le> 9"
    "0 \<le> a' \<and> a' \<le> 9" "0 \<le> b' \<and> b' \<le> 9" "0 \<le> c' \<and> c' \<le> 9" "0 \<le> d' \<and> d' \<le> 9"
    "0 \<le> e' \<and> e' \<le> 9" "0 \<le> f' \<and> f' \<le> 9"
    and "10 * c + d \<le> 59" "10 * e + f \<le> 59" "10 * c' + d' \<le> 59" "10 * e' + f' \<le> 59"
    and "a < a' \<or> a = a' \<and> (b < b' \<or> b = b' \<and> (c < c' \<or> c = c' \<and>
           (d < d' \<or> d = d' \<and> (e < e' \<or> e = e' \<and> f \<le> f'))))"
  shows "(10 * a + b) * 3600 + (10 * c + d) * 60 + (10 * e + f)
       \<le> (10 * a' + b') * 3600 + (10 * c' + d') * 60 + (10 * e' + f')"
  using assms by (elim disjE conjE) simp_all

lemma date_part_iso:
  assumes "is_digit y1" "is_digit y2" "is_digit y3" "is_digit y4"
    "is_digit m1" "is_digit m2" "is_digit d1" "is_digit d2"
  shows "date_part (y1 # y2 # y3 # y4 # CHR ''-'' # m1 # m2 # CHR ''-'' # d1 # d2 # CHR '' '' # T)
       = [y1, y2, y3, y4, CHR ''-'', m1, m2, CHR ''-'', d1, d2]"
  using assms by (simp add: date_part_def is_digit_not_sep)

lemma same_date_chars:
  assumes "is_digit y1" "is_digit y2" "is_digit y3" "is_digit y4"
    "is_digit m1" "is_digit m2" "is_digit d1" "is_digit d2"
    "is_digit z1" "is_digit z2" "is_digit z3" "is_digit z4"
    "is_digit k1" "is_digit k2" "is_digit e1" "is_digit e2"
    and "date_part (y1 # y2 # y3 # y4 # CHR ''-'' # m1 # m2 # CHR ''-'' # d1 # d2 # CHR '' '' # T)
       = date_part (z1 # z2 # z3 # z4 # CHR ''-'' # k1 # k2 # CHR ''-'' # e1 # e2 # CHR '' '' # U)"
  shows "z1 = y1 \<and> z2 = y2 \<and> z3 = y3 \<and> z4 = y4 \<and> k1 = m1 \<and> k2 = m2 \<and> e1 = d1 \<and> e2 = d2"
  using assms(17)
  unfolding date_part_iso[OF assms(1-8)] date_part_iso[OF assms(9-16)] by simp

lemma iso_timestamp_chars:
  assumes "iso_timestamp p"
  shows "p = [p ! 0, p ! 1, p ! 2, p ! 3, CHR ''-'', p ! 5, p ! 6, CHR ''-'', p ! 8, p ! 9,
              CHR '' '', p ! 11, p ! 12, CHR '':'', p ! 14, p ! 15, CHR '':'', p ! 17, p ! 18]
       \<and> is_digit (p ! 0) \<and> is_digit (p ! 1) \<and> is_digit (p ! 2) \<and> is_digit (p ! 3)
       \<and> is_digit (p ! 5) \<and> is_digit (p ! 6) \<and> is_digit (p ! 8) \<and> is_digit (p ! 9)
       \<and> is_digit (p ! 11) \<and> is_digit (p ! 12) \<and> is_digit (p ! 14)
       \<and> is_digit (p ! 15) \<and> is_digit (p ! 17) \<and> is_digit (p ! 18)"
  using assms by (auto simp: iso_timestamp_def list_all2_Cons2)

lemma iso_timestamp_nth:
  assumes "iso_timestamp p"
  shows "p = [p ! 0, p ! 1, p ! 2, p ! 3, CHR ''-'', p ! 5, p ! 6, CHR ''-'', p ! 8, p ! 9,
              CHR '' '', p ! 11, p ! 12, CHR '':'', p ! 14, p ! 15, CHR '':'', p ! 17, p ! 18]"
    and "is_digit (p ! 0)" and "is_digit (p ! 1)" and "is_digit (p ! 2)" and "is_digit (p ! 3)"
    and "is_digit (p ! 5)" and "is_digit (p ! 6)" and "is_digit (p ! 8)" and "is_digit (p ! 9)"
    and "is_digit (p ! 11)" and "is_digit (p ! 12)" and "is_digit (p ! 14)"
    and "is_digit (p ! 15)" and "is_digit (p ! 17)" and "is_digit (p ! 18)"
proof -
  note c = iso_timestamp_chars[OF assms]
  show "p = [p ! 0, p ! 1, p ! 2, p ! 3, CHR ''-'', p ! 5, p ! 6, CHR ''-'', p ! 8, p ! 9,
              CHR '' '', p ! 11, p ! 12, CHR '':'', p ! 14, p ! 15, CHR '':'', p ! 17, p ! 18]"
    by (rule c[THEN conjunct1])
  show "is_digit (p ! 0)"
    by (rule c[THEN conjunct2, THEN conjunct1])
  show "is_digit (p ! 1)"
    by (rule c[THEN conjunct2, THEN conjunct2, THEN conjunct1])
  show "is_digit (p ! 2)"
    by (rule c[THEN conjunct2, THEN conjunct2, THEN conjunct2, THEN conjunct1])
  show "is_digit (p ! 3)"
    by (rule c[THEN conjunct2, THEN conjunct2, THEN conjunct2, THEN conjunct2, THEN conjunct1])
  show "is_digit (p ! 5)"
    by (rule c[THEN conjunct2, THEN conjunct2, THEN conjunct2, THEN conjunct2, THEN conjunct2, THEN conjunct1])
  show "is_digit (p ! 6)"
    by (rule c[THEN conjunct2, THEN conjunct2, THEN conjunct2, THEN conjunct2, THEN conjunct2, THEN conjunct2, THEN conjunct1])
  show "is_digit (p ! 8)"
    by (rule c[THEN conjunct2, THEN conjunct2, THEN conjunct2, THEN conjunct2, THEN conjunct2, THEN conjunct2, THEN conjunct2, THEN conjunct1])
  show "is_digit (p ! 9)"
    by (rule c[THEN conjunct2, THEN conjunct2, THEN conjunct2, THEN conjunct2, THEN conjunct2, THEN conjunct2, THEN conjunct2, THEN conjunct2, THEN conjunct1])
  show "is_digit (p ! 11)"
    by (rule c[THEN conjunct2, THEN conjunct2, THEN conjunct2, THEN conjunct2, THEN conjunct2, THEN conjunct2, THEN conjunct2, THEN conjunct2, THEN conjunct2, THEN conjunct1])
  show "is_digit (p ! 12)"
    by (rule c[THEN conjunct2, THEN conjunct2, THEN conjunct2, THEN conjunct2, THEN conjunct2, THEN conjunct2, THEN conjunct2, THEN conjunct2, THEN conjunct2, THEN conjunct2, THEN conjunct1])
  show "is_digit (p ! 14)"
    by (rule c[THEN conjunct2, THEN conjunct2, THEN conjunct2, THEN conjunct2, THEN conjunct2, THEN conjunct2, THEN conjunct2, THEN conjunct2, THEN conjunct2, THEN conjunct2, THEN conjunct2, THEN conjunct1])
  show "is_digit (p ! 15)"
    by (rule c[THEN conjunct2, THEN conjunct2, THEN conjunct2, THEN conjunct2, THEN conjunct2, THEN conjunct2, THEN conjunct2, THEN conjunct2, THEN conjunct2, THEN conjunct2, THEN conjunct2, THEN conjunct2, THEN conjunct1])
  show "is_digit (p ! 17)"
    by (rule c[THEN conjunct2, THEN conjunct2, THEN conjunct2, THEN conjunct2, THEN conjunct2, THEN conjunct2, THEN conjunct2, THEN conjunct2, THEN conjunct2, THEN conjunct2, THEN conjunct2, THEN conjunct2, THEN conjunct2, THEN conjunct1])
  show "is_digit (p ! 18)"
    by (rule c[THEN conjunct2, THEN conjunct2, THEN conjunct2, THEN conjunct2, THEN conjunct2, THEN conjunct2, THEN conjunct2, THEN conjunct2, THEN conjunct2, THEN conjunct2, THEN conjunct2, THEN conjunct2, THEN conjunct2, THEN conjunct2])
qed


lemma iso_chars_order:
  assumes dp: "is_digit y1" "is_digit y2" "is_digit y3" "is_digit y4"
    "is_digit m1" "is_digit m2" "is_digit d1" "is_digit d2"
    "is_digit h1" "is_digit h2" "is_digit n1" "is_digit n2" "is_digit s1" "is_digit s2"
    and dq: "is_digit g1" "is_digit g2" "is_digit o1" "is_digit o2" "is_digit r1" "is_digit r2"
    and sp: "strptime (y1 # y2 # y3 # y4 # CHR ''-'' # m1 # m2 # CHR ''-'' # d1 # d2 # CHR '' ''
                   # h1 # h2 # CHR '':'' # n1 # n2 # CHR '':'' # [s1, s2]) = Inr tp"
    and sq: "strptime (y1 # y2 # y3 # y4 # CHR ''-'' # m1 # m2 # CHR ''-'' # d1 # d2 # CHR '' ''
                   # g1 # g2 # CHR '':'' # o1 # o2 # CHR '':'' # [r1, r2]) = Inr tq"
    and le: "[h1, h2, CHR '':'', n1, n2, CHR '':'', s1, s2]
           \<le> [g1, g2, CHR '':'', o1, o2, CHR '':'', r1, r2]"
  shows "dt_key tp \<le> dt_key tq"
proof -
  let ?Y = "1000 * digit_val y1 + 100 * digit_val y2 + 10 * digit_val y3 + digit_val y4"
  let ?M = "10 * digit_val m1 + digit_val m2"
  let ?D = "10 * digit_val d1 + digit_val d2"
  have tp: "mk_datetime ?Y ?M ?D (10 * digit_val h1 + digit_val h2)
              (10 * digit_val n1 + digit_val n2) (10 * digit_val s1 + digit_val s2) = Inr tp"
    unfolding strptime_fixed_width[OF dp, symmetric] by (rule sp)
  have tq: "mk_datetime ?Y ?M ?D (10 * digit_val g1 + digit_val g2)
              (10 * digit_val o1 + digit_val o2) (10 * digit_val r1 + digit_val r2) = Inr tq"
    unfolding strptime_fixed_width[OF dp(1-8) dq, symmetric] by (rule sq)
  note fp = mk_datetime_fields[OF tp]
  note fq = mk_datetime_fields[OF tq]
  note lex = time_chars_order[OF dp(9-14) dq le]
  have "dt_sec tp \<le> dt_sec tq"
    unfolding fp(2) fq(2)
    by (rule lex_seconds[OF digit_val_range[OF dp(9)] digit_val_range[OF dp(10)]
          digit_val_range[OF dp(11)] digit_val_range[OF dp(12)] digit_val_range[OF dp(13)]
          digit_val_range[OF dp(14)] digit_val_range[OF dq(1)] digit_val_range[OF dq(2)]
          digit_val_range[OF dq(3)] digit_val_range[OF dq(4)] digit_val_range[OF dq(5)]
          digit_val_range[OF dq(6)] fp(3) fp(4) fq(3) fq(4) lex])
  then show ?thesis
    unfolding dt_key_def fp(1) fq(1) by simp
qed

section \<open>The first punch and the threshold\<close>

text \<open>
  Two timestamps of the form \<open>YYYY-MM-DD HH:MM:SS\<close> with the same date part that both
  parse are ordered as instants the way they are ordered as strings.
\<close>

lemma iso_timestamp_order:
  assumes "iso_timestamp p" "iso_timestamp q" "date_part p = date_part q"
    and "strptime p = Inr tp" "strptime q = Inr tq" "p \<le> q"
  shows "dt_key tp \<le> dt_key tq"
proof -
  note P = iso_timestamp_nth[OF assms(1)]
  note Q = iso_timestamp_nth[OF assms(2)]
  define pl where "pl = [p ! 0, p ! 1, p ! 2, p ! 3, CHR ''-'', p ! 5, p ! 6, CHR ''-'', p ! 8, p ! 9,
              CHR '' '', p ! 11, p ! 12, CHR '':'', p ! 14, p ! 15, CHR '':'', p ! 17, p ! 18]"
  define ql where "ql = [q ! 0, q ! 1, q ! 2, q ! 3, CHR ''-'', q ! 5, q ! 6, CHR ''-'', q ! 8, q ! 9,
              CHR '' '', q ! 11, q ! 12, CHR '':'', q ! 14, q ! 15, CHR '':'', q ! 17, q ! 18]"
  have p: "p = pl" unfolding pl_def by (rule P(1))
  have q: "q = ql" unfolding ql_def by (rule Q(1))
  have "date_part pl = date_part ql" using assms(3) unfolding p q .
  then have "q ! 0 = p ! 0 \<and> q ! 1 = p ! 1 \<and> q ! 2 = p ! 2 \<and> q ! 3 = p ! 3 \<and> q ! 5 = p ! 5
      \<and> q ! 6 = p ! 6 \<and> q ! 8 = p ! 8 \<and> q ! 9 = p ! 9"
    unfolding pl_def ql_def by (rule same_date_chars[OF P(2-9) Q(2-9)])
  then have same: "q ! 0 = p ! 0" "q ! 1 = p ! 1" "q ! 2 = p ! 2" "q ! 3 = p ! 3" "q ! 5 = p ! 5"
      "q ! 6 = p ! 6" "q ! 8 = p ! 8" "q ! 9 = p ! 9"
    by simp_all
  have sp: "strptime pl = Inr tp" using assms(4) unfolding p .
  have sq: "strptime ql = Inr tq" using assms(5) unfolding q .
  have "pl \<le> ql" using assms(6) unfolding p q .
  then have le: "[p ! 11, p ! 12, CHR '':'', p ! 14, p ! 15, CHR '':'', p ! 17, p ! 18]
      \<le> [q ! 11, q ! 12, CHR '':'', q ! 14, q ! 15, CHR '':'', q ! 17, q ! 18]"
    unfolding pl_def ql_def same by simp
  show ?thesis
    by (rule iso_chars_order[OF P(2-15) Q(10-15) sp[unfolded pl_def] sq[unfolded ql_def same] le])
qed

text \<open>
  Where every timestamp of a day has the fixed form and parses, the first punch in the
  order of the strings is the earliest punch of the day.  On a day that is not a Sunday,
  for an employee code under which the day has at least one such punch, the step of the
  day returns, and there is a punch of the day whose instant is the earliest of the day
  and decides the step: when that instant is strictly later than the threshold (the
  day's date with the late-threshold time of day) the day is counted late, with an entry
  that carries the date, the timestamp of the first punch and
  \<open>str(first_punch_dt - threshold_dt)\<close>; otherwise, so also when the two instants are
  equal, the day is counted present only.
\<close>

lemma fixed_form_first_punch_is_earliest:
  assumes "weekday day \<noteq> 6"
    and "filter (in_bucket code (strftime_date day)) transactions \<noteq> []"
    and "\<forall>tx \<in> set (filter (in_bucket code (strftime_date day)) transactions).
           iso_timestamp (str_of (tx_punch_time tx))
           \<and> (\<exists>t. strptime (str_of (tx_punch_time tx)) = Inr t)"
  shows "\<exists>first_punch first_punch_dt.
      first_punch \<in> set (filter (in_bucket code (strftime_date day)) transactions)
    \<and> strptime (str_of (tx_punch_time first_punch)) = Inr first_punch_dt
    \<and> (\<forall>tx \<in> set (filter (in_bucket code (strftime_date day)) transactions).
         \<forall>t. strptime (str_of (tx_punch_time tx)) = Inr t
              \<longrightarrow> dt_key first_punch_dt \<le> dt_key t)
    \<and> day_step lt (get_emp_punches (index_transactions transactions) code) st day =
        Inr (if dt_key first_punch_dt > dt_key (combine day lt)
             then st\<lparr>work_days_required := work_days_required st + 1,
                     present := present st + 1,
                     late := late st + 1,
                     late_details := late_details st @
                       [\<lparr>ld_date = strftime_date day,
                         ld_punch_time = str_of (tx_punch_time first_punch),
                         ld_late_by = str_timedelta
                           (dt_diff first_punch_dt (combine day lt))\<rparr>]\<rparr>
             else st\<lparr>work_days_required := work_days_required st + 1,
                     present := present st + 1\<rparr>)"
proof -
  let ?d = "strftime_date day"
  let ?B = "filter (in_bucket code ?d) transactions"
  let ?f = "\<lambda>x. str_of (tx_punch_time x)"
  let ?ep = "get_emp_punches (index_transactions transactions) code"
  have bucket: "get_daily_txs ?ep ?d = ?B" by (rule index_transactions_bucket)
  from assms(2) have "sort_key ?f ?B \<noteq> []" by (simp add: sort_key_Nil_iff)
  then obtain fp rest where s: "sort_key ?f ?B = fp # rest"
    by (cases "sort_key ?f ?B") auto
  have "fp \<in> set (sort_key ?f ?B)" unfolding s by simp
  then have mem: "fp \<in> set ?B" by (simp only: set_sort)
  from assms(3) mem obtain dt where iso: "iso_timestamp (?f fp)"
    and dt: "strptime (?f fp) = Inr dt" by blast
  have "sorted (map ?f (sort_key ?f ?B))" by (rule sorted_sort_key)
  then have le: "\<forall>x \<in> set rest. ?f fp \<le> ?f x" unfolding s by simp
  have least: "dt_key dt \<le> dt_key t" if "tx \<in> set ?B" "strptime (?f tx) = Inr t" for tx t
  proof -
    from that(1) have "tx \<in> set (sort_key ?f ?B)" by (simp only: set_sort)
    then have "tx = fp \<or> tx \<in> set rest" unfolding s by simp
    with le have o: "?f fp \<le> ?f tx" by auto
    from assms(3) that(1) have i: "iso_timestamp (?f tx)" by blast
    from mem that(1) have e: "date_part (?f fp) = date_part (?f tx)"
      by (simp add: in_bucket_def)
    show ?thesis by (rule iso_timestamp_order[OF iso i e dt that(2) o])
  qed
  have step: "day_step lt ?ep st day =
        Inr (if dt_key dt > dt_key (combine day lt)
             then st\<lparr>work_days_required := work_days_required st + 1,
                     present := present st + 1,
                     late := late st + 1,
                     late_details := late_details st @
                       [\<lparr>ld_date = strftime_date day,
                         ld_punch_time = ?f fp,
                         ld_late_by = str_timedelta (dt_diff dt (combine day lt))\<rparr>]\<rparr>
             else st\<lparr>work_days_required := work_days_required st + 1,
                     present := present st + 1\<rparr>)"
    using day_step_first_punch[OF assms(1) indexed_bucket_strings,
            of transactions code fp rest lt st] s dt
    by (simp add: bucket)
  from mem dt least step show ?thesis by blast
qed

text \<open>
  Threshold 08:05:00: a day whose punches are at 17:00:00 and 08:06:00 is late by
  \<open>0:01:00\<close>; a day whose punch is at 08:05:00 is on time.
\<close>

lemma fixed_form_day_examples:
  "day_step 29100
     (get_emp_punches (index_transactions
        [sample_punch ''E1'' ''2024-02-05 17:00:00'', sample_punch ''E1'' ''2024-02-05 08:06:00''])
        ''E1'')
     zero_stats (midnight 738921)
   = Inr \<lparr>work_days_required = 1, present = 1, late = 1, absent = 0,
          late_details = [\<lparr>ld_date = ''2024-02-05'', ld_punch_time = ''2024-02-05 08:06:00'',
                           ld_late_by = ''0:01:00''\<rparr>],
          absent_details = []\<rparr>
   \<and> day_step 29100
     (get_emp_punches (index_transactions [sample_punch ''E1'' ''2024-02-05 08:05:00'']) ''E1'')
     zero_stats (midnight 738921)
   = Inr \<lparr>work_days_required = 1, present = 1, late = 0, absent = 0,
          late_details = [], absent_details = []\<rparr>"
proof -
  let ?a = "sample_punch ''E1'' ''2024-02-05 17:00:00''"
  let ?b = "sample_punch ''E1'' ''2024-02-05 08:06:00''"
  have h1: "weekday (midnight 738921) \<noteq> 6" by code_simp
  have B: "filter (in_bucket ''E1'' (strftime_date (midnight 738921))) [?a, ?b] = [?a, ?b]"
    by code_simp
  have h2: "filter (in_bucket ''E1'' (strftime_date (midnight 738921))) [?a, ?b] \<noteq> []"
    unfolding B by simp
  have sa: "str_of (tx_punch_time ?a) = ''2024-02-05 17:00:00''"
    and sb: "str_of (tx_punch_time ?b) = ''2024-02-05 08:06:00''"
    by (simp_all add: sample_punch_def)
  have ia: "iso_timestamp ''2024-02-05 17:00:00''" by code_simp
  have ib: "iso_timestamp ''2024-02-05 08:06:00''" by code_simp
  have pa: "strptime ''2024-02-05 17:00:00'' = Inr \<lparr>dt_ord = 738921, dt_sec = 61200\<rparr>"
    by code_simp
  have pb: "strptime ''2024-02-05 08:06:00'' = Inr \<lparr>dt_ord = 738921, dt_sec = 29160\<rparr>"
    by code_simp
  have h3: "\<forall>tx \<in> set (filter (in_bucket ''E1'' (strftime_date (midnight 738921))) [?a, ?b]).
           iso_timestamp (str_of (tx_punch_time tx))
           \<and> (\<exists>t. strptime (str_of (tx_punch_time tx)) = Inr t)"
    unfolding B by (simp add: sa sb ia ib pa pb)
  have d: "strftime_date (midnight 738921) = ''2024-02-05''" by code_simp
  have late: "str_timedelta (dt_diff \<lparr>dt_ord = 738921, dt_sec = 29160\<rparr>
                 (combine (midnight 738921) 29100)) = ''0:01:00''"
    by code_simp
  from fixed_form_first_punch_is_earliest[OF h1 h2 h3, of 29100 zero_stats]
  obtain fp dt where mem: "fp \<in> set [?a, ?b]"
    and dt: "strptime (str_of (tx_punch_time fp)) = Inr dt"
    and least: "\<forall>tx \<in> set [?a, ?b]. \<forall>t. strptime (str_of (tx_punch_time tx)) = Inr t
              \<longrightarrow> dt_key dt \<le> dt_key t"
    and step: "day_step 29100 (get_emp_punches (index_transactions [?a, ?b]) ''E1'')
                 zero_stats (midnight 738921) =
        Inr (if dt_key dt > dt_key (combine (midnight 738921) 29100)
             then zero_stats\<lparr>work_days_required := work_days_required zero_stats + 1,
                     present := present zero_stats + 1,
                     late := late zero_stats + 1,
                     late_details := late_details zero_stats @
                       [\<lparr>ld_date = strftime_date (midnight 738921),
                         ld_punch_time = str_of (tx_punch_time fp),
                         ld_late_by = str_timedelta
                           (dt_diff dt (combine (midnight 738921) 29100))\<rparr>]\<rparr>
             else zero_stats\<lparr>work_days_required := work_days_required zero_stats + 1,
                     present := present zero_stats + 1\<rparr>)"
    unfolding B by blast
  from least have "dt_key dt \<le> dt_key \<lparr>dt_ord = 738921, dt_sec = 29160\<rparr>"
    by (simp add: sb pb)
  then have k: "dt_key dt \<le> (738921, 29160)" by (simp add: dt_key_def)
  from mem have "fp = ?a \<or> fp = ?b" by simp
  then have fp: "fp = ?b"
  proof
    assume "fp = ?a"
    with dt have "dt = \<lparr>dt_ord = 738921, dt_sec = 61200\<rparr>" by (simp add: sa pa)
    with k show ?thesis by (simp add: dt_key_def)
  qed
  with dt have dtv: "dt = \<lparr>dt_ord = 738921, dt_sec = 29160\<rparr>" by (simp add: sb pb)
  have first: "day_step 29100 (get_emp_punches (index_transactions [?a, ?b]) ''E1'')
                 zero_stats (midnight 738921)
     = Inr \<lparr>work_days_required = 1, present = 1, late = 1, absent = 0,
          late_details = [\<lparr>ld_date = ''2024-02-05'', ld_punch_time = ''2024-02-05 08:06:00'',
                           ld_late_by = ''0:01:00''\<rparr>],
          absent_details = []\<rparr>"
    unfolding step fp dtv sb d late
    by (simp add: zero_stats_def dt_key_def combine_def midnight_def)
  let ?c = "sample_punch ''E1'' ''2024-02-05 08:05:00''"
  have C: "filter (in_bucket ''E1'' (strftime_date (midnight 738921))) [?c] = [?c]"
    by code_simp
  have g2: "filter (in_bucket ''E1'' (strftime_date (midnight 738921))) [?c] \<noteq> []"
    unfolding C by simp
  have sc: "str_of (tx_punch_time ?c) = ''2024-02-05 08:05:00''"
    by (simp add: sample_punch_def)
  have ic: "iso_timestamp ''2024-02-05 08:05:00''" by code_simp
  have pc: "strptime ''2024-02-05 08:05:00'' = Inr \<lparr>dt_ord = 738921, dt_sec = 29100\<rparr>"
    by code_simp
  have g3: "\<forall>tx \<in> set (filter (in_bucket ''E1'' (strftime_date (midnight 738921))) [?c]).
           iso_timestamp (str_of (tx_punch_time tx))
           \<and> (\<exists>t. strptime (str_of (tx_punch_time tx)) = Inr t)"
    unfolding C by (simp add: sc ic pc)
  from fixed_form_first_punch_is_earliest[OF h1 g2 g3, of 29100 zero_stats]
  obtain fq dq where memq: "fq \<in> set [?c]"
    and dq: "strptime (str_of (tx_punch_time fq)) = Inr dq"
    and stepq: "day_step 29100 (get_emp_punches (index_transactions [?c]) ''E1'')
                 zero_stats (midnight 738921) =
        Inr (if dt_key dq > dt_key (combine (midnight 738921) 29100)
             then zero_stats\<lparr>work_days_required := work_days_required zero_stats + 1,
                     present := present zero_stats + 1,
                     late := late zero_stats + 1,
                     late_details := late_details zero_stats @
                       [\<lparr>ld_date = strftime_date (midnight 738921),
                         ld_punch_time = str_of (tx_punch_time fq),
                         ld_late_by = str_timedelta
                           (dt_diff dq (combine (midnight 738921) 29100))\<rparr>]\<rparr>
             else zero_stats\<lparr>work_days_required := work_days_required zero_stats + 1,
                     present := present zero_stats + 1\<rparr>)"
    unfolding C by blast
  from memq have fq: "fq = ?c" by simp
  with dq have dqv: "dq = \<lparr>dt_ord = 738921, dt_sec = 29100\<rparr>" by (simp add: sc pc)
  have second: "day_step 29100 (get_emp_punches (index_transactions [?c]) ''E1'')
                 zero_stats (midnight 738921)
     = Inr \<lparr>work_days_required = 1, present = 1, late = 0, absent = 0,
          late_details = [], absent_details = []\<rparr>"
    unfolding stepq fq dqv
    by (simp add: zero_stats_def dt_key_def combine_def midnight_def)
  from first second show ?thesis by (rule conjI)
qed

text \<open>
  C3.  The claim fails on timestamps that \<open>strptime\<close> accepts and that are not padded
  to the fixed form.  The aggregation takes the first punch of a day in the order of
  the timestamp strings, not of the instants.  With the threshold 08:05:00 and the
  punches \<open>2024-02-05 8:00:00\<close> and \<open>2024-02-05 10:00:00\<close> of one employee on
  Monday 2024-02-05, both parse and the earliest is 08:00:00, which is not later than
  the threshold; the string \<open>2024-02-05 10:00:00\<close> is the smaller one, so the day is
  counted late by \<open>1:55:00\<close>.  On the same records \<open>build_attendance_summary\<close>, which
  sorts by the parsed instants, reports \<open>2024-02-05 8:00:00\<close> as the first punch.
\<close>

theorem first_punch_by_string_order:
  "calculate_attendance_stats ''08:05:00'' [sample_employee ''E1'']
     [sample_punch ''E1'' ''2024-02-05 8:00:00'', sample_punch ''E1'' ''2024-02-05 10:00:00'']
     (midnight 738921) (midnight 738921)
   = Inr [\<lparr>row_emp_code = ''E1'', row_first_name = Some ''Ann'', row_last_name = Some [],
           row_department = None,
           row_stats = \<lparr>work_days_required = 1, present = 1, late = 1, absent = 0,
                         late_details = [\<lparr>ld_date = ''2024-02-05'',
                                          ld_punch_time = ''2024-02-05 10:00:00'',
                                          ld_late_by = ''1:55:00''\<rparr>],
                         absent_details = []\<rparr>\<rparr>]
   \<and> strptime ''2024-02-05 8:00:00'' = Inr \<lparr>dt_ord = 738921, dt_sec = 28800\<rparr>
   \<and> strptime ''2024-02-05 10:00:00'' = Inr \<lparr>dt_ord = 738921, dt_sec = 36000\<rparr>
   \<and> strptime_time ''08:05:00'' = Inr 29100
   \<and> combine (midnight 738921) 29100 = \<lparr>dt_ord = 738921, dt_sec = 29100\<rparr>
   \<and> dt_key \<lparr>dt_ord = 738921, dt_sec = 28800\<rparr>
       < dt_key \<lparr>dt_ord = 738921, dt_sec = 36000\<rparr>
   \<and> dt_key \<lparr>dt_ord = 738921, dt_sec = 28800\<rparr>
       \<le> dt_key \<lparr>dt_ord = 738921, dt_sec = 29100\<rparr>
   \<and> build_attendance_summary
       [sample_punch ''E1'' ''2024-02-05 8:00:00'', sample_punch ''E1'' ''2024-02-05 10:00:00'']
       (midnight 738921) (midnight 738921)
     = Inr \<lparr>sm_start_date = ''2024-02-05'', sm_end_date = ''2024-02-05'', sm_count = 1,
            sm_data =
              [\<lparr>sr_emp_code = Some ''E1'', sr_first_name = Some ''Ann'',
                 sr_department = None,
                 sr_first_punch_time = Some ''2024-02-05 8:00:00'',
                 sr_first_terminal_alias = None,
                 sr_last_punch_time = Some ''2024-02-05 10:00:00'',
                 sr_last_terminal_alias = None, sr_total_punches = 2\<rparr>]\<rparr>"
  by code_simp

section \<open>Order of the detail lists and of the rows\<close>

lemma all_dates_loop_ascending:
  assumes "all_dates_loop s e [] = Inr ds"
  shows "sorted_wrt (<) (map dt_ord ds)"
proof -
  from all_dates_loop_eq[OF assms] have "map dt_ord ds = [dt_ord s..dt_ord e]"
    by (simp add: comp_def)
  then show ?thesis by simp
qed

lemma subseq_ascending:
  assumes "subseq xs ys" "sorted_wrt (<) (map f ys)"
  shows "sorted_wrt (<) (map f xs)"
  using assms
proof (induction rule: list_emb.induct)
  case (list_emb_Nil ys)
  then show ?case by simp
next
  case (list_emb_Cons xs ys y)
  then show ?case by simp
next
  case (list_emb_Cons2 x y xs ys)
  have "set xs \<subseteq> set ys"
  proof
    fix z
    assume "z \<in> set xs"
    then have "subseq [z] xs" by (simp only: subseq_singleton_left)
    from this list_emb_Cons2.hyps(2) have "subseq [z] ys" by (rule subseq_order.trans)
    then show "z \<in> set ys" by (simp only: subseq_singleton_left)
  qed
  with list_emb_Cons2 show ?case by auto
qed


text \<open>
  C6.  In every row of a returned report the length of \<open>late_details\<close> is \<open>late\<close> and
  the length of \<open>absent_details\<close> is \<open>absent\<close>; the dates of the entries of each list
  are the formatted dates of days of strictly ascending ordinal (each day of the range
  gives at most one entry to each list, in the order of the days); and the rows are in
  the order of their employee codes.
\<close>

theorem detail_lists_ordered:
  assumes "calculate_attendance_stats LATE_AFTER_TIME employees transactions start_dt end_dt
             = Inr report"
  shows "sorted (map row_emp_code report)
       \<and> (\<forall>row \<in> set report.
            int (length (late_details (row_stats row))) = late (row_stats row)
          \<and> int (length (absent_details (row_stats row))) = absent (row_stats row)
          \<and> (\<exists>late_days absent_days.
                sorted_wrt (<) (map dt_ord late_days)
              \<and> sorted_wrt (<) (map dt_ord absent_days)
              \<and> map ld_date (late_details (row_stats row)) = map strftime_date late_days
              \<and> absent_details (row_stats row) = map strftime_date absent_days))"
proof -
  from assms obtain lt ds where
    ds: "all_dates_loop start_dt end_dt [] = Inr ds" and
    srt: "sorted (map row_emp_code report)" and
    each: "\<forall>row \<in> set report.
       days_loop lt (get_emp_punches (index_transactions transactions) (row_emp_code row))
         zero_stats ds = Inr (row_stats row)"
    by (rule calculate_attendance_stats_rows)
  note asc = all_dates_loop_ascending[OF ds]
  have rows: "int (length (late_details (row_stats row))) = late (row_stats row)
          \<and> int (length (absent_details (row_stats row))) = absent (row_stats row)
          \<and> (\<exists>late_days absent_days.
                sorted_wrt (<) (map dt_ord late_days)
              \<and> sorted_wrt (<) (map dt_ord absent_days)
              \<and> map ld_date (late_details (row_stats row)) = map strftime_date late_days
              \<and> absent_details (row_stats row) = map strftime_date absent_days)"
    if "row \<in> set report" for row
  proof -
    let ?ep = "get_emp_punches (index_transactions transactions) (row_emp_code row)"
    from each that have loop: "days_loop lt ?ep zero_stats ds = Inr (row_stats row)"
      by (rule bspec)
    note z = days_loop_zero_stats[OF loop]
    note c = days_loop_counts[OF loop]
    from c obtain late_days where ld: "subseq late_days ds"
      "map ld_date (late_details (row_stats row)) = map strftime_date late_days"
      by (auto simp: zero_stats_def)
    let ?absent_days = "filter (\<lambda>d. weekday d \<noteq> 6 \<and> \<not> has_punches ?ep d) ds"
    from c have ad: "absent_details (row_stats row) = map strftime_date ?absent_days"
      by (simp add: zero_stats_def)
    have s1: "sorted_wrt (<) (map dt_ord late_days)"
      using ld(1) asc by (rule subseq_ascending)
    have "subseq ?absent_days ds" by (rule subseq_filter_left)
    then have s2: "sorted_wrt (<) (map dt_ord ?absent_days)"
      using asc by (rule subseq_ascending)
    from s1 s2 ld(2) ad have "\<exists>late_days absent_days.
                sorted_wrt (<) (map dt_ord late_days)
              \<and> sorted_wrt (<) (map dt_ord absent_days)
              \<and> map ld_date (late_details (row_stats row)) = map strftime_date late_days
              \<and> absent_details (row_stats row) = map strftime_date absent_days"
      by (intro exI[of _ late_days] exI[of _ ?absent_days] conjI)
    with z(5)[symmetric] z(4)[symmetric] show ?thesis by (intro conjI)
  qed
  from srt ballI[of "set report", OF rows] show ?thesis by (rule conjI)
qed


theorem detail_lists_ordered_witness:
  "calculate_attendance_stats ''08:05:00'' [sample_employee ''E2'', sample_employee ''E1'']
     [sample_punch ''E1'' ''2024-02-07 08:30:00'', sample_punch ''E1'' ''2024-02-05 09:00:00'',
      sample_punch ''E1'' ''2024-02-06 08:00:00'']
     (midnight 738920) (midnight 738925)
   = Inr [\<lparr>row_emp_code = ''E1'', row_first_name = Some ''Ann'', row_last_name = Some [],
        row_department = None,
        row_stats =
          \<lparr>work_days_required = 5, present = 3, late = 2, absent = 2,
           late_details =
             [\<lparr>ld_date = ''2024-02-05'', ld_punch_time = ''2024-02-05 09:00:00'',
                ld_late_by = ''0:55:00''\<rparr>,
              \<lparr>ld_date = ''2024-02-07'', ld_punch_time = ''2024-02-07 08:30:00'',
                ld_late_by = ''0:25:00''\<rparr>],
           absent_details = [''2024-02-08'', ''2024-02-09'']\<rparr>\<rparr>,
      \<lparr>row_emp_code = ''E2'', row_first_name = Some ''Ann'', row_last_name = Some [],
        row_department = None,
        row_stats =
          \<lparr>work_days_required = 5, present = 0, late = 0, absent = 5,
           late_details = [],
           absent_details =
             [''2024-02-05'', ''2024-02-06'', ''2024-02-07'', ''2024-02-08'',
              ''2024-02-09'']\<rparr>\<rparr>]
   \<and> sorted (map row_emp_code
       [\<lparr>row_emp_code = ''E1'', row_first_name = Some ''Ann'', row_last_name = Some [],
        row_department = None,
        row_stats =
          \<lparr>work_days_required = 5, present = 3, late = 2, absent = 2,
           late_details =
             [\<lparr>ld_date = ''2024-02-05'', ld_punch_time = ''2024-02-05 09:00:00'',
                ld_late_by = ''0:55:00''\<rparr>,
              \<lparr>ld_date = ''2024-02-07'', ld_punch_time = ''2024-02-07 08:30:00'',
                ld_late_by = ''0:25:00''\<rparr>],
           absent_details = [''2024-02-08'', ''2024-02-09'']\<rparr>\<rparr>,
      \<lparr>row_emp_code = ''E2'', row_first_name = Some ''Ann'', row_last_name = Some [],
        row_department = None,
        row_stats =
          \<lparr>work_days_required = 5, present = 0, late = 0, absent = 5,
           late_details = [],
           absent_details =
             [''2024-02-05'', ''2024-02-06'', ''2024-02-07'', ''2024-02-08'',
              ''2024-02-09'']\<rparr>\<rparr>])
   \<and> int (length (late_details (row_stats
       \<lparr>row_emp_code = ''E1'', row_first_name = Some ''Ann'', row_last_name = Some [],
        row_department = None,
        row_stats =
          \<lparr>work_days_required = 5, present = 3, late = 2, absent = 2,
           late_details =
             [\<lparr>ld_date = ''2024-02-05'', ld_punch_time = ''2024-02-05 09:00:00'',
                ld_late_by = ''0:55:00''\<rparr>,
              \<lparr>ld_date = ''2024-02-07'', ld_punch_time = ''2024-02-07 08:30:00'',
                ld_late_by = ''0:25:00''\<rparr>],
           absent_details = [''2024-02-08'', ''2024-02-09'']\<rparr>\<rparr>)))
     = late (row_stats
       \<lparr>row_emp_code = ''E1'', row_first_name = Some ''Ann'', row_last_name = Some [],
        row_department = None,
        row_stats =
          \<lparr>work_days_required = 5, present = 3, late = 2, absent = 2,
           late_details =
             [\<lparr>ld_date = ''2024-02-05'', ld_punch_time = ''2024-02-05 09:00:00'',
                ld_late_by = ''0:55:00''\<rparr>,
              \<lparr>ld_date = ''2024-02-07'', ld_punch_time = ''2024-02-07 08:30:00'',
                ld_late_by = ''0:25:00''\<rparr>],
           absent_details = [''2024-02-08'', ''2024-02-09'']\<rparr>\<rparr>)
   \<and> int (length (absent_details (row_stats
       \<lparr>row_emp_code = ''E1'', row_first_name = Some ''Ann'', row_last_name = Some [],
        row_department = None,
        row_stats =
          \<lparr>work_days_required = 5, present = 3, late = 2, absent = 2,
           late_details =
             [\<lparr>ld_date = ''2024-02-05'', ld_punch_time = ''2024-02-05 09:00:00'',
                ld_late_by = ''0:55:00''\<rparr>,
              \<lparr>ld_date = ''2024-02-07'', ld_punch_time = ''2024-02-07 08:30:00'',
                ld_late_by = ''0:25:00''\<rparr>],
           absent_details = [''2024-02-08'', ''2024-02-09'']\<rparr>\<rparr>)))
     = absent (row_stats
       \<lparr>row_emp_code = ''E1'', row_first_name = Some ''Ann'', row_last_name = Some [],
        row_department = None,
        row_stats =
          \<lparr>work_days_required = 5, present = 3, late = 2, absent = 2,
           late_details =
             [\<lparr>ld_date = ''2024-02-05'', ld_punch_time = ''2024-02-05 09:00:00'',
                ld_late_by = ''0:55:00''\<rparr>,
              \<lparr>ld_date = ''2024-02-07'', ld_punch_time = ''2024-02-07 08:30:00'',
                ld_late_by = ''0:25:00''\<rparr>],
           absent_details = [''2024-02-08'', ''2024-02-09'']\<rparr>\<rparr>)"
proof -
  let ?r1 = "\<lparr>row_emp_code = ''E1'', row_first_name = Some ''Ann'', row_last_name = Some [],
        row_department = None,
        row_stats =
          \<lparr>work_days_required = 5, present = 3, late = 2, absent = 2,
           late_details =
             [\<lparr>ld_date = ''2024-02-05'', ld_punch_time = ''2024-02-05 09:00:00'',
                ld_late_by = ''0:55:00''\<rparr>,
              \<lparr>ld_date = ''2024-02-07'', ld_punch_time = ''2024-02-07 08:30:00'',
                ld_late_by = ''0:25:00''\<rparr>],
           absent_details = [''2024-02-08'', ''2024-02-09'']\<rparr>\<rparr>"
  let ?r2 = "\<lparr>row_emp_code = ''E2'', row_first_name = Some ''Ann'', row_last_name = Some [],
        row_department = None,
        row_stats =
          \<lparr>work_days_required = 5, present = 0, late = 0, absent = 5,
           late_details = [],
           absent_details =
             [''2024-02-05'', ''2024-02-06'', ''2024-02-07'', ''2024-02-08'',
              ''2024-02-09'']\<rparr>\<rparr>"
  have h: "calculate_attendance_stats ''08:05:00''
     [sample_employee ''E2'', sample_employee ''E1'']
     [sample_punch ''E1'' ''2024-02-07 08:30:00'', sample_punch ''E1'' ''2024-02-05 09:00:00'',
      sample_punch ''E1'' ''2024-02-06 08:00:00'']
     (midnight 738920) (midnight 738925) = Inr [?r1, ?r2]"
    by code_simp
  note t = detail_lists_ordered[OF h]
  have mem: "?r1 \<in> set [?r1, ?r2]" by simp
  note r = t[THEN conjunct2, THEN bspec, OF mem]
  show ?thesis
    by (intro conjI)
       (rule h, rule t[THEN conjunct1], rule r[THEN conjunct1],
        rule r[THEN conjunct2, THEN conjunct1])
qed

end
